theory Spec2Isabelle
  imports Main "HOL-Library.Sublist"
begin

section \<open>Errors (package gcperrors)\<close>

text \<open>
  Go's \<^verbatim>\<open>error\<close> values. \<open>NotFound\<close> is the provider's 404 answer, \<open>ProviderError\<close> any
  other answer of the provider API, \<open>Wrapped\<close> the result of \<^verbatim>\<open>errors.Wrap(err, msg)\<close>
  and \<open>NilPointerPanic\<close> the run-time panic of a nil dereference, which unwinds through
  every caller modelled here.
\<close>

datatype gerror =
    NotFound
  | ProviderError string
  | Wrapped string gerror
  | NilPointerPanic

text \<open>
  Modelled from the spec: package \<^verbatim>\<open>cloud/gcperrors\<close> is not among the sources. The spec
  (section 7) says that not-found is told apart from every other error by a dedicated
  predicate; a wrapped error is not recognised, since the predicate inspects the error
  value itself.
\<close>

fun IsNotFound :: "gerror \<Rightarrow> bool" where
  "IsNotFound NotFound = True"
| "IsNotFound (ProviderError m) = False"
| "IsNotFound (Wrapped m e) = False"
| "IsNotFound NilPointerPanic = False"

definition IgnoreNotFound :: "gerror option \<Rightarrow> gerror option" where
  "IgnoreNotFound err =
     (case err of None \<Rightarrow> None | Some e \<Rightarrow> if IsNotFound e then None else Some e)"

section \<open>Resource keys (cloud.MetaKey) and the ownership tag\<close>

record key =
  key_Name :: string
  key_Zone :: string
  key_Region :: string

definition GlobalKey :: "string \<Rightarrow> key" where
  "GlobalKey name = \<lparr>key_Name = name, key_Zone = [], key_Region = []\<rparr>"

definition RegionalKey :: "string \<Rightarrow> string \<Rightarrow> key" where
  "RegionalKey name region = \<lparr>key_Name = name, key_Zone = [], key_Region = region\<rparr>"

definition ZonalKey :: "string \<Rightarrow> string \<Rightarrow> key" where
  "ZonalKey name zone = \<lparr>key_Name = name, key_Zone = zone, key_Region = []\<rparr>"

text \<open>
  Modelled from the spec: \<^verbatim>\<open>infrav1.ClusterTagKey\<close> (package api/v1alpha4) is not among the
  sources. The spec (section 3) fixes only that the tag is a deterministic function of
  the cluster name; no proof below looks at the prefix chosen here.
\<close>

definition ClusterTagKey :: "string \<Rightarrow> string" where
  "ClusterTagKey name = ''capg-cluster-'' @ name"

text \<open>Modelled from the spec: \<^verbatim>\<open>infrav1.InstanceStatusRunning\<close>, the status "RUNNING".\<close>

definition InstanceStatusRunning :: string where
  "InstanceStatusRunning = ''RUNNING''"

section \<open>Provider resources (package compute), the fields the code reads or writes\<close>

text \<open>
  A Go slice that the code compares with \<^verbatim>\<open>reflect.DeepEqual\<close> is a list option:
  \<open>None\<close> is the nil slice and \<open>Some []\<close> the empty slice that \<^verbatim>\<open>make\<close> returns, which
  DeepEqual tells apart. \<open>elems\<close> is what \<^verbatim>\<open>range\<close> iterates over, \<open>go_append\<close> is
  \<^verbatim>\<open>append\<close> with one element and \<open>go_make\<close> is \<^verbatim>\<open>make([]T, 0, n)\<close>.
\<close>

type_synonym 'a slice = "'a list option"

fun elems :: "'a slice \<Rightarrow> 'a list" where
  "elems None = []"
| "elems (Some xs) = xs"

definition go_append :: "'a slice \<Rightarrow> 'a \<Rightarrow> 'a slice" where
  "go_append s x = Some (elems s @ [x])"

definition go_make :: "'a slice" where
  "go_make = Some []"

text \<open>
  The records below are \<^verbatim>\<open>compute.Network\<close>, \<^verbatim>\<open>compute.Router\<close>,
  \<^verbatim>\<open>compute.SubnetworkSecondaryRange\<close>, \<^verbatim>\<open>compute.Subnetwork\<close>,
  \<^verbatim>\<open>compute.MetadataItems\<close>, \<^verbatim>\<open>compute.AccessConfig\<close>,
  \<^verbatim>\<open>compute.NetworkInterface\<close>, \<^verbatim>\<open>compute.Instance\<close> and
  \<^verbatim>\<open>compute.InstanceWithNamedPorts\<close>. A field that several of them have carries the
  resource as a prefix (\<open>net_Description\<close> is \<^verbatim>\<open>Network.Description\<close>).
\<close>

record network =
  net_Name :: string
  net_Description :: string
  net_SelfLink :: string

record router =
  rtr_Name :: string
  rtr_Description :: string
  rtr_Network :: string
  rtr_SelfLink :: string

record secondary_range =
  RangeName :: string
  IpCidrRange :: string

record subnetwork =
  sub_Name :: string
  sub_Description :: string
  sub_Network :: string
  sub_SecondaryIpRanges :: "secondary_range slice"
  sub_SelfLink :: string

record metadata_item =
  item_Key :: string
  item_Value :: "string option"

record access_config =
  NatIP :: string

record network_interface =
  NetworkIP :: string
  AccessConfigs :: "access_config list"

text \<open>\<open>ins_Metadata\<close> is a pointer to a struct holding the items: \<open>None\<close> is nil.\<close>

record vm_instance =
  ins_Name :: string
  ins_SelfLink :: string
  ins_Status :: string
  ins_Metadata :: "metadata_item list option"
  ins_NetworkInterfaces :: "network_interface list"

record instance_with_named_ports =
  iwnp_Instance :: string
  iwnp_Status :: string

section \<open>The provider API and the calls issued to it\<close>

text \<open>
  One event per call of a provider client method: the request and what the provider
  answered. A Go result \<^verbatim>\<open>(*T, error)\<close> is a sum (the client returns either the object
  or the error), a result \<^verbatim>\<open>error\<close> an option (\<open>None\<close> is nil).
\<close>

datatype call =
    NetworksGet key "gerror + network"
  | NetworksInsert key network "gerror option"
  | NetworksDelete key "gerror option"
  | RoutersGet key "gerror + router"
  | RoutersInsert key router "gerror option"
  | RoutersDelete key "gerror option"
  | SubnetworksGet key "gerror + subnetwork"
  | SubnetworksInsert key subnetwork "gerror option"
  | SubnetworksDelete key "gerror option"
  | SubnetworksPatch key subnetwork "gerror option"
  | InstancesGet key "gerror + vm_instance"
  | InstancesInsert key vm_instance "gerror option"
  | InstancesDelete key "gerror option"
  | InstanceGroupsListInstances key string "gerror + instance_with_named_ports list"
  | InstanceGroupsAddInstances key "string list" "gerror option"
  | InstanceGroupsRemoveInstances key "string list" "gerror option"

fun is_mutation :: "call \<Rightarrow> bool" where
  "is_mutation (NetworksGet k r) = False"
| "is_mutation (RoutersGet k r) = False"
| "is_mutation (SubnetworksGet k r) = False"
| "is_mutation (InstancesGet k r) = False"
| "is_mutation (InstanceGroupsListInstances k st r) = False"
| "is_mutation c = True"

text \<open>
  The state a reconciler runs in: the provider's state (of any type \<open>'p\<close>), the calls
  issued so far, oldest first, and the scope object.
\<close>

record ('p, 'sc) world =
  cloud :: 'p
  calls :: "call list"
  scope :: 'sc

definition new_calls :: "('p, 'sc) world \<Rightarrow> ('p, 'sc) world \<Rightarrow> call list" where
  "new_calls w w' = drop (length (calls w)) (calls w')"

section \<open>Package networks: the service (service.go)\<close>

text \<open>
  The three client interfaces of \<^verbatim>\<open>networks.Service\<close>. Each method is a function of the
  provider's state, which it may change; nothing is assumed of what a method answers.
\<close>

record 'p networks_Service =
  networks_Get :: "key \<Rightarrow> 'p \<Rightarrow> (gerror + network) \<times> 'p"
  networks_Insert :: "key \<Rightarrow> network \<Rightarrow> 'p \<Rightarrow> gerror option \<times> 'p"
  networks_Delete :: "key \<Rightarrow> 'p \<Rightarrow> gerror option \<times> 'p"
  routers_Get :: "key \<Rightarrow> 'p \<Rightarrow> (gerror + router) \<times> 'p"
  routers_Insert :: "key \<Rightarrow> router \<Rightarrow> 'p \<Rightarrow> gerror option \<times> 'p"
  routers_Delete :: "key \<Rightarrow> 'p \<Rightarrow> gerror option \<times> 'p"
  subnetworks_Get :: "key \<Rightarrow> 'p \<Rightarrow> (gerror + subnetwork) \<times> 'p"
  subnetworks_Insert :: "key \<Rightarrow> subnetwork \<Rightarrow> 'p \<Rightarrow> gerror option \<times> 'p"
  subnetworks_Delete :: "key \<Rightarrow> 'p \<Rightarrow> gerror option \<times> 'p"
  subnetworks_Patch :: "key \<Rightarrow> subnetwork \<Rightarrow> 'p \<Rightarrow> gerror option \<times> 'p"

text \<open>
  \<^verbatim>\<open>infrav1.Network\<close>, the status the reconciler writes: two \<^verbatim>\<open>*string\<close> fields.
\<close>

record network_status =
  status_Router :: "string option"
  status_SelfLink :: "string option"

text \<open>
  \<^verbatim>\<open>networks.Scope\<close>. A spec getter returns a pointer; the field holds the object it
  points to, so a write through the pointer is an update of the field. Each getter is
  called at most once per Reconcile or Delete.
\<close>

record cluster_scope =
  Name :: string
  Region :: string
  NetworkName :: string
  NetworkSpec :: network
  NatRouterSpec :: router
  SubnetworksSpec :: "subnetwork list"
  Network :: network_status

type_synonym 'p nworld = "('p, cluster_scope) world"

definition call_networks_Get :: "'p networks_Service \<Rightarrow> key \<Rightarrow> 'p nworld \<Rightarrow> (gerror + network) \<times> 'p nworld" where
  "call_networks_Get svc k w =
     (case networks_Get svc k (cloud w) of
        (r, p) \<Rightarrow> (r, w\<lparr>cloud := p, calls := calls w @ [NetworksGet k r]\<rparr>))"

definition call_networks_Insert :: "'p networks_Service \<Rightarrow> key \<Rightarrow> network \<Rightarrow> 'p nworld \<Rightarrow> gerror option \<times> 'p nworld" where
  "call_networks_Insert svc k obj w =
     (case networks_Insert svc k obj (cloud w) of
        (r, p) \<Rightarrow> (r, w\<lparr>cloud := p, calls := calls w @ [NetworksInsert k obj r]\<rparr>))"

definition call_networks_Delete :: "'p networks_Service \<Rightarrow> key \<Rightarrow> 'p nworld \<Rightarrow> gerror option \<times> 'p nworld" where
  "call_networks_Delete svc k w =
     (case networks_Delete svc k (cloud w) of
        (r, p) \<Rightarrow> (r, w\<lparr>cloud := p, calls := calls w @ [NetworksDelete k r]\<rparr>))"

definition call_routers_Get :: "'p networks_Service \<Rightarrow> key \<Rightarrow> 'p nworld \<Rightarrow> (gerror + router) \<times> 'p nworld" where
  "call_routers_Get svc k w =
     (case routers_Get svc k (cloud w) of
        (r, p) \<Rightarrow> (r, w\<lparr>cloud := p, calls := calls w @ [RoutersGet k r]\<rparr>))"

definition call_routers_Insert :: "'p networks_Service \<Rightarrow> key \<Rightarrow> router \<Rightarrow> 'p nworld \<Rightarrow> gerror option \<times> 'p nworld" where
  "call_routers_Insert svc k obj w =
     (case routers_Insert svc k obj (cloud w) of
        (r, p) \<Rightarrow> (r, w\<lparr>cloud := p, calls := calls w @ [RoutersInsert k obj r]\<rparr>))"

definition call_routers_Delete :: "'p networks_Service \<Rightarrow> key \<Rightarrow> 'p nworld \<Rightarrow> gerror option \<times> 'p nworld" where
  "call_routers_Delete svc k w =
     (case routers_Delete svc k (cloud w) of
        (r, p) \<Rightarrow> (r, w\<lparr>cloud := p, calls := calls w @ [RoutersDelete k r]\<rparr>))"

definition call_subnetworks_Get :: "'p networks_Service \<Rightarrow> key \<Rightarrow> 'p nworld \<Rightarrow> (gerror + subnetwork) \<times> 'p nworld" where
  "call_subnetworks_Get svc k w =
     (case subnetworks_Get svc k (cloud w) of
        (r, p) \<Rightarrow> (r, w\<lparr>cloud := p, calls := calls w @ [SubnetworksGet k r]\<rparr>))"

definition call_subnetworks_Insert :: "'p networks_Service \<Rightarrow> key \<Rightarrow> subnetwork \<Rightarrow> 'p nworld \<Rightarrow> gerror option \<times> 'p nworld" where
  "call_subnetworks_Insert svc k obj w =
     (case subnetworks_Insert svc k obj (cloud w) of
        (r, p) \<Rightarrow> (r, w\<lparr>cloud := p, calls := calls w @ [SubnetworksInsert k obj r]\<rparr>))"

definition call_subnetworks_Delete :: "'p networks_Service \<Rightarrow> key \<Rightarrow> 'p nworld \<Rightarrow> gerror option \<times> 'p nworld" where
  "call_subnetworks_Delete svc k w =
     (case subnetworks_Delete svc k (cloud w) of
        (r, p) \<Rightarrow> (r, w\<lparr>cloud := p, calls := calls w @ [SubnetworksDelete k r]\<rparr>))"

definition call_subnetworks_Patch :: "'p networks_Service \<Rightarrow> key \<Rightarrow> subnetwork \<Rightarrow> 'p nworld \<Rightarrow> gerror option \<times> 'p nworld" where
  "call_subnetworks_Patch svc k obj w =
     (case subnetworks_Patch svc k obj (cloud w) of
        (r, p) \<Rightarrow> (r, w\<lparr>cloud := p, calls := calls w @ [SubnetworksPatch k obj r]\<rparr>))"

section \<open>Package networks: Reconcile and Delete\<close>

definition createOrGetNetwork :: "'p networks_Service \<Rightarrow> 'p nworld \<Rightarrow> (gerror + network) \<times> 'p nworld" where
  "createOrGetNetwork svc w =
     (let networkKey = GlobalKey (NetworkName (scope w)) in
      case call_networks_Get svc networkKey w of
        (Inr network, w1) \<Rightarrow> (Inr network, w1)
      | (Inl err, w1) \<Rightarrow>
          if \<not> IsNotFound err then (Inl err, w1)
          else (case call_networks_Insert svc networkKey (NetworkSpec (scope w1)) w1 of
                  (Some err, w2) \<Rightarrow> (Inl err, w2)
                | (None, w2) \<Rightarrow> call_networks_Get svc networkKey w2))"

text \<open>
  \<open>spec\<close> is the pointer \<^verbatim>\<open>s.scope.NatRouterSpec()\<close> returned: the two assignments on
  the not-found path write to the object it points to.
\<close>

definition createOrGetRouter :: "'p networks_Service \<Rightarrow> network \<Rightarrow> 'p nworld \<Rightarrow> (gerror + router) \<times> 'p nworld" where
  "createOrGetRouter svc network w =
     (let spec = NatRouterSpec (scope w);
          routerKey = RegionalKey (rtr_Name spec) (Region (scope w)) in
      case call_routers_Get svc routerKey w of
        (Inr router, w1) \<Rightarrow> (Inr router, w1)
      | (Inl err, w1) \<Rightarrow>
          if \<not> IsNotFound err then (Inl err, w1)
          else
            (let spec' = spec\<lparr>rtr_Network := net_SelfLink network,
                              rtr_Description := ClusterTagKey (Name (scope w1))\<rparr>;
                 w1' = w1\<lparr>scope := (scope w1)\<lparr>NatRouterSpec := spec'\<rparr>\<rparr> in
             case call_routers_Insert svc routerKey spec' w1' of
               (Some err, w2) \<Rightarrow> (Inl err, w2)
             | (None, w2) \<Rightarrow> call_routers_Get svc routerKey w2))"

text \<open>
  Lines 183 to 203 of the loop body of \<^verbatim>\<open>createOrPatchSubnet\<close>: the merge of the
  secondary ranges. \<open>secondaryIPSets\<close> holds the range names of the observed subnet and is
  not extended while ranges of the spec are appended.
\<close>

definition mergeSecondaryRanges :: "subnetwork \<Rightarrow> subnetwork \<Rightarrow> secondary_range slice" where
  "mergeSecondaryRanges subnet spec =
     (let secondaryIPSets =
            foldl (\<lambda>S ipRange. insert (RangeName ipRange) S) {} (elems (sub_SecondaryIpRanges subnet))
      in foldl (\<lambda>secondaryIPRange ipRangeFromSpec.
                  if RangeName ipRangeFromSpec \<notin> secondaryIPSets
                  then go_append secondaryIPRange ipRangeFromSpec
                  else secondaryIPRange)
           (sub_SecondaryIpRanges subnet) (elems (sub_SecondaryIpRanges spec)))"

definition patchMergedRanges :: "'p networks_Service \<Rightarrow> key \<Rightarrow> subnetwork \<Rightarrow> subnetwork \<Rightarrow> 'p nworld \<Rightarrow> gerror option \<times> 'p nworld" where
  "patchMergedRanges svc subnetKey subnet spec w =
     (let secondaryIPRange = mergeSecondaryRanges subnet spec in
      if secondaryIPRange \<noteq> sub_SecondaryIpRanges subnet
      then call_subnetworks_Patch svc subnetKey
             (subnet\<lparr>sub_SecondaryIpRanges := secondaryIPRange\<rparr>) w
      else (None, w))"

text \<open>
  One iteration of the loop of \<^verbatim>\<open>createOrPatchSubnet\<close>. \<open>spec\<close> is an element of
  \<^verbatim>\<open>s.scope.SubnetworksSpec()\<close>, a pointer; the second component of the result is the
  object it points to after the iteration.
\<close>

definition createOrPatchSubnet_body :: "'p networks_Service \<Rightarrow> network \<Rightarrow> subnetwork \<Rightarrow> 'p nworld \<Rightarrow> gerror option \<times> subnetwork \<times> 'p nworld" where
  "createOrPatchSubnet_body svc network spec w =
     (let subnetName = sub_Name spec;
          subnetKey = RegionalKey subnetName (Region (scope w)) in
      case call_subnetworks_Get svc subnetKey w of
        (Inr subnet, w1) \<Rightarrow>
          (case patchMergedRanges svc subnetKey subnet spec w1 of (r, w2) \<Rightarrow> (r, spec, w2))
      | (Inl err, w1) \<Rightarrow>
          if \<not> IsNotFound err then (Some err, spec, w1)
          else
            (let spec' = spec\<lparr>sub_Network := net_SelfLink network,
                              sub_Description := ClusterTagKey (Name (scope w1))\<rparr> in
             case call_subnetworks_Insert svc subnetKey spec' w1 of
               (Some err, w2) \<Rightarrow> (Some err, spec', w2)
             | (None, w2) \<Rightarrow>
                 (case call_subnetworks_Get svc subnetKey w2 of
                    (Inl err, w3) \<Rightarrow> (Some err, spec', w3)
                  | (Inr subnet, w3) \<Rightarrow>
                      (case patchMergedRanges svc subnetKey subnet spec' w3 of
                         (r, w4) \<Rightarrow> (r, spec', w4)))))"

fun createOrPatchSubnet_loop :: "'p networks_Service \<Rightarrow> network \<Rightarrow> subnetwork list \<Rightarrow> 'p nworld \<Rightarrow> gerror option \<times> subnetwork list \<times> 'p nworld" where
  "createOrPatchSubnet_loop svc network [] w = (None, [], w)"
| "createOrPatchSubnet_loop svc network (spec # specs) w =
     (case createOrPatchSubnet_body svc network spec w of
        (Some err, spec', w1) \<Rightarrow> (Some err, spec' # specs, w1)
      | (None, spec', w1) \<Rightarrow>
          (case createOrPatchSubnet_loop svc network specs w1 of
             (r, specs', w2) \<Rightarrow> (r, spec' # specs', w2)))"

definition createOrPatchSubnet :: "'p networks_Service \<Rightarrow> network \<Rightarrow> 'p nworld \<Rightarrow> gerror option \<times> 'p nworld" where
  "createOrPatchSubnet svc network w =
     (case createOrPatchSubnet_loop svc network (SubnetworksSpec (scope w)) w of
        (r, specs', w1) \<Rightarrow> (r, w1\<lparr>scope := (scope w1)\<lparr>SubnetworksSpec := specs'\<rparr>\<rparr>))"

definition networks_Service_Reconcile :: "'p networks_Service \<Rightarrow> 'p nworld \<Rightarrow> gerror option \<times> 'p nworld" where
  "networks_Service_Reconcile svc w =
     (case createOrGetNetwork svc w of
        (Inl err, w1) \<Rightarrow> (Some err, w1)
      | (Inr network, w1) \<Rightarrow>
          if net_Description network = ClusterTagKey (Name (scope w1)) then
            (case createOrGetRouter svc network w1 of
               (Inl err, w2) \<Rightarrow> (Some err, w2)
             | (Inr router, w2) \<Rightarrow>
                 createOrPatchSubnet svc network
                   (w2\<lparr>scope := (scope w2)\<lparr>Network :=
                      (Network (scope w2))\<lparr>status_Router := Some (rtr_SelfLink router),
                        status_SelfLink := Some (net_SelfLink network)\<rparr>\<rparr>\<rparr>))
          else
            createOrPatchSubnet svc network
              (w1\<lparr>scope := (scope w1)\<lparr>Network :=
                 (Network (scope w1))\<lparr>status_SelfLink := Some (net_SelfLink network)\<rparr>\<rparr>\<rparr>))"

text \<open>
  Lines 237 to 257 of the loop body of \<^verbatim>\<open>deleteOrPatchSubnetwork\<close>: the ranges of the
  observed subnet whose names the spec does not have, collected in a fresh slice.
\<close>

definition restoreSecondaryRanges :: "subnetwork \<Rightarrow> subnetwork \<Rightarrow> secondary_range slice" where
  "restoreSecondaryRanges subnet spec =
     (let secondaryIPSets =
            foldl (\<lambda>S ipRangeFromSpec. insert (RangeName ipRangeFromSpec) S) {}
              (elems (sub_SecondaryIpRanges spec))
      in foldl (\<lambda>secondaryIPRange ipRange.
                  if RangeName ipRange \<notin> secondaryIPSets
                  then go_append secondaryIPRange ipRange
                  else secondaryIPRange)
           go_make (elems (sub_SecondaryIpRanges subnet)))"

text \<open>
  One iteration of the loop of \<^verbatim>\<open>deleteOrPatchSubnetwork\<close>: \<open>Inl err\<close> is
  \<^verbatim>\<open>return err\<close>, \<open>Inr ()\<close> is \<^verbatim>\<open>continue\<close> or the end of the body.
\<close>

definition deleteOrPatchSubnetwork_body :: "'p networks_Service \<Rightarrow> subnetwork \<Rightarrow> 'p nworld \<Rightarrow> (gerror option + unit) \<times> 'p nworld" where
  "deleteOrPatchSubnetwork_body svc spec w =
     (let subnetName = sub_Name spec;
          subnetKey = RegionalKey subnetName (Region (scope w)) in
      case call_subnetworks_Get svc subnetKey w of
        (Inl err, w1) \<Rightarrow>
          if \<not> IsNotFound err then (Inr (), w1)
          else (Inl (Some err), w1)
      | (Inr subnet, w1) \<Rightarrow>
          if sub_Description subnet = ClusterTagKey (Name (scope w1)) then
            (case call_subnetworks_Delete svc subnetKey w1 of
               (Some err, w2) \<Rightarrow> (Inl (Some err), w2)
             | (None, w2) \<Rightarrow> (Inr (), w2))
          else
            (let secondaryIPRange = restoreSecondaryRanges subnet spec in
             if secondaryIPRange \<noteq> sub_SecondaryIpRanges subnet then
               (case call_subnetworks_Patch svc subnetKey
                       (subnet\<lparr>sub_SecondaryIpRanges := secondaryIPRange\<rparr>) w1 of
                  (Some err, w2) \<Rightarrow> (Inl (Some err), w2)
                | (None, w2) \<Rightarrow> (Inr (), w2))
             else (Inr (), w1)))"

fun deleteOrPatchSubnetwork_loop :: "'p networks_Service \<Rightarrow> subnetwork list \<Rightarrow> 'p nworld \<Rightarrow> gerror option \<times> 'p nworld" where
  "deleteOrPatchSubnetwork_loop svc [] w = (None, w)"
| "deleteOrPatchSubnetwork_loop svc (spec # specs) w =
     (case deleteOrPatchSubnetwork_body svc spec w of
        (Inl r, w1) \<Rightarrow> (r, w1)
      | (Inr u, w1) \<Rightarrow> deleteOrPatchSubnetwork_loop svc specs w1)"

definition deleteOrPatchSubnetwork :: "'p networks_Service \<Rightarrow> 'p nworld \<Rightarrow> gerror option \<times> 'p nworld" where
  "deleteOrPatchSubnetwork svc w = deleteOrPatchSubnetwork_loop svc (SubnetworksSpec (scope w)) w"

text \<open>
  Lines 86 to 93 of \<^verbatim>\<open>Delete\<close>: the deletion of the network itself, reached on every
  path that has found the network self-owned and has not returned before.
\<close>

definition Delete_network :: "'p networks_Service \<Rightarrow> key \<Rightarrow> 'p nworld \<Rightarrow> gerror option \<times> 'p nworld" where
  "Delete_network svc networkKey w =
     (case call_networks_Delete svc networkKey w of
        (Some err, w1) \<Rightarrow> (Some err, w1)
      | (None, w1) \<Rightarrow>
          (None, w1\<lparr>scope := (scope w1)\<lparr>Network :=
             (Network (scope w1))\<lparr>status_Router := None, status_SelfLink := None\<rparr>\<rparr>\<rparr>))"

definition networks_Service_Delete :: "'p networks_Service \<Rightarrow> 'p nworld \<Rightarrow> gerror option \<times> 'p nworld" where
  "networks_Service_Delete svc w =
     (case deleteOrPatchSubnetwork svc w of
        (Some err, w1) \<Rightarrow> (Some err, w1)
      | (None, w1) \<Rightarrow>
          (let networkKey = GlobalKey (NetworkName (scope w1)) in
           case call_networks_Get svc networkKey w1 of
             (Inl err, w2) \<Rightarrow> (IgnoreNotFound (Some err), w2)
           | (Inr network, w2) \<Rightarrow>
               if net_Description network \<noteq> ClusterTagKey (Name (scope w2)) then (None, w2)
               else
                 (let routerSpec = NatRouterSpec (scope w2);
                      routerKey = RegionalKey (rtr_Name routerSpec) (Region (scope w2)) in
                  case call_routers_Get svc routerKey w2 of
                    (Inl err, w3) \<Rightarrow>
                      if \<not> IsNotFound err then (Some err, w3)
                      else Delete_network svc networkKey w3
                  | (Inr router, w3) \<Rightarrow>
                      if rtr_Description router = ClusterTagKey (Name (scope w3)) then
                        (case call_routers_Delete svc routerKey w3 of
                           (Some err, w4) \<Rightarrow>
                             if \<not> IsNotFound err then (Some err, w4)
                             else Delete_network svc networkKey w4
                         | (None, w4) \<Rightarrow> Delete_network svc networkKey w4)
                      else Delete_network svc networkKey w3)))"

section \<open>Package instances: the service\<close>

text \<open>
  The two client interfaces \<^verbatim>\<open>instances.Service\<close> calls. A ListInstances request is
  given by its \<^verbatim>\<open>InstanceState\<close>, an AddInstances or RemoveInstances request by the
  self-links of its instance references.
\<close>

record 'p instances_Service =
  instances_Get :: "key \<Rightarrow> 'p \<Rightarrow> (gerror + vm_instance) \<times> 'p"
  instances_Insert :: "key \<Rightarrow> vm_instance \<Rightarrow> 'p \<Rightarrow> gerror option \<times> 'p"
  instances_Delete :: "key \<Rightarrow> 'p \<Rightarrow> gerror option \<times> 'p"
  instancegroups_ListInstances :: "key \<Rightarrow> string \<Rightarrow> 'p \<Rightarrow> (gerror + instance_with_named_ports list) \<times> 'p"
  instancegroups_AddInstances :: "key \<Rightarrow> string list \<Rightarrow> 'p \<Rightarrow> gerror option \<times> 'p"
  instancegroups_RemoveInstances :: "key \<Rightarrow> string list \<Rightarrow> 'p \<Rightarrow> gerror option \<times> 'p"

datatype node_address_type = NodeInternalIP | NodeExternalIP

record node_address =
  addr_Type :: node_address_type
  addr_Address :: string

text \<open>
  The machine scope: what its getters return and what its setters have stored.
  \<open>InstanceSpec\<close> holds the object the pointer \<^verbatim>\<open>s.scope.InstanceSpec()\<close> points to.
\<close>

record machine_scope =
  Zone :: string
  InstanceSpec :: vm_instance
  IsControlPlane :: bool
  ControlPlaneGroupName :: string
  GetBootstrapData :: "gerror + string"
  ProviderIDSet :: bool
  Addresses :: "node_address list"
  InstanceStatus :: "string option"

type_synonym 'p mworld = "('p, machine_scope) world"

definition call_instances_Get :: "'p instances_Service \<Rightarrow> key \<Rightarrow> 'p mworld \<Rightarrow> (gerror + vm_instance) \<times> 'p mworld" where
  "call_instances_Get svc k w =
     (case instances_Get svc k (cloud w) of
        (r, p) \<Rightarrow> (r, w\<lparr>cloud := p, calls := calls w @ [InstancesGet k r]\<rparr>))"

definition call_instances_Insert :: "'p instances_Service \<Rightarrow> key \<Rightarrow> vm_instance \<Rightarrow> 'p mworld \<Rightarrow> gerror option \<times> 'p mworld" where
  "call_instances_Insert svc k obj w =
     (case instances_Insert svc k obj (cloud w) of
        (r, p) \<Rightarrow> (r, w\<lparr>cloud := p, calls := calls w @ [InstancesInsert k obj r]\<rparr>))"

definition call_instances_Delete :: "'p instances_Service \<Rightarrow> key \<Rightarrow> 'p mworld \<Rightarrow> gerror option \<times> 'p mworld" where
  "call_instances_Delete svc k w =
     (case instances_Delete svc k (cloud w) of
        (r, p) \<Rightarrow> (r, w\<lparr>cloud := p, calls := calls w @ [InstancesDelete k r]\<rparr>))"

definition call_instancegroups_ListInstances :: "'p instances_Service \<Rightarrow> key \<Rightarrow> string \<Rightarrow> 'p mworld \<Rightarrow> (gerror + instance_with_named_ports list) \<times> 'p mworld" where
  "call_instancegroups_ListInstances svc k st w =
     (case instancegroups_ListInstances svc k st (cloud w) of
        (r, p) \<Rightarrow> (r, w\<lparr>cloud := p, calls := calls w @ [InstanceGroupsListInstances k st r]\<rparr>))"

definition call_instancegroups_AddInstances :: "'p instances_Service \<Rightarrow> key \<Rightarrow> string list \<Rightarrow> 'p mworld \<Rightarrow> gerror option \<times> 'p mworld" where
  "call_instancegroups_AddInstances svc k refs w =
     (case instancegroups_AddInstances svc k refs (cloud w) of
        (r, p) \<Rightarrow> (r, w\<lparr>cloud := p, calls := calls w @ [InstanceGroupsAddInstances k refs r]\<rparr>))"

definition call_instancegroups_RemoveInstances :: "'p instances_Service \<Rightarrow> key \<Rightarrow> string list \<Rightarrow> 'p mworld \<Rightarrow> gerror option \<times> 'p mworld" where
  "call_instancegroups_RemoveInstances svc k refs w =
     (case instancegroups_RemoveInstances svc k refs (cloud w) of
        (r, p) \<Rightarrow> (r, w\<lparr>cloud := p, calls := calls w @ [InstanceGroupsRemoveInstances k refs r]\<rparr>))"

section \<open>Package instances: Reconcile and Delete\<close>

definition user_data :: "string \<Rightarrow> metadata_item" where
  "user_data bootstrapData = \<lparr>item_Key = ''user-data'', item_Value = Some bootstrapData\<rparr>"

text \<open>
  The append to \<^verbatim>\<open>instanceSpec.Metadata.Items\<close> happens before the lookup, on every call
  that got its bootstrap data; it dereferences \<^verbatim>\<open>Metadata\<close>, which panics when nil.
\<close>

definition createOrGetInstance :: "'p instances_Service \<Rightarrow> 'p mworld \<Rightarrow> (gerror + vm_instance) \<times> 'p mworld" where
  "createOrGetInstance svc w =
     (case GetBootstrapData (scope w) of
        Inl err \<Rightarrow> (Inl (Wrapped ''failed to retrieve bootstrap data'' err), w)
      | Inr bootstrapData \<Rightarrow>
          (let instanceSpec = InstanceSpec (scope w);
               instanceName = ins_Name instanceSpec;
               instanceKey = ZonalKey instanceName (Zone (scope w)) in
           case ins_Metadata instanceSpec of
             None \<Rightarrow> (Inl NilPointerPanic, w)
           | Some items \<Rightarrow>
               (let instanceSpec' = instanceSpec\<lparr>ins_Metadata := Some (items @ [user_data bootstrapData])\<rparr>;
                    w0 = w\<lparr>scope := (scope w)\<lparr>InstanceSpec := instanceSpec'\<rparr>\<rparr> in
                case call_instances_Get svc instanceKey w0 of
                  (Inr instance, w1) \<Rightarrow> (Inr instance, w1)
                | (Inl err, w1) \<Rightarrow>
                    if \<not> IsNotFound err then (Inl err, w1)
                    else (case call_instances_Insert svc instanceKey instanceSpec' w1 of
                            (Some err, w2) \<Rightarrow> (Inl err, w2)
                          | (None, w2) \<Rightarrow> call_instances_Get svc instanceKey w2))))"

text \<open>
  \<open>instanceSets\<close> is the string set the loop fills; the deferred
  \<^verbatim>\<open>instanceSets.Delete()\<close> removes nothing from it and has no other effect.
\<close>

definition registerControlPlaneInstance :: "'p instances_Service \<Rightarrow> vm_instance \<Rightarrow> 'p mworld \<Rightarrow> gerror option \<times> 'p mworld" where
  "registerControlPlaneInstance svc instance w =
     (let instancegroupName = ControlPlaneGroupName (scope w);
          instancegroupKey = ZonalKey instancegroupName (Zone (scope w)) in
      case call_instancegroups_ListInstances svc instancegroupKey ''RUNNING'' w of
        (Inl err, w1) \<Rightarrow> (Some err, w1)
      | (Inr instanceList, w1) \<Rightarrow>
          (let instanceSets = foldl (\<lambda>S i. insert (iwnp_Instance i) S) {} instanceList in
           if ins_SelfLink instance \<notin> instanceSets \<and> ins_Status instance = InstanceStatusRunning
           then call_instancegroups_AddInstances svc instancegroupKey [ins_SelfLink instance] w1
           else (None, w1)))"

text \<open>
  \<^verbatim>\<open>len(instanceSets.List()) > 0\<close> holds exactly when the set is not empty.
\<close>

definition deregisterControlPlaneInstance :: "'p instances_Service \<Rightarrow> vm_instance \<Rightarrow> 'p mworld \<Rightarrow> gerror option \<times> 'p mworld" where
  "deregisterControlPlaneInstance svc instance w =
     (let instancegroupName = ControlPlaneGroupName (scope w);
          instancegroupKey = ZonalKey instancegroupName (Zone (scope w)) in
      case call_instancegroups_ListInstances svc instancegroupKey ''RUNNING'' w of
        (Inl err, w1) \<Rightarrow> (Some err, w1)
      | (Inr instanceList, w1) \<Rightarrow>
          (let instanceSets = foldl (\<lambda>S i. insert (iwnp_Instance i) S) {} instanceList in
           if instanceSets \<noteq> {} \<and> ins_SelfLink instance \<in> instanceSets
           then call_instancegroups_RemoveInstances svc instancegroupKey [ins_SelfLink instance] w1
           else (None, w1)))"

text \<open>
  The addresses loop of \<^verbatim>\<open>Reconcile\<close>: per interface its internal address, then one
  external address per access config.
\<close>

definition nodeAddresses :: "vm_instance \<Rightarrow> node_address list" where
  "nodeAddresses instance =
     foldl (\<lambda>addresses iface.
              foldl (\<lambda>addresses ac. addresses @ [\<lparr>addr_Type = NodeExternalIP, addr_Address = NatIP ac\<rparr>])
                (addresses @ [\<lparr>addr_Type = NodeInternalIP, addr_Address = NetworkIP iface\<rparr>])
                (AccessConfigs iface))
       [] (ins_NetworkInterfaces instance)"

definition instances_Service_Reconcile :: "'p instances_Service \<Rightarrow> 'p mworld \<Rightarrow> gerror option \<times> 'p mworld" where
  "instances_Service_Reconcile svc w =
     (case createOrGetInstance svc w of
        (Inl err, w1) \<Rightarrow> (Some err, w1)
      | (Inr instance, w1) \<Rightarrow>
          (let addresses = nodeAddresses instance;
               w2 = w1\<lparr>scope := (scope w1)\<lparr>ProviderIDSet := True, Addresses := addresses,
                      InstanceStatus := Some (ins_Status instance)\<rparr>\<rparr> in
           if IsControlPlane (scope w2) then registerControlPlaneInstance svc instance w2
           else (None, w2)))"

definition instances_Service_Delete :: "'p instances_Service \<Rightarrow> 'p mworld \<Rightarrow> gerror option \<times> 'p mworld" where
  "instances_Service_Delete svc w =
     (let instanceSpec = InstanceSpec (scope w);
          instanceName = ins_Name instanceSpec;
          instanceKey = ZonalKey instanceName (Zone (scope w)) in
      case call_instances_Get svc instanceKey w of
        (Inl err, w1) \<Rightarrow> if \<not> IsNotFound err then (Some err, w1) else (None, w1)
      | (Inr instance, w1) \<Rightarrow>
          (case (if IsControlPlane (scope w1)
                 then deregisterControlPlaneInstance svc instance w1
                 else (None, w1)) of
             (Some err, w2) \<Rightarrow> (Some err, w2)
           | (None, w2) \<Rightarrow>
               (case call_instances_Delete svc instanceKey w2 of
                  (r, w3) \<Rightarrow> (IgnoreNotFound r, w3))))"

section \<open>Package controllers: the cluster reconciler\<close>

text \<open>
  What \<^verbatim>\<open>reconcile\<close> and \<^verbatim>\<open>reconcileDelete\<close> call lies outside the sources (the cluster
  scope, the firewall and load-balancer reconcilers) or is modelled above (the network
  reconciler), so each of them is a parameter: a function of the environment \<open>'e\<close>, of
  which nothing is assumed. The log calls and the event recorder are left out.
\<close>

datatype component = Networks | Firewalls | LoadBalancers

datatype phase = ReconcileCall | DeleteCall

record 'e cluster_ops =
  PatchObject :: "'e \<Rightarrow> gerror option \<times> 'e"
  ClusterRegion :: "'e \<Rightarrow> string"
  Regions_Get :: "key \<Rightarrow> 'e \<Rightarrow> (gerror + string) \<times> 'e"
  Zones_List :: "string \<Rightarrow> 'e \<Rightarrow> (gerror + string list) \<times> 'e"
  SpecFailureDomains :: "'e \<Rightarrow> string list"
  ControlPlaneEndpointHost :: "'e \<Rightarrow> string"
  component_Reconcile :: "component \<Rightarrow> 'e \<Rightarrow> gerror option \<times> 'e"
  component_Delete :: "component \<Rightarrow> 'e \<Rightarrow> gerror option \<times> 'e"

text \<open>
  The cluster object as the controller changes it, the environment, and the component
  calls made so far with what each returned, oldest first.
\<close>

record 'e cluster_state =
  env :: 'e
  invoked :: "(phase \<times> component \<times> gerror option) list"
  finalizer :: bool
  failureDomains :: "string \<rightharpoonup> bool"
  ready :: bool

record ctrl_Result =
  RequeueAfterSeconds :: nat

definition no_requeue :: ctrl_Result where
  "no_requeue = \<lparr>RequeueAfterSeconds = 0\<rparr>"

definition invoke_Reconcile :: "'e cluster_ops \<Rightarrow> component \<Rightarrow> 'e cluster_state \<Rightarrow> gerror option \<times> 'e cluster_state" where
  "invoke_Reconcile ops c s =
     (case component_Reconcile ops c (env s) of
        (r, e) \<Rightarrow> (r, s\<lparr>env := e, invoked := invoked s @ [(ReconcileCall, c, r)]\<rparr>))"

definition invoke_Delete :: "'e cluster_ops \<Rightarrow> component \<Rightarrow> 'e cluster_state \<Rightarrow> gerror option \<times> 'e cluster_state" where
  "invoke_Delete ops c s =
     (case component_Delete ops c (env s) of
        (r, e) \<Rightarrow> (r, s\<lparr>env := e, invoked := invoked s @ [(DeleteCall, c, r)]\<rparr>))"

text \<open>The loop of \<^verbatim>\<open>reconcile\<close> over the zones, lines 181 to 196.\<close>

definition computeFailureDomains :: "string list \<Rightarrow> string list \<Rightarrow> (string \<rightharpoonup> bool)" where
  "computeFailureDomains specFailureDomains zones =
     foldl (\<lambda>fds zone.
              if length specFailureDomains > 0
              then foldl (\<lambda>fds fd. if fd = zone then fds(zone \<mapsto> True) else fds) fds specFailureDomains
              else fds(zone \<mapsto> True))
       Map.empty zones"

definition reconcile :: "'e cluster_ops \<Rightarrow> 'e cluster_state \<Rightarrow> (ctrl_Result \<times> gerror option) \<times> 'e cluster_state" where
  "reconcile ops s =
     (let s0 = s\<lparr>finalizer := True\<rparr> in
      case PatchObject ops (env s0) of
        (Some err, e1) \<Rightarrow> ((no_requeue, Some err), s0\<lparr>env := e1\<rparr>)
      | (None, e1) \<Rightarrow>
      (case Regions_Get ops (GlobalKey (ClusterRegion ops e1)) e1 of
        (Inl err, e2) \<Rightarrow> ((no_requeue, Some err), s0\<lparr>env := e2\<rparr>)
      | (Inr regionSelfLink, e2) \<Rightarrow>
      (case Zones_List ops regionSelfLink e2 of
        (Inl err, e3) \<Rightarrow> ((no_requeue, Some err), s0\<lparr>env := e3\<rparr>)
      | (Inr zones, e3) \<Rightarrow>
      (let s3 = s0\<lparr>env := e3,
                   failureDomains := computeFailureDomains (SpecFailureDomains ops e3) zones\<rparr> in
       case invoke_Reconcile ops Networks s3 of
         (Some err, s4) \<Rightarrow> ((no_requeue, Some err), s4)
       | (None, s4) \<Rightarrow>
       (case invoke_Reconcile ops Firewalls s4 of
         (Some err, s5) \<Rightarrow> ((no_requeue, Some err), s5)
       | (None, s5) \<Rightarrow>
       (case invoke_Reconcile ops LoadBalancers s5 of
         (Some err, s6) \<Rightarrow> ((no_requeue, Some err), s6)
       | (None, s6) \<Rightarrow>
           if ControlPlaneEndpointHost ops (env s6) = []
           then ((\<lparr>RequeueAfterSeconds = 5\<rparr>, None), s6)
           else ((no_requeue, None), s6\<lparr>ready := True\<rparr>)))))))"

definition reconcileDelete :: "'e cluster_ops \<Rightarrow> 'e cluster_state \<Rightarrow> (ctrl_Result \<times> gerror option) \<times> 'e cluster_state" where
  "reconcileDelete ops s =
     (case invoke_Delete ops LoadBalancers s of
        (Some err, s1) \<Rightarrow> ((no_requeue, Some err), s1)
      | (None, s1) \<Rightarrow>
      (case invoke_Delete ops Firewalls s1 of
        (Some err, s2) \<Rightarrow> ((no_requeue, Some err), s2)
      | (None, s2) \<Rightarrow>
      (case invoke_Delete ops Networks s2 of
        (Some err, s3) \<Rightarrow> ((no_requeue, Some err), s3)
      | (None, s3) \<Rightarrow> ((no_requeue, None), s3\<lparr>finalizer := False\<rparr>))))"

section \<open>An in-memory provider\<close>

text \<open>
  Modelled from the spec: the provider client is an external collaborator (section 6 gives
  its operations: Get answers the resource or not-found, Insert, Patch and Delete answer
  an error or nothing). This double keeps every resource kind in a table by key. Get
  reads the table and changes nothing; Insert refuses a key that is taken and fills in
  the self-link; Patch and Delete answer not-found for a missing key. An instance group
  is a list of member self-links; ListInstances with a state keeps the members that some
  stored instance with that self-link and that status backs.
\<close>

record fake_cloud =
  fc_networks :: "key \<rightharpoonup> network"
  fc_routers :: "key \<rightharpoonup> router"
  fc_subnetworks :: "key \<rightharpoonup> subnetwork"
  fc_instances :: "(key \<times> vm_instance) list"
  fc_groups :: "key \<rightharpoonup> string list"

definition selfLinkOf :: "string \<Rightarrow> key \<Rightarrow> string" where
  "selfLinkOf kind k = kind @ ''/'' @ key_Region k @ key_Zone k @ ''/'' @ key_Name k"

definition fake_get :: "(key \<rightharpoonup> 'a) \<Rightarrow> key \<Rightarrow> gerror + 'a" where
  "fake_get m k = (case m k of None \<Rightarrow> Inl NotFound | Some x \<Rightarrow> Inr x)"

definition alreadyExists :: gerror where
  "alreadyExists = ProviderError ''alreadyExists''"

definition fake_networks_Insert :: "key \<Rightarrow> network \<Rightarrow> fake_cloud \<Rightarrow> gerror option \<times> fake_cloud" where
  "fake_networks_Insert k obj p =
     (if fc_networks p k \<noteq> None then (Some alreadyExists, p)
      else (None, p\<lparr>fc_networks := (fc_networks p)(k \<mapsto> obj\<lparr>net_SelfLink := selfLinkOf ''networks'' k\<rparr>)\<rparr>))"

definition fake_networks_Delete :: "key \<Rightarrow> fake_cloud \<Rightarrow> gerror option \<times> fake_cloud" where
  "fake_networks_Delete k p =
     (if fc_networks p k = None then (Some NotFound, p)
      else (None, p\<lparr>fc_networks := (fc_networks p)(k := None)\<rparr>))"

definition fake_routers_Insert :: "key \<Rightarrow> router \<Rightarrow> fake_cloud \<Rightarrow> gerror option \<times> fake_cloud" where
  "fake_routers_Insert k obj p =
     (if fc_routers p k \<noteq> None then (Some alreadyExists, p)
      else (None, p\<lparr>fc_routers := (fc_routers p)(k \<mapsto> obj\<lparr>rtr_SelfLink := selfLinkOf ''routers'' k\<rparr>)\<rparr>))"

definition fake_routers_Delete :: "key \<Rightarrow> fake_cloud \<Rightarrow> gerror option \<times> fake_cloud" where
  "fake_routers_Delete k p =
     (if fc_routers p k = None then (Some NotFound, p)
      else (None, p\<lparr>fc_routers := (fc_routers p)(k := None)\<rparr>))"

definition fake_subnetworks_Insert :: "key \<Rightarrow> subnetwork \<Rightarrow> fake_cloud \<Rightarrow> gerror option \<times> fake_cloud" where
  "fake_subnetworks_Insert k obj p =
     (if fc_subnetworks p k \<noteq> None then (Some alreadyExists, p)
      else (None, p\<lparr>fc_subnetworks := (fc_subnetworks p)(k \<mapsto> obj\<lparr>sub_SelfLink := selfLinkOf ''subnetworks'' k\<rparr>)\<rparr>))"

definition fake_subnetworks_Delete :: "key \<Rightarrow> fake_cloud \<Rightarrow> gerror option \<times> fake_cloud" where
  "fake_subnetworks_Delete k p =
     (if fc_subnetworks p k = None then (Some NotFound, p)
      else (None, p\<lparr>fc_subnetworks := (fc_subnetworks p)(k := None)\<rparr>))"

definition fake_subnetworks_Patch :: "key \<Rightarrow> subnetwork \<Rightarrow> fake_cloud \<Rightarrow> gerror option \<times> fake_cloud" where
  "fake_subnetworks_Patch k obj p =
     (if fc_subnetworks p k = None then (Some NotFound, p)
      else (None, p\<lparr>fc_subnetworks := (fc_subnetworks p)(k \<mapsto> obj)\<rparr>))"

definition fake_networks_Service :: "fake_cloud networks_Service" where
  "fake_networks_Service =
     \<lparr>networks_Get = (\<lambda>k p. (fake_get (fc_networks p) k, p)),
      networks_Insert = fake_networks_Insert,
      networks_Delete = fake_networks_Delete,
      routers_Get = (\<lambda>k p. (fake_get (fc_routers p) k, p)),
      routers_Insert = fake_routers_Insert,
      routers_Delete = fake_routers_Delete,
      subnetworks_Get = (\<lambda>k p. (fake_get (fc_subnetworks p) k, p)),
      subnetworks_Insert = fake_subnetworks_Insert,
      subnetworks_Delete = fake_subnetworks_Delete,
      subnetworks_Patch = fake_subnetworks_Patch\<rparr>"

definition fake_instances_Insert :: "key \<Rightarrow> vm_instance \<Rightarrow> fake_cloud \<Rightarrow> gerror option \<times> fake_cloud" where
  "fake_instances_Insert k obj p =
     (if map_of (fc_instances p) k \<noteq> None then (Some alreadyExists, p)
      else (None, p\<lparr>fc_instances := fc_instances p @
              [(k, obj\<lparr>ins_SelfLink := selfLinkOf ''instances'' k, ins_Status := ''PROVISIONING''\<rparr>)]\<rparr>))"

definition fake_instances_Delete :: "key \<Rightarrow> fake_cloud \<Rightarrow> gerror option \<times> fake_cloud" where
  "fake_instances_Delete k p =
     (if map_of (fc_instances p) k = None then (Some NotFound, p)
      else (None, p\<lparr>fc_instances := filter (\<lambda>e. fst e \<noteq> k) (fc_instances p)\<rparr>))"

definition member_in_state :: "fake_cloud \<Rightarrow> string \<Rightarrow> string \<Rightarrow> bool" where
  "member_in_state p st u =
     list_ex (\<lambda>e. ins_SelfLink (snd e) = u \<and> ins_Status (snd e) = st) (fc_instances p)"

definition fake_ListInstances :: "key \<Rightarrow> string \<Rightarrow> fake_cloud \<Rightarrow> (gerror + instance_with_named_ports list) \<times> fake_cloud" where
  "fake_ListInstances gk st p =
     (case fc_groups p gk of
        None \<Rightarrow> (Inl NotFound, p)
      | Some members \<Rightarrow>
          (Inr (map (\<lambda>u. \<lparr>iwnp_Instance = u, iwnp_Status = st\<rparr>)
                  (filter (member_in_state p st) members)), p))"

definition fake_AddInstances :: "key \<Rightarrow> string list \<Rightarrow> fake_cloud \<Rightarrow> gerror option \<times> fake_cloud" where
  "fake_AddInstances gk refs p =
     (case fc_groups p gk of
        None \<Rightarrow> (Some NotFound, p)
      | Some members \<Rightarrow> (None, p\<lparr>fc_groups := (fc_groups p)(gk \<mapsto> members @ refs)\<rparr>))"

definition fake_RemoveInstances :: "key \<Rightarrow> string list \<Rightarrow> fake_cloud \<Rightarrow> gerror option \<times> fake_cloud" where
  "fake_RemoveInstances gk refs p =
     (case fc_groups p gk of
        None \<Rightarrow> (Some NotFound, p)
      | Some members \<Rightarrow>
          (None, p\<lparr>fc_groups := (fc_groups p)(gk \<mapsto> filter (\<lambda>u. u \<notin> set refs) members)\<rparr>))"

definition fake_instances_Service :: "fake_cloud instances_Service" where
  "fake_instances_Service =
     \<lparr>instances_Get = (\<lambda>k p. (fake_get (map_of (fc_instances p)) k, p)),
      instances_Insert = fake_instances_Insert,
      instances_Delete = fake_instances_Delete,
      instancegroups_ListInstances = fake_ListInstances,
      instancegroups_AddInstances = fake_AddInstances,
      instancegroups_RemoveInstances = fake_RemoveInstances\<rparr>"

text \<open>
  The same provider when another actor removes the network between the lookup and the
  deletion: the deletion finds nothing and answers not-found.
\<close>

definition raced_networks_Service :: "fake_cloud networks_Service" where
  "raced_networks_Service =
     fake_networks_Service\<lparr>networks_Delete :=
       (\<lambda>k p. (Some NotFound, p\<lparr>fc_networks := (fc_networks p)(k := None)\<rparr>))\<rparr>"

definition empty_cloud :: fake_cloud where
  "empty_cloud = \<lparr>fc_networks = Map.empty, fc_routers = Map.empty,
     fc_subnetworks = Map.empty, fc_instances = [], fc_groups = Map.empty\<rparr>"

section \<open>Example clusters\<close>

definition net1_spec :: network where
  "net1_spec = \<lparr>net_Name = ''net1'', net_Description = ClusterTagKey ''c1'', net_SelfLink = []\<rparr>"

definition nat1_spec :: router where
  "nat1_spec = \<lparr>rtr_Name = ''nat1'', rtr_Description = [], rtr_Network = [], rtr_SelfLink = []\<rparr>"

definition rangeA :: secondary_range where
  "rangeA = \<lparr>RangeName = ''A'', IpCidrRange = ''10.0.0.0/24''\<rparr>"

definition rangeB :: secondary_range where
  "rangeB = \<lparr>RangeName = ''B'', IpCidrRange = ''10.0.1.0/24''\<rparr>"

definition sub1_spec :: subnetwork where
  "sub1_spec = \<lparr>sub_Name = ''sub1'', sub_Description = [], sub_Network = [],
     sub_SecondaryIpRanges = Some [rangeB], sub_SelfLink = []\<rparr>"

definition c1_scope :: cluster_scope where
  "c1_scope = \<lparr>Name = ''c1'', Region = ''r1'', NetworkName = ''net1'',
     NetworkSpec = net1_spec, NatRouterSpec = nat1_spec, SubnetworksSpec = [sub1_spec],
     Network = \<lparr>status_Router = None, status_SelfLink = None\<rparr>\<rparr>"

text \<open>The own network of cluster c1 as the provider holds it once created.\<close>

definition net1_owned :: network where
  "net1_owned = net1_spec\<lparr>net_SelfLink := selfLinkOf ''networks'' (GlobalKey ''net1'')\<rparr>"

text \<open>A network cluster c1 did not create, and a subnet of it with no secondary range.\<close>

definition net1_foreign :: network where
  "net1_foreign = net1_owned\<lparr>net_Description := ''shared vpc''\<rparr>"

definition sub1_foreign :: "secondary_range slice \<Rightarrow> subnetwork" where
  "sub1_foreign ranges = \<lparr>sub_Name = ''sub1'', sub_Description = ''shared subnet'',
     sub_Network = net_SelfLink net1_foreign, sub_SecondaryIpRanges = ranges,
     sub_SelfLink = selfLinkOf ''subnetworks'' (RegionalKey ''sub1'' ''r1'')\<rparr>"

definition start :: "'p \<Rightarrow> 'sc \<Rightarrow> ('p, 'sc) world" where
  "start p sc = \<lparr>cloud = p, calls = [], scope = sc\<rparr>"

text \<open>Only the network of c1 exists: router and subnets were never created.\<close>

definition only_network :: "fake_cloud nworld" where
  "only_network =
     start (empty_cloud\<lparr>fc_networks := [GlobalKey ''net1'' \<mapsto> net1_owned]\<rparr>) c1_scope"

text \<open>
  The state after cluster c1 created its network: the self-links are recorded, and the
  scope lists no subnet.
\<close>

definition network_recorded :: "fake_cloud nworld" where
  "network_recorded =
     start (empty_cloud\<lparr>fc_networks := [GlobalKey ''net1'' \<mapsto> net1_owned]\<rparr>)
       (c1_scope\<lparr>SubnetworksSpec := [],
          Network := \<lparr>status_Router = None, status_SelfLink = Some (net_SelfLink net1_owned)\<rparr>\<rparr>)"

text \<open>A provider whose subnet lookups fail with an error that is not not-found.\<close>

definition outage_networks_Service :: "fake_cloud networks_Service" where
  "outage_networks_Service =
     fake_networks_Service\<lparr>subnetworks_Get := (\<lambda>k p. (Inl (ProviderError ''backendError''), p))\<rparr>"

text \<open>
  Cluster c1 on a network and a subnet it did not create; the subnet holds the given
  secondary ranges.
\<close>

definition foreign_world :: "secondary_range slice \<Rightarrow> fake_cloud nworld" where
  "foreign_world ranges =
     start (empty_cloud\<lparr>fc_networks := [GlobalKey ''net1'' \<mapsto> net1_foreign],
        fc_subnetworks := [RegionalKey ''sub1'' ''r1'' \<mapsto> sub1_foreign ranges]\<rparr>) c1_scope"

text \<open>
  A control-plane machine cp1 of cluster c1 in zone z1, its instance as the provider
  holds it in a given status, and the control-plane instance group with given members.
\<close>

definition cp1_spec :: vm_instance where
  "cp1_spec = \<lparr>ins_Name = ''cp1'', ins_SelfLink = [], ins_Status = [],
     ins_Metadata = Some [], ins_NetworkInterfaces = []\<rparr>"

definition cp1_scope :: machine_scope where
  "cp1_scope = \<lparr>Zone = ''z1'', InstanceSpec = cp1_spec, IsControlPlane = True,
     ControlPlaneGroupName = ''c1-apiserver-z1'', GetBootstrapData = Inr ''#cloud-config'',
     ProviderIDSet = False, Addresses = [], InstanceStatus = None\<rparr>"

definition cp1_link :: string where
  "cp1_link = selfLinkOf ''instances'' (ZonalKey ''cp1'' ''z1'')"

definition cp1_vm :: "string \<Rightarrow> vm_instance" where
  "cp1_vm status = \<lparr>ins_Name = ''cp1'', ins_SelfLink = cp1_link, ins_Status = status,
     ins_Metadata = Some [user_data ''#cloud-config''],
     ins_NetworkInterfaces = [\<lparr>NetworkIP = ''10.0.0.2'', AccessConfigs = []\<rparr>]\<rparr>"

definition cp1_world :: "string \<Rightarrow> string list \<Rightarrow> fake_cloud mworld" where
  "cp1_world status members =
     start (empty_cloud\<lparr>fc_instances := [(ZonalKey ''cp1'' ''z1'', cp1_vm status)],
        fc_groups := [ZonalKey ''c1-apiserver-z1'' ''z1'' \<mapsto> members]\<rparr>) cp1_scope"

text \<open>
  A cluster controller around the network reconciler of cluster c1 without subnets. The
  firewall component returns the given result, the load-balancer component succeeds.
\<close>

definition c1_ops :: "gerror option \<Rightarrow> (fake_cloud nworld) cluster_ops" where
  "c1_ops firewall_result =
     \<lparr>PatchObject = (\<lambda>e. (None, e)),
      ClusterRegion = (\<lambda>e. Region (scope e)),
      Regions_Get = (\<lambda>k e. (Inr (selfLinkOf ''regions'' k), e)),
      Zones_List = (\<lambda>region e. (Inr [''z1'', ''z2''], e)),
      SpecFailureDomains = (\<lambda>e. []),
      ControlPlaneEndpointHost = (\<lambda>e. ''10.0.0.1''),
      component_Reconcile = (\<lambda>c e. case c of
          Networks \<Rightarrow> networks_Service_Reconcile fake_networks_Service e
        | Firewalls \<Rightarrow> (firewall_result, e)
        | LoadBalancers \<Rightarrow> (None, e)),
      component_Delete = (\<lambda>c e. case c of
          Networks \<Rightarrow> networks_Service_Delete fake_networks_Service e
        | Firewalls \<Rightarrow> (firewall_result, e)
        | LoadBalancers \<Rightarrow> (None, e))\<rparr>"

definition c1_cluster :: "(fake_cloud nworld) cluster_state" where
  "c1_cluster = \<lparr>env = start empty_cloud (c1_scope\<lparr>SubnetworksSpec := []\<rparr>), invoked = [],
     finalizer = False, failureDomains = Map.empty, ready = False\<rparr>"

section \<open>Properties of call sequences\<close>

text \<open>\<open>issues w w' cs\<close>: from \<open>w\<close> to \<open>w'\<close> exactly the calls \<open>cs\<close> were issued.\<close>

definition issues :: "('p, 'sc) world \<Rightarrow> ('p, 'sc) world \<Rightarrow> call list \<Rightarrow> bool" where
  "issues w w' cs \<longleftrightarrow> calls w' = calls w @ cs"

fun is_subnetworks_call :: "call \<Rightarrow> bool" where
  "is_subnetworks_call (SubnetworksGet k r) = True"
| "is_subnetworks_call (SubnetworksInsert k obj r) = True"
| "is_subnetworks_call (SubnetworksDelete k r) = True"
| "is_subnetworks_call (SubnetworksPatch k obj r) = True"
| "is_subnetworks_call c = False"

fun is_routers_call :: "call \<Rightarrow> bool" where
  "is_routers_call (RoutersGet k r) = True"
| "is_routers_call (RoutersInsert k obj r) = True"
| "is_routers_call (RoutersDelete k r) = True"
| "is_routers_call c = False"

fun is_teardown :: "call \<Rightarrow> bool" where
  "is_teardown (NetworksDelete k r) = True"
| "is_teardown (RoutersDelete k r) = True"
| "is_teardown c = False"

text \<open>The networks the provider returned to lookups, in the order of the calls.\<close>

fun observed_network :: "call \<Rightarrow> network list" where
  "observed_network (NetworksGet k (Inr n)) = [n]"
| "observed_network c = []"

definition observed_networks :: "call list \<Rightarrow> network list" where
  "observed_networks cs = concat (map observed_network cs)"

text \<open>
  The union of two range lists keyed by range name, in the words of the specification:
  the observed entries stay as they are and in their order, and the entries of the
  desired list whose name no observed entry has are appended after them.
\<close>

definition range_union :: "secondary_range list \<Rightarrow> secondary_range list \<Rightarrow> secondary_range list" where
  "range_union observed desired =
     observed @ filter (\<lambda>r. RangeName r \<notin> RangeName ` set observed) desired"

text \<open>
  A call sequence never removes a range: it holds no subnet Delete, and every subnet
  Patch directly follows a successful Get of the same key and submits the subnet that
  Get returned with a range list that starts with the observed one.
\<close>

definition keeps_ranges :: "call option \<Rightarrow> call \<Rightarrow> bool" where
  "keeps_ranges prev c =
     (case c of
        SubnetworksPatch k obj r \<Rightarrow>
          (case prev of
             Some (SubnetworksGet k' (Inr subnet)) \<Rightarrow>
               k' = k \<and> obj = subnet\<lparr>sub_SecondaryIpRanges := sub_SecondaryIpRanges obj\<rparr> \<and>
               prefix (elems (sub_SecondaryIpRanges subnet)) (elems (sub_SecondaryIpRanges obj))
           | _ \<Rightarrow> False)
      | SubnetworksDelete k r \<Rightarrow> False
      | _ \<Rightarrow> True)"

fun never_removes :: "call option \<Rightarrow> call list \<Rightarrow> bool" where
  "never_removes prev [] = True"
| "never_removes prev (c # cs) = (keeps_ranges prev c \<and> never_removes (Some c) cs)"

fun is_AddInstances :: "call \<Rightarrow> bool" where
  "is_AddInstances (InstanceGroupsAddInstances k refs r) = True"
| "is_AddInstances c = False"


text \<open>From \<open>w\<close> to \<open>w'\<close> the calls issued never remove a range, whatever call came before.\<close>

definition safe :: "('p, 'sc) world \<Rightarrow> ('p, 'sc) world \<Rightarrow> bool" where
  "safe w w' \<longleftrightarrow> (\<exists>cs. issues w w' cs \<and> (\<forall>prev. never_removes prev cs))"

text \<open>
  The component calls made from \<open>s\<close> to \<open>s'\<close>. \<open>runs_in_order\<close>: they are calls of the
  given phase, of the components of \<open>order\<close> from its first on with none left out, and
  every call but the last returned nil. \<open>returns_failure\<close>: every call returned nil or the
  error \<open>err\<close>.
\<close>

definition new_invoked :: "'e cluster_state \<Rightarrow> 'e cluster_state \<Rightarrow> (phase \<times> component \<times> gerror option) list" where
  "new_invoked s s' = drop (length (invoked s)) (invoked s')"

definition runs_in_order :: "phase \<Rightarrow> component list \<Rightarrow> (phase \<times> component \<times> gerror option) list \<Rightarrow> bool" where
  "runs_in_order ph order log \<longleftrightarrow>
     map (\<lambda>x. fst (snd x)) log = take (length log) order \<and>
     list_all (\<lambda>x. fst x = ph) log \<and>
     list_all (\<lambda>x. snd (snd x) = None) (butlast log)"

definition returns_failure :: "(phase \<times> component \<times> gerror option) list \<Rightarrow> gerror option \<Rightarrow> bool" where
  "returns_failure log err \<longleftrightarrow> list_all (\<lambda>x. snd (snd x) = None \<or> snd (snd x) = err) log"

text \<open>
  What the not-found paths write into a router or subnet spec object: the self-link of
  the network and the ownership tag. \<open>spec_written sc sc'\<close>: between the scopes \<open>sc\<close> and
  \<open>sc'\<close> nothing but such writes happened to the spec objects.
\<close>

definition stamped_router :: "string \<Rightarrow> string \<Rightarrow> router \<Rightarrow> router" where
  "stamped_router link tag spec = spec\<lparr>rtr_Network := link, rtr_Description := tag\<rparr>"

definition stamped_subnet :: "string \<Rightarrow> string \<Rightarrow> subnetwork \<Rightarrow> subnetwork" where
  "stamped_subnet link tag spec = spec\<lparr>sub_Network := link, sub_Description := tag\<rparr>"

definition spec_written :: "cluster_scope \<Rightarrow> cluster_scope \<Rightarrow> bool" where
  "spec_written sc sc' \<longleftrightarrow>
     Name sc' = Name sc \<and> Region sc' = Region sc \<and> NetworkName sc' = NetworkName sc \<and>
     NetworkSpec sc' = NetworkSpec sc \<and>
     (\<exists>link. (NatRouterSpec sc' = NatRouterSpec sc \<or>
              NatRouterSpec sc' = stamped_router link (ClusterTagKey (Name sc)) (NatRouterSpec sc)) \<and>
        list_all2 (\<lambda>spec spec'. spec' = spec \<or>
                     spec' = stamped_subnet link (ClusterTagKey (Name sc)) spec)
          (SubnetworksSpec sc) (SubnetworksSpec sc'))"

text \<open>
  For the in-memory provider. \<open>quiet w w'\<close>: from \<open>w\<close> to \<open>w'\<close> only lookups and
  listings were issued and the provider state is the same. \<open>net_converged\<close> and
  \<open>machine_converged\<close>: the provider holds what the scope asks for (the network, its router
  when the network is self-owned, every subnet with at least the range names of its spec;
  the instance and, for a running control-plane instance, its group membership).
  \<open>grows p p'\<close>: from \<open>p\<close> to \<open>p'\<close> networks and routers are the same and every subnet is
  still there with at least its range names.
\<close>

definition quiet :: "('p, 'sc) world \<Rightarrow> ('p, 'sc) world \<Rightarrow> bool" where
  "quiet w w' \<longleftrightarrow> cloud w' = cloud w \<and> (\<exists>cs. issues w w' cs \<and> filter is_mutation cs = [])"

definition range_names :: "subnetwork \<Rightarrow> string set" where
  "range_names s = RangeName ` set (elems (sub_SecondaryIpRanges s))"

definition subnet_converged :: "fake_cloud \<Rightarrow> string \<Rightarrow> subnetwork \<Rightarrow> bool" where
  "subnet_converged p region spec \<longleftrightarrow>
     (\<exists>subnet. fc_subnetworks p (RegionalKey (sub_Name spec) region) = Some subnet \<and>
        range_names spec \<subseteq> range_names subnet)"

definition net_converged :: "cluster_scope \<Rightarrow> fake_cloud \<Rightarrow> bool" where
  "net_converged sc p \<longleftrightarrow>
     (\<exists>n. fc_networks p (GlobalKey (NetworkName sc)) = Some n \<and>
        (net_Description n = ClusterTagKey (Name sc) \<longrightarrow>
           fc_routers p (RegionalKey (rtr_Name (NatRouterSpec sc)) (Region sc)) \<noteq> None)) \<and>
     (\<forall>spec\<in>set (SubnetworksSpec sc). subnet_converged p (Region sc) spec)"

definition grows :: "fake_cloud \<Rightarrow> fake_cloud \<Rightarrow> bool" where
  "grows p p' \<longleftrightarrow>
     fc_networks p' = fc_networks p \<and> fc_routers p' = fc_routers p \<and>
     (\<forall>k s. fc_subnetworks p k = Some s \<longrightarrow>
        (\<exists>s'. fc_subnetworks p' k = Some s' \<and> range_names s \<subseteq> range_names s'))"

definition machine_converged :: "machine_scope \<Rightarrow> fake_cloud \<Rightarrow> bool" where
  "machine_converged sc p \<longleftrightarrow>
     (\<exists>bootstrapData items x.
        GetBootstrapData sc = Inr bootstrapData \<and>
        ins_Metadata (InstanceSpec sc) = Some items \<and>
        map_of (fc_instances p) (ZonalKey (ins_Name (InstanceSpec sc)) (Zone sc)) = Some x \<and>
        (IsControlPlane sc \<longrightarrow>
           (\<exists>members. fc_groups p (ZonalKey (ControlPlaneGroupName sc) (Zone sc)) = Some members \<and>
              (ins_Status x = InstanceStatusRunning \<longrightarrow> ins_SelfLink x \<in> set members))))"

text \<open>
  The subnet calls of \<^verbatim>\<open>createOrPatchSubnet\<close>, read off a call sequence spec by spec. A
  step over the calls of one subnet spec ends in \<open>Continue rest\<close> (the iteration is complete
  and \<open>rest\<close> is left for the next spec), in \<open>Stop err\<close> (the iteration ended the loop with
  the error \<open>err\<close> and no call follows), or in \<open>Bad\<close> (the calls are not those of an
  iteration).

  \<open>patched_as_union k subnet spec cs\<close>: for the observed \<open>subnet\<close>, the calls start with no
  Patch when the union of the observed ranges and the ranges of \<open>spec\<close> is the observed
  list, and otherwise with one Patch of key \<open>k\<close> that submits the observed subnet with the
  union as its range list.
  \<open>created_then_merged k st cs\<close>: the calls start with the Insert of the spec \<open>st\<close> under
  key \<open>k\<close>, then the lookup of \<open>k\<close>, then the Patch step for the subnet found.
  \<open>merged_head\<close>: the calls start with the lookup of the subnet of \<open>spec\<close> in the region;
  the Patch step follows when the subnet was found, creation and then the Patch step when
  the lookup answered not-found, and nothing when it failed otherwise.
  \<open>merged_trace region link tag specs cs r\<close>: \<open>cs\<close> is exactly that, for every spec of
  \<open>specs\<close> in order up to the first error, and \<open>r\<close> is that error, or nil when there is
  none.
\<close>

datatype walk = Bad | Stop gerror | Continue "call list"

definition patched_as_union :: "key \<Rightarrow> subnetwork \<Rightarrow> subnetwork \<Rightarrow> call list \<Rightarrow> walk" where
  "patched_as_union k subnet spec cs =
     (let observed = elems (sub_SecondaryIpRanges subnet);
          union = range_union observed (elems (sub_SecondaryIpRanges spec))
      in if union = observed then Continue cs
         else (case cs of
                 SubnetworksPatch k' obj r # rest \<Rightarrow>
                   if k' = k \<and> obj = subnet\<lparr>sub_SecondaryIpRanges := Some union\<rparr>
                   then (case r of
                           None \<Rightarrow> Continue rest
                         | Some err \<Rightarrow> if rest = [] then Stop err else Bad)
                   else Bad
               | _ \<Rightarrow> Bad))"

definition created_then_merged :: "key \<Rightarrow> subnetwork \<Rightarrow> call list \<Rightarrow> walk" where
  "created_then_merged k st cs =
     (case cs of
        SubnetworksInsert k' obj r # rest \<Rightarrow>
          if k' = k \<and> obj = st
          then (case r of
                  Some err \<Rightarrow> if rest = [] then Stop err else Bad
                | None \<Rightarrow>
                    (case rest of
                       SubnetworksGet k'' g # rest' \<Rightarrow>
                         if k'' = k
                         then (case g of
                                 Inl err \<Rightarrow> if rest' = [] then Stop err else Bad
                               | Inr subnet \<Rightarrow> patched_as_union k subnet st rest')
                         else Bad
                     | _ \<Rightarrow> Bad))
          else Bad
      | _ \<Rightarrow> Bad)"

definition merged_head :: "string \<Rightarrow> string \<Rightarrow> string \<Rightarrow> subnetwork \<Rightarrow> call list \<Rightarrow> walk" where
  "merged_head region link tag spec cs =
     (let k = RegionalKey (sub_Name spec) region
      in case cs of
           SubnetworksGet k' g # rest \<Rightarrow>
             if k' = k
             then (case g of
                     Inr subnet \<Rightarrow> patched_as_union k subnet spec rest
                   | Inl err \<Rightarrow>
                       if IsNotFound err
                       then created_then_merged k (stamped_subnet link tag spec) rest
                       else if rest = [] then Stop err else Bad)
             else Bad
         | _ \<Rightarrow> Bad)"

fun merged_trace :: "string \<Rightarrow> string \<Rightarrow> string \<Rightarrow> subnetwork list \<Rightarrow> call list \<Rightarrow> gerror option \<Rightarrow> bool" where
  "merged_trace region link tag [] cs r = (cs = [] \<and> r = None)"
| "merged_trace region link tag (spec # specs) cs r =
     (case merged_head region link tag spec cs of
        Bad \<Rightarrow> False
      | Stop err \<Rightarrow> r = Some err
      | Continue rest \<Rightarrow> merged_trace region link tag specs rest r)"

text \<open>
  The subnet spec objects after \<^verbatim>\<open>createOrPatchSubnet\<close>, from the specs before and the
  subnet calls: a spec whose lookup answered not-found has the self-link \<open>link\<close> and the
  tag \<open>tag\<close> written into it; a spec whose subnet was found, whose lookup failed
  otherwise, or that the loop did not reach, is as before. \<open>router_lookup_not_found\<close>: a
  router lookup that answered not-found. \<open>observed_link\<close>: the self-link of the network
  that the last successful network lookup returned.
\<close>

fun skip_patch :: "call list \<Rightarrow> call list" where
  "skip_patch (SubnetworksPatch k obj r # cs) = cs"
| "skip_patch cs = cs"

definition written_head :: "string \<Rightarrow> string \<Rightarrow> subnetwork \<Rightarrow> call list \<Rightarrow> subnetwork \<times> call list option" where
  "written_head link tag spec cs =
     (case cs of
        SubnetworksGet k (Inr subnet) # rest \<Rightarrow> (spec, Some (skip_patch rest))
      | SubnetworksGet k (Inl err) # rest \<Rightarrow>
          if IsNotFound err
          then (stamped_subnet link tag spec,
                case rest of
                  SubnetworksInsert k' obj None # SubnetworksGet k'' (Inr subnet) # rest' \<Rightarrow>
                    Some (skip_patch rest')
                | _ \<Rightarrow> None)
          else (spec, None)
      | _ \<Rightarrow> (spec, None))"

fun written_subnets :: "string \<Rightarrow> string \<Rightarrow> subnetwork list \<Rightarrow> call list \<Rightarrow> subnetwork list" where
  "written_subnets link tag [] cs = []"
| "written_subnets link tag (spec # specs) cs =
     (case written_head link tag spec cs of
        (spec', None) \<Rightarrow> spec' # specs
      | (spec', Some rest) \<Rightarrow> spec' # written_subnets link tag specs rest)"

fun router_lookup_not_found :: "call \<Rightarrow> bool" where
  "router_lookup_not_found (RoutersGet k (Inl err)) = IsNotFound err"
| "router_lookup_not_found c = False"

definition observed_link :: "call list \<Rightarrow> string" where
  "observed_link cs = (case observed_networks cs of [] \<Rightarrow> [] | n # ns \<Rightarrow> net_SelfLink (last (n # ns)))"

text \<open>
  The five courses of one iteration of the loop of \<^verbatim>\<open>createOrPatchSubnet\<close> for the spec
  \<open>spec\<close> with key \<open>k\<close>, where \<open>st\<close> is the spec with self-link and tag written into it:
  the calls \<open>cs\<close>, the result \<open>r\<close> and the spec object \<open>spec'\<close> afterwards.
\<close>

definition patch_as_merged :: "key \<Rightarrow> subnetwork \<Rightarrow> subnetwork \<Rightarrow> call list \<Rightarrow> gerror option \<Rightarrow> bool" where
  "patch_as_merged k subnet spec pcs r \<longleftrightarrow>
     (let observed = elems (sub_SecondaryIpRanges subnet);
          union = range_union observed (elems (sub_SecondaryIpRanges spec))
      in if union = observed then pcs = [] \<and> r = None
         else pcs = [SubnetworksPatch k (subnet\<lparr>sub_SecondaryIpRanges := Some union\<rparr>) r])"

definition subnet_iteration :: "key \<Rightarrow> subnetwork \<Rightarrow> subnetwork \<Rightarrow> call list \<Rightarrow> gerror option \<Rightarrow> subnetwork \<Rightarrow> bool" where
  "subnet_iteration k st spec cs r spec' \<longleftrightarrow>
     (\<exists>subnet pcs. cs = SubnetworksGet k (Inr subnet) # pcs \<and> patch_as_merged k subnet spec pcs r \<and> spec' = spec) \<or>
     (\<exists>err. \<not> IsNotFound err \<and> cs = [SubnetworksGet k (Inl err)] \<and> r = Some err \<and> spec' = spec) \<or>
     (\<exists>err e. IsNotFound err \<and> cs = [SubnetworksGet k (Inl err), SubnetworksInsert k st (Some e)] \<and>
        r = Some e \<and> spec' = st) \<or>
     (\<exists>err e. IsNotFound err \<and>
        cs = [SubnetworksGet k (Inl err), SubnetworksInsert k st None, SubnetworksGet k (Inl e)] \<and>
        r = Some e \<and> spec' = st) \<or>
     (\<exists>err subnet pcs. IsNotFound err \<and>
        cs = SubnetworksGet k (Inl err) # SubnetworksInsert k st None # SubnetworksGet k (Inr subnet) # pcs \<and>
        patch_as_merged k subnet st pcs r \<and> spec' = st)"

section \<open>Calls issued by the network reconciler\<close>

lemma issues_refl: "issues w w []"
  by (simp add: issues_def)

lemma issues_trans: "issues w w1 cs1 \<Longrightarrow> issues w1 w2 cs2 \<Longrightarrow> issues w w2 (cs1 @ cs2)"
  by (simp add: issues_def)

lemma issues_new_calls: "issues w w' cs \<Longrightarrow> new_calls w w' = cs"
  by (simp add: issues_def new_calls_def)

lemma issues_scope_update [simp]:
  "issues w (w'\<lparr>scope := sc\<rparr>) cs = issues w w' cs"
  "issues (w\<lparr>scope := sc\<rparr>) w' cs = issues w w' cs"
  by (simp_all add: issues_def)

lemmas call_defs = call_networks_Get_def call_networks_Insert_def call_networks_Delete_def
  call_routers_Get_def call_routers_Insert_def call_routers_Delete_def
  call_subnetworks_Get_def call_subnetworks_Insert_def call_subnetworks_Delete_def
  call_subnetworks_Patch_def

lemma call_networks_Get_issues:
  "call_networks_Get svc k w = (r, w') \<Longrightarrow> issues w w' [NetworksGet k r] \<and> scope w' = scope w"
  by (auto simp: call_defs issues_def split: prod.splits)

lemma call_networks_Insert_issues:
  "call_networks_Insert svc k obj w = (r, w') \<Longrightarrow> issues w w' [NetworksInsert k obj r] \<and> scope w' = scope w"
  by (auto simp: call_defs issues_def split: prod.splits)

lemma call_networks_Delete_issues:
  "call_networks_Delete svc k w = (r, w') \<Longrightarrow> issues w w' [NetworksDelete k r] \<and> scope w' = scope w"
  by (auto simp: call_defs issues_def split: prod.splits)

lemma call_routers_Get_issues:
  "call_routers_Get svc k w = (r, w') \<Longrightarrow> issues w w' [RoutersGet k r] \<and> scope w' = scope w"
  by (auto simp: call_defs issues_def split: prod.splits)

lemma call_routers_Insert_issues:
  "call_routers_Insert svc k obj w = (r, w') \<Longrightarrow> issues w w' [RoutersInsert k obj r] \<and> scope w' = scope w"
  by (auto simp: call_defs issues_def split: prod.splits)

lemma call_routers_Delete_issues:
  "call_routers_Delete svc k w = (r, w') \<Longrightarrow> issues w w' [RoutersDelete k r] \<and> scope w' = scope w"
  by (auto simp: call_defs issues_def split: prod.splits)

lemma call_subnetworks_Get_issues:
  "call_subnetworks_Get svc k w = (r, w') \<Longrightarrow> issues w w' [SubnetworksGet k r] \<and> scope w' = scope w"
  by (auto simp: call_defs issues_def split: prod.splits)

lemma call_subnetworks_Insert_issues:
  "call_subnetworks_Insert svc k obj w = (r, w') \<Longrightarrow> issues w w' [SubnetworksInsert k obj r] \<and> scope w' = scope w"
  by (auto simp: call_defs issues_def split: prod.splits)

lemma call_subnetworks_Delete_issues:
  "call_subnetworks_Delete svc k w = (r, w') \<Longrightarrow> issues w w' [SubnetworksDelete k r] \<and> scope w' = scope w"
  by (auto simp: call_defs issues_def split: prod.splits)

lemma call_subnetworks_Patch_issues:
  "call_subnetworks_Patch svc k obj w = (r, w') \<Longrightarrow> issues w w' [SubnetworksPatch k obj r] \<and> scope w' = scope w"
  by (auto simp: call_defs issues_def split: prod.splits)

lemma observed_networks_simps [simp]:
  "observed_networks [] = []"
  "observed_networks (c # cs) = observed_network c @ observed_networks cs"
  "observed_networks (cs @ ds) = observed_networks cs @ observed_networks ds"
  by (simp_all add: observed_networks_def)

lemma subnetworks_calls_only:
  "list_all is_subnetworks_call cs \<Longrightarrow>
   filter is_routers_call cs = [] \<and> filter is_teardown cs = [] \<and> observed_networks cs = []"
proof (induction cs)
  case Nil
  then show ?case by simp
next
  case (Cons c cs)
  then show ?case by (cases c) auto
qed

lemma patchMergedRanges_issues:
  assumes "patchMergedRanges svc k subnet spec w = (r, w')"
  shows "scope w' = scope w \<and> (\<exists>cs. issues w w' cs \<and> list_all is_subnetworks_call cs)"
proof (cases "mergeSecondaryRanges subnet spec \<noteq> sub_SecondaryIpRanges subnet")
  case True
  with assms have "call_subnetworks_Patch svc k
      (subnet\<lparr>sub_SecondaryIpRanges := mergeSecondaryRanges subnet spec\<rparr>) w = (r, w')"
    by (simp add: patchMergedRanges_def)
  from call_subnetworks_Patch_issues [OF this] show ?thesis by auto
next
  case False
  with assms have "w' = w" by (simp add: patchMergedRanges_def)
  then show ?thesis using issues_refl [of w] by auto
qed

lemma createOrPatchSubnet_body_issues:
  assumes "createOrPatchSubnet_body svc network spec w = (r, spec', w')"
  shows "scope w' = scope w \<and> (\<exists>cs. issues w w' cs \<and> list_all is_subnetworks_call cs)"
  using assms
  unfolding createOrPatchSubnet_body_def Let_def
  by (auto split: prod.splits sum.splits if_splits option.splits
      dest!: call_subnetworks_Get_issues call_subnetworks_Insert_issues patchMergedRanges_issues
      simp: issues_def)

lemma createOrPatchSubnet_loop_issues:
  "createOrPatchSubnet_loop svc network specs w = (r, specs', w') \<Longrightarrow>
   scope w' = scope w \<and> (\<exists>cs. issues w w' cs \<and> list_all is_subnetworks_call cs)"
proof (induction specs arbitrary: w r specs' w')
  case Nil
  then show ?case using issues_refl [of w] by auto
next
  case (Cons spec specs)
  obtain r1 spec1 w1 where b: "createOrPatchSubnet_body svc network spec w = (r1, spec1, w1)"
    by (cases "createOrPatchSubnet_body svc network spec w") auto
  from createOrPatchSubnet_body_issues [OF b] obtain cs1 where
    1: "scope w1 = scope w" "issues w w1 cs1" "list_all is_subnetworks_call cs1" by auto
  show ?case
  proof (cases r1)
    case (Some err)
    with Cons.prems b have "w' = w1" by simp
    with 1 show ?thesis by auto
  next
    case None
    obtain r2 specs2 w2 where l: "createOrPatchSubnet_loop svc network specs w1 = (r2, specs2, w2)"
      by (cases "createOrPatchSubnet_loop svc network specs w1") auto
    from Cons.IH [OF l] obtain cs2 where
      2: "scope w2 = scope w1" "issues w1 w2 cs2" "list_all is_subnetworks_call cs2" by auto
    from None Cons.prems b l have "w' = w2" by simp
    with 1 2 issues_trans [OF 1(2) 2(2)] show ?thesis by auto
  qed
qed

lemma createOrPatchSubnet_issues:
  assumes "createOrPatchSubnet svc network w = (r, w')"
  shows "\<exists>cs. issues w w' cs \<and> list_all is_subnetworks_call cs"
proof -
  obtain r1 specs1 w1 where l: "createOrPatchSubnet_loop svc network (SubnetworksSpec (scope w)) w = (r1, specs1, w1)"
    by (cases "createOrPatchSubnet_loop svc network (SubnetworksSpec (scope w)) w") auto
  with assms have "w' = w1\<lparr>scope := (scope w1)\<lparr>SubnetworksSpec := specs1\<rparr>\<rparr>"
    by (simp add: createOrPatchSubnet_def)
  with createOrPatchSubnet_loop_issues [OF l] show ?thesis by auto
qed

lemma createOrGetNetwork_issues:
  assumes "createOrGetNetwork svc w = (r, w')"
  shows "scope w' = scope w \<and>
    (\<exists>cs. issues w w' cs \<and> filter is_routers_call cs = [] \<and>
       observed_networks cs = (case r of Inl e \<Rightarrow> [] | Inr n \<Rightarrow> [n]))"
  using assms unfolding createOrGetNetwork_def Let_def
  by (auto split: prod.splits sum.splits if_splits option.splits
      dest!: call_networks_Get_issues call_networks_Insert_issues simp: issues_def)

lemma createOrGetRouter_issues:
  assumes "createOrGetRouter svc network w = (r, w')"
  shows "\<exists>cs. issues w w' cs"
  using assms unfolding createOrGetRouter_def Let_def
  by (auto split: prod.splits sum.splits if_splits option.splits
      dest!: call_routers_Get_issues call_routers_Insert_issues simp: issues_def)

lemma deleteOrPatchSubnetwork_body_issues:
  assumes "deleteOrPatchSubnetwork_body svc spec w = (r, w')"
  shows "scope w' = scope w \<and> (\<exists>cs. issues w w' cs \<and> list_all is_subnetworks_call cs)"
  using assms unfolding deleteOrPatchSubnetwork_body_def Let_def
  by (auto split: prod.splits sum.splits if_splits option.splits
      dest!: call_subnetworks_Get_issues call_subnetworks_Delete_issues call_subnetworks_Patch_issues
      simp: issues_def)

lemma deleteOrPatchSubnetwork_loop_issues:
  "deleteOrPatchSubnetwork_loop svc specs w = (r, w') \<Longrightarrow>
   scope w' = scope w \<and> (\<exists>cs. issues w w' cs \<and> list_all is_subnetworks_call cs)"
proof (induction specs arbitrary: w)
  case Nil
  then show ?case using issues_refl [of w] by auto
next
  case (Cons spec specs)
  obtain r1 w1 where b: "deleteOrPatchSubnetwork_body svc spec w = (r1, w1)"
    by (cases "deleteOrPatchSubnetwork_body svc spec w") auto
  from deleteOrPatchSubnetwork_body_issues [OF b] obtain cs1 where
    1: "scope w1 = scope w" "issues w w1 cs1" "list_all is_subnetworks_call cs1" by auto
  show ?case
  proof (cases r1)
    case (Inl e)
    with Cons.prems b have "w' = w1" by simp
    with 1 show ?thesis by auto
  next
    case (Inr u)
    with Cons.prems b have "deleteOrPatchSubnetwork_loop svc specs w1 = (r, w')" by simp
    from Cons.IH [OF this] obtain cs2 where
      2: "scope w' = scope w1" "issues w1 w' cs2" "list_all is_subnetworks_call cs2" by auto
    with 1 issues_trans [OF 1(2) 2(2)] show ?thesis by auto
  qed
qed

lemma Reconcile_gated:
  assumes "\<forall>n\<in>set (observed_networks (new_calls w (snd (networks_Service_Reconcile svc w)))).
             net_Description n \<noteq> ClusterTagKey (Name (scope w))"
  shows "filter is_routers_call (new_calls w (snd (networks_Service_Reconcile svc w))) = []"
proof -
  obtain r1 w1 where n: "createOrGetNetwork svc w = (r1, w1)"
    by (cases "createOrGetNetwork svc w") auto
  from createOrGetNetwork_issues [OF n] obtain cs1 where
    1: "scope w1 = scope w" "issues w w1 cs1" "filter is_routers_call cs1 = []"
       "observed_networks cs1 = (case r1 of Inl e \<Rightarrow> [] | Inr n \<Rightarrow> [n])"
    by auto
  show ?thesis
  proof (cases r1)
    case (Inl err)
    with n have "snd (networks_Service_Reconcile svc w) = w1"
      by (simp add: networks_Service_Reconcile_def)
    with 1 show ?thesis by (simp add: issues_new_calls)
  next
    case (Inr network)
    show ?thesis
    proof (cases "net_Description network = ClusterTagKey (Name (scope w))")
      case True
      obtain r2 w2 where r: "createOrGetRouter svc network w1 = (r2, w2)"
        by (cases "createOrGetRouter svc network w1") auto
      from createOrGetRouter_issues [OF r] obtain cs2 where 2: "issues w1 w2 cs2" by auto
      have "\<exists>cs3. issues w2 (snd (networks_Service_Reconcile svc w)) cs3"
      proof (cases r2)
        case (Inl err)
        with n r Inr True 1 have "snd (networks_Service_Reconcile svc w) = w2"
          by (simp add: networks_Service_Reconcile_def)
        then show ?thesis using issues_refl [of w2] by auto
      next
        case (Inr router)
        let ?w2' = "w2\<lparr>scope := (scope w2)\<lparr>Network :=
                      (Network (scope w2))\<lparr>status_Router := Some (rtr_SelfLink router),
                        status_SelfLink := Some (net_SelfLink network)\<rparr>\<rparr>\<rparr>"
        obtain r3 w3 where s: "createOrPatchSubnet svc network ?w2' = (r3, w3)"
          by (cases "createOrPatchSubnet svc network ?w2'") auto
        from n r \<open>r1 = Inr network\<close> True 1 Inr s
        have "snd (networks_Service_Reconcile svc w) = w3"
          by (simp add: networks_Service_Reconcile_def)
        with createOrPatchSubnet_issues [OF s] show ?thesis by auto
      qed
      then obtain cs3 where "issues w2 (snd (networks_Service_Reconcile svc w)) cs3" by auto
      with 1 2 have "new_calls w (snd (networks_Service_Reconcile svc w)) = cs1 @ cs2 @ cs3"
        by (simp add: issues_def new_calls_def)
      with 1 Inr have "network \<in> set (observed_networks (new_calls w (snd (networks_Service_Reconcile svc w))))"
        by simp
      with assms True show ?thesis by blast
    next
      case False
      let ?w1' = "w1\<lparr>scope := (scope w1)\<lparr>Network :=
                 (Network (scope w1))\<lparr>status_SelfLink := Some (net_SelfLink network)\<rparr>\<rparr>\<rparr>"
      obtain r3 w3 where s: "createOrPatchSubnet svc network ?w1' = (r3, w3)"
        by (cases "createOrPatchSubnet svc network ?w1'") auto
      from n Inr False 1 s have "snd (networks_Service_Reconcile svc w) = w3"
        by (simp add: networks_Service_Reconcile_def)
      moreover from createOrPatchSubnet_issues [OF s] obtain cs3 where
        "issues w1 w3 cs3" "list_all is_subnetworks_call cs3" by auto
      ultimately show ?thesis using 1 subnetworks_calls_only [of cs3]
        by (simp add: issues_def new_calls_def)
    qed
  qed
qed

lemma Delete_gated:
  assumes "\<forall>n\<in>set (observed_networks (new_calls w (snd (networks_Service_Delete svc w)))).
             net_Description n \<noteq> ClusterTagKey (Name (scope w))"
  shows "filter is_teardown (new_calls w (snd (networks_Service_Delete svc w))) = [] \<and>
         filter is_routers_call (new_calls w (snd (networks_Service_Delete svc w))) = [] \<and>
         (observed_networks (new_calls w (snd (networks_Service_Delete svc w))) = [] \<or>
          fst (networks_Service_Delete svc w) = None)"
proof -
  obtain r1 w1 where d: "deleteOrPatchSubnetwork_loop svc (SubnetworksSpec (scope w)) w = (r1, w1)"
    by (cases "deleteOrPatchSubnetwork_loop svc (SubnetworksSpec (scope w)) w") auto
  from deleteOrPatchSubnetwork_loop_issues [OF d] obtain cs1 where
    1: "scope w1 = scope w" "issues w w1 cs1" "list_all is_subnetworks_call cs1" by auto
  note sub = subnetworks_calls_only [OF 1(3)]
  show ?thesis
  proof (cases r1)
    case (Some err)
    with d have "snd (networks_Service_Delete svc w) = w1"
      by (simp add: networks_Service_Delete_def deleteOrPatchSubnetwork_def)
    with 1 sub show ?thesis by (simp add: issues_new_calls)
  next
    case None
    let ?k = "GlobalKey (NetworkName (scope w))"
    obtain r2 w2 where g: "call_networks_Get svc ?k w1 = (r2, w2)"
      by (cases "call_networks_Get svc ?k w1") auto
    from call_networks_Get_issues [OF g] have
      2: "issues w1 w2 [NetworksGet ?k r2]" "scope w2 = scope w1" by auto
    show ?thesis
    proof (cases r2)
      case (Inl err)
      with d None g 1 have "snd (networks_Service_Delete svc w) = w2"
        by (simp add: networks_Service_Delete_def deleteOrPatchSubnetwork_def)
      with 1 2 sub Inl show ?thesis by (simp add: issues_def new_calls_def)
    next
      case (Inr network)
      show ?thesis
      proof (cases "net_Description network = ClusterTagKey (Name (scope w))")
        case False
        with d None g 1 2 Inr have "networks_Service_Delete svc w = (None, w2)"
          by (simp add: networks_Service_Delete_def deleteOrPatchSubnetwork_def)
        with 1 2 sub Inr show ?thesis by (simp add: issues_def new_calls_def)
      next
        case True
        have "\<exists>cs3. issues w2 (snd (networks_Service_Delete svc w)) cs3"
          using d None g 1 2 Inr True
          unfolding networks_Service_Delete_def deleteOrPatchSubnetwork_def Let_def Delete_network_def
          by (auto split: prod.splits sum.splits if_splits option.splits
              dest!: call_routers_Get_issues call_routers_Delete_issues call_networks_Delete_issues
              simp: issues_def)
        then obtain cs3 where "issues w2 (snd (networks_Service_Delete svc w)) cs3" by auto
        with 1 2 Inr have "new_calls w (snd (networks_Service_Delete svc w)) =
            cs1 @ [NetworksGet ?k (Inr network)] @ cs3"
          by (simp add: issues_def new_calls_def)
        then have "network \<in> set (observed_networks (new_calls w (snd (networks_Service_Delete svc w))))"
          by simp
        with assms True show ?thesis by blast
      qed
    qed
  qed
qed

section \<open>Evaluation of the example clusters\<close>

lemmas example_defs =
  fake_networks_Service_def raced_networks_Service_def outage_networks_Service_def fake_get_def
  fake_networks_Insert_def fake_networks_Delete_def fake_routers_Insert_def
  fake_routers_Delete_def fake_subnetworks_Insert_def fake_subnetworks_Delete_def
  fake_subnetworks_Patch_def alreadyExists_def selfLinkOf_def
  only_network_def network_recorded_def foreign_world_def start_def empty_cloud_def
  c1_scope_def sub1_spec_def nat1_spec_def net1_spec_def net1_owned_def net1_foreign_def
  sub1_foreign_def rangeA_def rangeB_def

lemmas networks_defs =
  networks_Service_Reconcile_def networks_Service_Delete_def createOrGetNetwork_def
  createOrGetRouter_def createOrPatchSubnet_def createOrPatchSubnet_body_def
  patchMergedRanges_def mergeSecondaryRanges_def deleteOrPatchSubnetwork_def
  deleteOrPatchSubnetwork_body_def restoreSecondaryRanges_def Delete_network_def
  call_defs RegionalKey_def GlobalKey_def IgnoreNotFound_def go_make_def go_append_def
  new_calls_def Let_def

section \<open>Network Delete: subnet lookups\<close>

text \<open>
  What one iteration of the loop of \<^verbatim>\<open>deleteOrPatchSubnetwork\<close> does with a failed
  lookup, with any provider: not-found ends Delete with that error, any other error
  moves on to the next subnet.
\<close>

lemma failed_subnet_lookup_on_Delete:
  assumes "subnetworks_Get svc (RegionalKey (sub_Name spec) (Region (scope w))) (cloud w) = (Inl err, p)"
  shows "fst (deleteOrPatchSubnetwork_body svc spec w) =
           (if IsNotFound err then Inl (Some err) else Inr ()) \<and>
         new_calls w (snd (deleteOrPatchSubnetwork_body svc spec w)) =
           [SubnetworksGet (RegionalKey (sub_Name spec) (Region (scope w))) (Inl err)]"
  using assms
  by (simp add: deleteOrPatchSubnetwork_body_def call_subnetworks_Get_def new_calls_def Let_def)

text \<open>
  Claim C1. During network Delete a subnet lookup that fails with not-found should be
  swallowed and any other lookup error should abort. The loop of
  \<^verbatim>\<open>deleteOrPatchSubnetwork\<close> tests the error the other way round: with only the network
  of the cluster present, the lookup of subnet sub1 answers not-found and Delete returns
  that error after this single call; with a provider whose subnet lookups fail with a
  backend error, the error is dropped and Delete goes on to delete the network.
\<close>

theorem Delete_subnet_lookup_inverted:
  "fst (networks_Service_Delete fake_networks_Service only_network) = Some NotFound \<and>
   new_calls only_network (snd (networks_Service_Delete fake_networks_Service only_network)) =
     [SubnetworksGet (RegionalKey ''sub1'' ''r1'') (Inl NotFound)] \<and>
   fst (networks_Service_Delete outage_networks_Service only_network) = None \<and>
   new_calls only_network (snd (networks_Service_Delete outage_networks_Service only_network)) =
     [SubnetworksGet (RegionalKey ''sub1'' ''r1'') (Inl (ProviderError ''backendError'')),
      NetworksGet (GlobalKey ''net1'') (Inr net1_owned),
      RoutersGet (RegionalKey ''nat1'' ''r1'') (Inl NotFound),
      NetworksDelete (GlobalKey ''net1'') None]"
  by (simp add: networks_defs example_defs)

section \<open>Ownership gating\<close>

text \<open>
  Claim C2. When every network the provider returned during the call has a description
  other than the ownership tag of the cluster, Reconcile issues no call to the routers
  client at all (no Get, Insert or Delete), and Delete issues no network Delete and no
  call to the routers client; when Delete has looked at such a network it returns nil.
\<close>

theorem ownership_gating:
  "((\<forall>n\<in>set (observed_networks (new_calls w (snd (networks_Service_Reconcile svc w)))).
        net_Description n \<noteq> ClusterTagKey (Name (scope w))) \<longrightarrow>
      filter is_routers_call (new_calls w (snd (networks_Service_Reconcile svc w))) = []) \<and>
   ((\<forall>n\<in>set (observed_networks (new_calls w (snd (networks_Service_Delete svc w)))).
        net_Description n \<noteq> ClusterTagKey (Name (scope w))) \<longrightarrow>
      filter is_teardown (new_calls w (snd (networks_Service_Delete svc w))) = [] \<and>
      filter is_routers_call (new_calls w (snd (networks_Service_Delete svc w))) = [] \<and>
      (observed_networks (new_calls w (snd (networks_Service_Delete svc w))) = [] \<or>
       fst (networks_Service_Delete svc w) = None))"
  using Reconcile_gated [of w svc] Delete_gated [of w svc] by blast

theorem ownership_gating_witness:
  "observed_networks (new_calls (foreign_world (Some [rangeA, rangeB]))
      (snd (networks_Service_Reconcile fake_networks_Service (foreign_world (Some [rangeA, rangeB])))))
     = [net1_foreign] \<and>
   net_Description net1_foreign \<noteq> ClusterTagKey ''c1'' \<and>
   filter is_routers_call (new_calls (foreign_world (Some [rangeA, rangeB]))
      (snd (networks_Service_Reconcile fake_networks_Service (foreign_world (Some [rangeA, rangeB])))))
     = [] \<and>
   observed_networks (new_calls (foreign_world (Some [rangeA, rangeB]))
      (snd (networks_Service_Delete fake_networks_Service (foreign_world (Some [rangeA, rangeB])))))
     = [net1_foreign] \<and>
   filter is_teardown (new_calls (foreign_world (Some [rangeA, rangeB]))
      (snd (networks_Service_Delete fake_networks_Service (foreign_world (Some [rangeA, rangeB])))))
     = [] \<and>
   filter is_routers_call (new_calls (foreign_world (Some [rangeA, rangeB]))
      (snd (networks_Service_Delete fake_networks_Service (foreign_world (Some [rangeA, rangeB])))))
     = [] \<and>
   fst (networks_Service_Delete fake_networks_Service (foreign_world (Some [rangeA, rangeB]))) = None"
  using ownership_gating [of "foreign_world (Some [rangeA, rangeB])" fake_networks_Service]
  by (simp add: networks_defs example_defs ClusterTagKey_def)

section \<open>Network Delete: deleting the network\<close>

text \<open>
  The last step of \<^verbatim>\<open>Delete\<close>, with any provider: it returns what the deletion of the
  network answered, and the recorded self-links are cleared only when that is nil.
\<close>

lemma Delete_network_result:
  "fst (Delete_network svc k w) = fst (networks_Delete svc k (cloud w)) \<and>
   Network (scope (snd (Delete_network svc k w))) =
     (case fst (networks_Delete svc k (cloud w)) of
        None \<Rightarrow> \<lparr>status_Router = None, status_SelfLink = None\<rparr>
      | Some err \<Rightarrow> Network (scope w))"
  by (simp add: Delete_network_def call_networks_Delete_def split: prod.splits option.splits)

text \<open>
  Claim C7. The final network Delete call should tolerate not-found, as the router
  deletion before it does. It does not: when the provider answers not-found to the
  deletion (the network was removed after the lookup), Delete returns that error and
  the recorded self-links stay as they were.
\<close>

theorem Delete_network_not_found_propagates:
  "fst (networks_Service_Delete raced_networks_Service network_recorded) = Some NotFound \<and>
   Network (scope (snd (networks_Service_Delete raced_networks_Service network_recorded))) =
     \<lparr>status_Router = None, status_SelfLink = Some (net_SelfLink net1_owned)\<rparr> \<and>
   new_calls network_recorded (snd (networks_Service_Delete raced_networks_Service network_recorded)) =
     [NetworksGet (GlobalKey ''net1'') (Inr net1_owned),
      RoutersGet (RegionalKey ''nat1'' ''r1'') (Inl NotFound),
      NetworksDelete (GlobalKey ''net1'') (Some NotFound)]"
  by (simp add: networks_defs example_defs)

section \<open>Reconcile: merging secondary ranges\<close>

lemma foldl_insert_names:
  "foldl (\<lambda>S r. insert (f r) S) S0 xs = S0 \<union> f ` set xs"
  by (induction xs arbitrary: S0) auto

lemma foldl_go_append:
  "foldl (\<lambda>acc r. if P r then go_append acc r else acc) acc xs =
     (if filter P xs = [] then acc else Some (elems acc @ filter P xs))"
  by (induction xs arbitrary: acc) (auto simp: go_append_def)

lemma mergeSecondaryRanges_elems:
  "elems (mergeSecondaryRanges subnet spec) =
     range_union (elems (sub_SecondaryIpRanges subnet)) (elems (sub_SecondaryIpRanges spec))"
  by (simp add: mergeSecondaryRanges_def foldl_insert_names foldl_go_append range_union_def)

lemma mergeSecondaryRanges_changed:
  "mergeSecondaryRanges subnet spec \<noteq> sub_SecondaryIpRanges subnet \<longleftrightarrow>
   range_union (elems (sub_SecondaryIpRanges subnet)) (elems (sub_SecondaryIpRanges spec))
     \<noteq> elems (sub_SecondaryIpRanges subnet)"
  by (cases "sub_SecondaryIpRanges subnet")
     (auto simp: mergeSecondaryRanges_def foldl_insert_names foldl_go_append range_union_def)

lemma mergeSecondaryRanges_Some:
  "mergeSecondaryRanges subnet spec \<noteq> sub_SecondaryIpRanges subnet \<Longrightarrow>
   mergeSecondaryRanges subnet spec =
     Some (range_union (elems (sub_SecondaryIpRanges subnet)) (elems (sub_SecondaryIpRanges spec)))"
  by (auto simp: mergeSecondaryRanges_def foldl_insert_names foldl_go_append range_union_def
      split: if_splits)

lemma range_union_prefix: "prefix observed (range_union observed desired)"
  by (simp add: range_union_def)

lemma range_union_distinct:
  "distinct (map RangeName observed) \<Longrightarrow> distinct (map RangeName desired) \<Longrightarrow>
   distinct (map RangeName (range_union observed desired))"
  by (auto simp: range_union_def distinct_map_filter image_iff)

lemma existing_subnet_calls:
  assumes "subnetworks_Get svc (RegionalKey (sub_Name spec) (Region (scope w))) (cloud w) = (Inr subnet, p)"
  shows "new_calls w (snd (snd (createOrPatchSubnet_body svc network spec w))) =
     (let k = RegionalKey (sub_Name spec) (Region (scope w));
          observed = elems (sub_SecondaryIpRanges subnet);
          union = range_union observed (elems (sub_SecondaryIpRanges spec));
          patched = subnet\<lparr>sub_SecondaryIpRanges := Some union\<rparr>
      in if union \<noteq> observed
         then [SubnetworksGet k (Inr subnet),
               SubnetworksPatch k patched (fst (subnetworks_Patch svc k patched p))]
         else [SubnetworksGet k (Inr subnet)])"
  using assms mergeSecondaryRanges_changed [of subnet spec] mergeSecondaryRanges_Some [of subnet spec]
  by (auto simp: createOrPatchSubnet_body_def patchMergedRanges_def call_subnetworks_Get_def
      call_subnetworks_Patch_def new_calls_def Let_def split: prod.splits)


lemma never_removes_append:
  "never_removes prev (cs @ ds) =
     (never_removes prev cs \<and> never_removes (if cs = [] then prev else Some (last cs)) ds)"
  by (induction cs arbitrary: prev) auto

lemma safe_refl: "safe w w"
  unfolding safe_def using issues_refl [of w] by (intro exI [of _ "[]"]) simp

lemma safe_trans: "safe w w1 \<Longrightarrow> safe w1 w2 \<Longrightarrow> safe w w2"
  unfolding safe_def
proof (elim exE conjE)
  fix cs ds
  assume "issues w w1 cs" "issues w1 w2 ds"
    and a: "\<forall>prev. never_removes prev cs" and b: "\<forall>prev. never_removes prev ds"
  then have "issues w w2 (cs @ ds)" by (simp add: issues_trans)
  moreover from a b have "\<forall>prev. never_removes prev (cs @ ds)"
    by (simp add: never_removes_append)
  ultimately show "\<exists>cs. issues w w2 cs \<and> (\<forall>prev. never_removes prev cs)" by blast
qed

lemma safe_scope_update [simp]:
  "safe w (w'\<lparr>scope := sc\<rparr>) = safe w w'"
  "safe (w\<lparr>scope := sc\<rparr>) w' = safe w w'"
  by (simp_all add: safe_def)

lemma safe_new_calls: "safe w w' \<Longrightarrow> never_removes None (new_calls w w')"
  by (auto simp: safe_def issues_new_calls)

lemma safe_single:
  "issues w w' [c] \<Longrightarrow> \<forall>prev. keeps_ranges prev c \<Longrightarrow> safe w w'"
  unfolding safe_def by (intro exI [of _ "[c]"]) simp

lemma call_networks_Get_safe:
  "call_networks_Get svc k w = (r, w') \<Longrightarrow> safe w w' \<and> scope w' = scope w"
  by (auto dest!: call_networks_Get_issues intro!: safe_single simp: keeps_ranges_def)

lemma call_networks_Insert_safe:
  "call_networks_Insert svc k obj w = (r, w') \<Longrightarrow> safe w w' \<and> scope w' = scope w"
  by (auto dest!: call_networks_Insert_issues intro!: safe_single simp: keeps_ranges_def)

lemma call_routers_Get_safe:
  "call_routers_Get svc k w = (r, w') \<Longrightarrow> safe w w' \<and> scope w' = scope w"
  by (auto dest!: call_routers_Get_issues intro!: safe_single simp: keeps_ranges_def)

lemma call_routers_Insert_safe:
  "call_routers_Insert svc k obj w = (r, w') \<Longrightarrow> safe w w' \<and> scope w' = scope w"
  by (auto dest!: call_routers_Insert_issues intro!: safe_single simp: keeps_ranges_def)

lemma call_subnetworks_Get_safe:
  "call_subnetworks_Get svc k w = (r, w') \<Longrightarrow> safe w w' \<and> scope w' = scope w"
  by (auto dest!: call_subnetworks_Get_issues intro!: safe_single simp: keeps_ranges_def)

lemma call_subnetworks_Insert_safe:
  "call_subnetworks_Insert svc k obj w = (r, w') \<Longrightarrow> safe w w' \<and> scope w' = scope w"
  by (auto dest!: call_subnetworks_Insert_issues intro!: safe_single simp: keeps_ranges_def)

lemma createOrGetNetwork_safe:
  "createOrGetNetwork svc w = (r, w') \<Longrightarrow> safe w w' \<and> scope w' = scope w"
  unfolding createOrGetNetwork_def Let_def
  by (auto split: prod.splits sum.splits if_splits option.splits
      dest!: call_networks_Get_safe call_networks_Insert_safe intro: safe_trans)

lemma createOrGetRouter_safe:
  assumes "createOrGetRouter svc network w = (r, w')"
  shows "safe w w'"
proof -
  let ?spec = "NatRouterSpec (scope w)"
  let ?k = "RegionalKey (rtr_Name ?spec) (Region (scope w))"
  obtain r1 w1 where g: "call_routers_Get svc ?k w = (r1, w1)"
    by (cases "call_routers_Get svc ?k w") auto
  note s1 = call_routers_Get_safe [OF g]
  show ?thesis
  proof (cases r1)
    case (Inr router)
    with assms g have "w' = w1" by (simp add: createOrGetRouter_def Let_def)
    with s1 show ?thesis by simp
  next
    case (Inl err)
    show ?thesis
    proof (cases "IsNotFound err")
      case False
      with assms g Inl have "w' = w1" by (simp add: createOrGetRouter_def Let_def)
      with s1 show ?thesis by simp
    next
      case True
      let ?spec' = "?spec\<lparr>rtr_Network := net_SelfLink network,
                         rtr_Description := ClusterTagKey (Name (scope w1))\<rparr>"
      let ?w1' = "w1\<lparr>scope := (scope w1)\<lparr>NatRouterSpec := ?spec'\<rparr>\<rparr>"
      obtain r2 w2 where i: "call_routers_Insert svc ?k ?spec' ?w1' = (r2, w2)"
        by (cases "call_routers_Insert svc ?k ?spec' ?w1'") auto
      from call_routers_Insert_safe [OF i] have s2: "safe w1 w2" by simp
      show ?thesis
      proof (cases r2)
        case (Some e)
        with assms g Inl True i have "w' = w2" by (simp add: createOrGetRouter_def Let_def)
        with s1 s2 show ?thesis by (auto intro: safe_trans)
      next
        case None
        with assms g Inl True i have "call_routers_Get svc ?k w2 = (r, w')"
          by (simp add: createOrGetRouter_def Let_def)
        from call_routers_Get_safe [OF this] s1 s2 show ?thesis
          by (auto intro: safe_trans)
      qed
    qed
  qed
qed

lemma get_then_patch_safe:
  assumes g: "call_subnetworks_Get svc k w = (Inr subnet, w1)"
    and p: "patchMergedRanges svc k subnet spec w1 = (r, w2)"
  shows "safe w w2 \<and> scope w2 = scope w"
proof (cases "mergeSecondaryRanges subnet spec \<noteq> sub_SecondaryIpRanges subnet")
  case False
  with p have "w2 = w1" by (simp add: patchMergedRanges_def)
  with call_subnetworks_Get_safe [OF g] show ?thesis by simp
next
  case True
  let ?obj = "subnet\<lparr>sub_SecondaryIpRanges := mergeSecondaryRanges subnet spec\<rparr>"
  from True p have "call_subnetworks_Patch svc k ?obj w1 = (r, w2)"
    by (simp add: patchMergedRanges_def)
  from call_subnetworks_Patch_issues [OF this] call_subnetworks_Get_issues [OF g]
  have i: "issues w w2 [SubnetworksGet k (Inr subnet), SubnetworksPatch k ?obj r]"
    and sc: "scope w2 = scope w"
    by (auto simp: issues_def)
  have "\<forall>prev. never_removes prev [SubnetworksGet k (Inr subnet), SubnetworksPatch k ?obj r]"
    by (simp add: keeps_ranges_def mergeSecondaryRanges_elems range_union_prefix)
  with i sc show ?thesis unfolding safe_def by blast
qed

lemma createOrPatchSubnet_body_safe:
  assumes "createOrPatchSubnet_body svc network spec w = (r, spec', w')"
  shows "safe w w' \<and> scope w' = scope w"
proof -
  let ?k = "RegionalKey (sub_Name spec) (Region (scope w))"
  obtain r1 w1 where g: "call_subnetworks_Get svc ?k w = (r1, w1)"
    by (cases "call_subnetworks_Get svc ?k w") auto
  show ?thesis
  proof (cases r1)
    case (Inr subnet)
    obtain r2 w2 where p: "patchMergedRanges svc ?k subnet spec w1 = (r2, w2)"
      by (cases "patchMergedRanges svc ?k subnet spec w1") auto
    with assms g Inr have "w' = w2"
      by (simp add: createOrPatchSubnet_body_def Let_def)
    with get_then_patch_safe [OF g [unfolded Inr] p] show ?thesis by simp
  next
    case (Inl err)
    note s1 = call_subnetworks_Get_safe [OF g]
    show ?thesis
    proof (cases "IsNotFound err")
      case False
      with assms g Inl have "w' = w1"
        by (simp add: createOrPatchSubnet_body_def Let_def)
      with s1 show ?thesis by simp
    next
      case True
      let ?spec' = "spec\<lparr>sub_Network := net_SelfLink network,
                        sub_Description := ClusterTagKey (Name (scope w1))\<rparr>"
      obtain r2 w2 where i: "call_subnetworks_Insert svc ?k ?spec' w1 = (r2, w2)"
        by (cases "call_subnetworks_Insert svc ?k ?spec' w1") auto
      note s2 = call_subnetworks_Insert_safe [OF i]
      show ?thesis
      proof (cases r2)
        case (Some e)
        with assms g Inl True i have "w' = w2"
          by (simp add: createOrPatchSubnet_body_def Let_def)
        with s1 s2 show ?thesis by (auto intro: safe_trans)
      next
        case None
        obtain r3 w3 where g2: "call_subnetworks_Get svc ?k w2 = (r3, w3)"
          by (cases "call_subnetworks_Get svc ?k w2") auto
        show ?thesis
        proof (cases r3)
          case (Inl e)
          with assms g \<open>r1 = Inl err\<close> True i None g2 have "w' = w3"
            by (simp add: createOrPatchSubnet_body_def Let_def)
          with s1 s2 call_subnetworks_Get_safe [OF g2] show ?thesis
            by (auto intro: safe_trans)
        next
          case (Inr subnet)
          obtain r4 w4 where p: "patchMergedRanges svc ?k subnet ?spec' w3 = (r4, w4)"
            by (cases "patchMergedRanges svc ?k subnet ?spec' w3") auto
          with assms g Inl True i None g2 Inr have "w' = w4"
            by (simp add: createOrPatchSubnet_body_def Let_def)
          with s1 s2 get_then_patch_safe [OF g2 [unfolded Inr] p] show ?thesis
            by (auto intro: safe_trans)
        qed
      qed
    qed
  qed
qed

lemma createOrPatchSubnet_loop_safe:
  "createOrPatchSubnet_loop svc network specs w = (r, specs', w') \<Longrightarrow>
   safe w w' \<and> scope w' = scope w"
proof (induction specs arbitrary: w r specs' w')
  case Nil
  then show ?case by (simp add: safe_refl)
next
  case (Cons spec specs)
  obtain r1 spec1 w1 where b: "createOrPatchSubnet_body svc network spec w = (r1, spec1, w1)"
    by (cases "createOrPatchSubnet_body svc network spec w") auto
  note 1 = createOrPatchSubnet_body_safe [OF b]
  show ?case
  proof (cases r1)
    case (Some err)
    with Cons.prems b have "w' = w1" by simp
    with 1 show ?thesis by auto
  next
    case None
    obtain r2 specs2 w2 where l: "createOrPatchSubnet_loop svc network specs w1 = (r2, specs2, w2)"
      by (cases "createOrPatchSubnet_loop svc network specs w1") auto
    note 2 = Cons.IH [OF l]
    from None Cons.prems b l have "w' = w2" by simp
    with 1 2 show ?thesis by (auto intro: safe_trans)
  qed
qed

lemma createOrPatchSubnet_safe:
  "createOrPatchSubnet svc network w = (r, w') \<Longrightarrow> safe w w'"
  unfolding createOrPatchSubnet_def
  by (auto split: prod.splits dest!: createOrPatchSubnet_loop_safe)

lemma Reconcile_safe: "safe w (snd (networks_Service_Reconcile svc w))"
proof -
  obtain r1 w1 where n: "createOrGetNetwork svc w = (r1, w1)"
    by (cases "createOrGetNetwork svc w") auto
  note s1 = createOrGetNetwork_safe [OF n]
  show ?thesis
  proof (cases r1)
    case (Inl err)
    with n have "snd (networks_Service_Reconcile svc w) = w1"
      by (simp add: networks_Service_Reconcile_def)
    with s1 show ?thesis by simp
  next
    case (Inr network)
    show ?thesis
    proof (cases "net_Description network = ClusterTagKey (Name (scope w1))")
      case True
      obtain r2 w2 where r: "createOrGetRouter svc network w1 = (r2, w2)"
        by (cases "createOrGetRouter svc network w1") auto
      note s2 = createOrGetRouter_safe [OF r]
      show ?thesis
      proof (cases r2)
        case (Inl err)
        with n r Inr True have "snd (networks_Service_Reconcile svc w) = w2"
          by (simp add: networks_Service_Reconcile_def)
        with s1 s2 show ?thesis by (auto intro: safe_trans)
      next
        case (Inr router)
        let ?w2' = "w2\<lparr>scope := (scope w2)\<lparr>Network :=
                      (Network (scope w2))\<lparr>status_Router := Some (rtr_SelfLink router),
                        status_SelfLink := Some (net_SelfLink network)\<rparr>\<rparr>\<rparr>"
        obtain r3 w3 where s: "createOrPatchSubnet svc network ?w2' = (r3, w3)"
          by (cases "createOrPatchSubnet svc network ?w2'") auto
        from createOrPatchSubnet_safe [OF s] have s3: "safe w2 w3" by simp
        from n r \<open>r1 = Inr network\<close> True Inr s
        have "snd (networks_Service_Reconcile svc w) = w3"
          by (simp add: networks_Service_Reconcile_def)
        with s1 s2 s3 show ?thesis by (auto intro: safe_trans)
      qed
    next
      case False
      let ?w1' = "w1\<lparr>scope := (scope w1)\<lparr>Network :=
                 (Network (scope w1))\<lparr>status_SelfLink := Some (net_SelfLink network)\<rparr>\<rparr>\<rparr>"
      obtain r3 w3 where s: "createOrPatchSubnet svc network ?w1' = (r3, w3)"
        by (cases "createOrPatchSubnet svc network ?w1'") auto
      from createOrPatchSubnet_safe [OF s] have s3: "safe w1 w3" by simp
      from n Inr False s have "snd (networks_Service_Reconcile svc w) = w3"
        by (simp add: networks_Service_Reconcile_def)
      with s1 s3 show ?thesis by (auto intro: safe_trans)
    qed
  qed
qed

section \<open>Network Delete: restoring a subnet of another owner\<close>

lemma restoreSecondaryRanges_eq:
  "restoreSecondaryRanges subnet spec =
     Some (filter (\<lambda>r. RangeName r \<notin> RangeName ` set (elems (sub_SecondaryIpRanges spec)))
             (elems (sub_SecondaryIpRanges subnet)))"
  by (simp add: restoreSecondaryRanges_def foldl_insert_names foldl_go_append go_make_def)

text \<open>
  What one iteration of the loop of \<^verbatim>\<open>deleteOrPatchSubnetwork\<close> issues for a subnet the
  lookup returned, with any provider: a self-owned subnet is deleted; any other subnet
  is never deleted, and is patched to the observed ranges without the names of the spec
  when a range goes away or the observed slice is nil.
\<close>

lemma observed_subnet_on_Delete:
  assumes "subnetworks_Get svc (RegionalKey (sub_Name spec) (Region (scope w))) (cloud w) = (Inr subnet, p)"
  shows "new_calls w (snd (deleteOrPatchSubnetwork_body svc spec w)) =
     (let k = RegionalKey (sub_Name spec) (Region (scope w));
          kept = filter (\<lambda>r. RangeName r \<notin> RangeName ` set (elems (sub_SecondaryIpRanges spec)))
                   (elems (sub_SecondaryIpRanges subnet));
          patched = subnet\<lparr>sub_SecondaryIpRanges := Some kept\<rparr>
      in if sub_Description subnet = ClusterTagKey (Name (scope w))
         then [SubnetworksGet k (Inr subnet), SubnetworksDelete k (fst (subnetworks_Delete svc k p))]
         else if kept \<noteq> elems (sub_SecondaryIpRanges subnet) \<or> sub_SecondaryIpRanges subnet = None
         then [SubnetworksGet k (Inr subnet),
               SubnetworksPatch k patched (fst (subnetworks_Patch svc k patched p))]
         else [SubnetworksGet k (Inr subnet)])"
  using assms
  by (cases "sub_SecondaryIpRanges subnet")
     (auto simp: deleteOrPatchSubnetwork_body_def restoreSecondaryRanges_eq call_subnetworks_Get_def
      call_subnetworks_Delete_def call_subnetworks_Patch_def new_calls_def Let_def
      split: prod.splits option.splits)

text \<open>
  Claim C6. A subnet that is not self-owned should be patched only if removing the range
  names of the spec changes its list of secondary ranges. The loop collects the ranges
  it keeps in a fresh empty slice and compares that slice with the observed one by
  \<^verbatim>\<open>reflect.DeepEqual\<close>, which tells an empty slice from a nil slice: for a subnet with
  no secondary range (a nil slice) nothing is removed, and Delete still issues a Patch.
  With an observed empty slice it issues none.
\<close>

theorem Delete_patches_subnet_without_ranges:
  "new_calls (foreign_world None)
     (snd (networks_Service_Delete fake_networks_Service (foreign_world None))) =
     [SubnetworksGet (RegionalKey ''sub1'' ''r1'') (Inr (sub1_foreign None)),
      SubnetworksPatch (RegionalKey ''sub1'' ''r1'') (sub1_foreign (Some [])) None,
      NetworksGet (GlobalKey ''net1'') (Inr net1_foreign)] \<and>
   new_calls (foreign_world (Some []))
     (snd (networks_Service_Delete fake_networks_Service (foreign_world (Some [])))) =
     [SubnetworksGet (RegionalKey ''sub1'' ''r1'') (Inr (sub1_foreign (Some []))),
      NetworksGet (GlobalKey ''net1'') (Inr net1_foreign)]"
  by (simp add: networks_defs example_defs ClusterTagKey_def)


section \<open>Control-plane instance group membership\<close>

lemmas icall_defs = call_instances_Get_def call_instances_Insert_def call_instances_Delete_def
  call_instancegroups_ListInstances_def call_instancegroups_AddInstances_def
  call_instancegroups_RemoveInstances_def

lemma instanceSets_eq:
  "foldl (\<lambda>S i. insert (iwnp_Instance i) S) {} instanceList = iwnp_Instance ` set instanceList"
  using foldl_insert_names [of iwnp_Instance "{}" instanceList] by simp

lemma register_calls:
  assumes "instancegroups_ListInstances svc (ZonalKey (ControlPlaneGroupName (scope w)) (Zone (scope w)))
             ''RUNNING'' (cloud w) = (res, p)"
  shows "new_calls w (snd (registerControlPlaneInstance svc instance w)) =
     (let gk = ZonalKey (ControlPlaneGroupName (scope w)) (Zone (scope w));
          link = ins_SelfLink instance
      in InstanceGroupsListInstances gk ''RUNNING'' res #
         (case res of
            Inl err \<Rightarrow> []
          | Inr instanceList \<Rightarrow>
              if link \<notin> iwnp_Instance ` set instanceList \<and> ins_Status instance = InstanceStatusRunning
              then [InstanceGroupsAddInstances gk [link] (fst (instancegroups_AddInstances svc gk [link] p))]
              else []))"
  using assms
  by (auto simp: registerControlPlaneInstance_def icall_defs new_calls_def Let_def instanceSets_eq
      split: prod.splits sum.splits)

lemma deregister_calls:
  assumes "instancegroups_ListInstances svc (ZonalKey (ControlPlaneGroupName (scope w)) (Zone (scope w)))
             ''RUNNING'' (cloud w) = (res, p)"
  shows "new_calls w (snd (deregisterControlPlaneInstance svc instance w)) =
     (let gk = ZonalKey (ControlPlaneGroupName (scope w)) (Zone (scope w));
          link = ins_SelfLink instance
      in InstanceGroupsListInstances gk ''RUNNING'' res #
         (case res of
            Inl err \<Rightarrow> []
          | Inr instanceList \<Rightarrow>
              if link \<in> iwnp_Instance ` set instanceList
              then [InstanceGroupsRemoveInstances gk [link] (fst (instancegroups_RemoveInstances svc gk [link] p))]
              else []))"
  using assms
  by (auto simp: deregisterControlPlaneInstance_def icall_defs new_calls_def Let_def instanceSets_eq
      split: prod.splits sum.splits)

lemma Delete_unlisted_member:
  assumes "instances_Get svc (ZonalKey (ins_Name (InstanceSpec (scope w))) (Zone (scope w))) (cloud w)
             = (Inr instance, p1)"
    and "IsControlPlane (scope w)"
    and "instancegroups_ListInstances svc (ZonalKey (ControlPlaneGroupName (scope w)) (Zone (scope w)))
             ''RUNNING'' p1 = (Inr instanceList, p2)"
    and "ins_SelfLink instance \<notin> iwnp_Instance ` set instanceList"
  shows "new_calls w (snd (instances_Service_Delete svc w)) =
     (let k = ZonalKey (ins_Name (InstanceSpec (scope w))) (Zone (scope w));
          gk = ZonalKey (ControlPlaneGroupName (scope w)) (Zone (scope w))
      in [InstancesGet k (Inr instance),
          InstanceGroupsListInstances gk ''RUNNING'' (Inr instanceList),
          InstancesDelete k (fst (instances_Delete svc k p2))])"
  using assms
  by (auto simp: instances_Service_Delete_def deregisterControlPlaneInstance_def icall_defs
      new_calls_def Let_def instanceSets_eq split: prod.splits sum.splits option.splits)

lemma register_not_running:
  "ins_Status instance \<noteq> InstanceStatusRunning \<Longrightarrow>
   filter is_AddInstances (new_calls w (snd (registerControlPlaneInstance svc instance w))) = []"
  by (auto simp: registerControlPlaneInstance_def icall_defs new_calls_def Let_def
      split: prod.splits sum.splits)

lemmas instances_defs =
  instances_Service_Reconcile_def instances_Service_Delete_def createOrGetInstance_def
  registerControlPlaneInstance_def deregisterControlPlaneInstance_def nodeAddresses_def
  icall_defs ZonalKey_def IgnoreNotFound_def InstanceStatusRunning_def user_data_def
  new_calls_def Let_def

lemmas machine_defs =
  fake_instances_Service_def fake_instances_Insert_def fake_instances_Delete_def
  fake_ListInstances_def fake_AddInstances_def fake_RemoveInstances_def member_in_state_def
  fake_get_def alreadyExists_def selfLinkOf_def start_def empty_cloud_def
  cp1_spec_def cp1_scope_def cp1_link_def cp1_vm_def cp1_world_def

text \<open>
  Claim C5. \<^verbatim>\<open>registerControlPlaneInstance\<close> lists the members in state RUNNING and, when
  the listing succeeds, issues one AddInstances call for the instance exactly when its
  self-link is not among the listed members and its status is RUNNING; when the listing
  fails it issues nothing more. An instance in any other status is never added.
\<close>

theorem registration_gate:
  "(instancegroups_ListInstances svc (ZonalKey (ControlPlaneGroupName (scope w)) (Zone (scope w)))
        ''RUNNING'' (cloud w) = (res, p) \<longrightarrow>
      new_calls w (snd (registerControlPlaneInstance svc instance w)) =
        (let gk = ZonalKey (ControlPlaneGroupName (scope w)) (Zone (scope w));
             link = ins_SelfLink instance
         in InstanceGroupsListInstances gk ''RUNNING'' res #
            (case res of
               Inl err \<Rightarrow> []
             | Inr instanceList \<Rightarrow>
                 if link \<notin> iwnp_Instance ` set instanceList \<and>
                    ins_Status instance = InstanceStatusRunning
                 then [InstanceGroupsAddInstances gk [link]
                         (fst (instancegroups_AddInstances svc gk [link] p))]
                 else []))) \<and>
   (ins_Status instance \<noteq> InstanceStatusRunning \<longrightarrow>
      filter is_AddInstances (new_calls w (snd (registerControlPlaneInstance svc instance w))) = [])"
  using register_calls [of svc w res p "instance"] register_not_running [of "instance" w svc]
  by blast

theorem registration_gate_witness:
  "new_calls (cp1_world ''RUNNING'' [])
      (snd (registerControlPlaneInstance fake_instances_Service (cp1_vm ''RUNNING'')
              (cp1_world ''RUNNING'' []))) =
     [InstanceGroupsListInstances (ZonalKey ''c1-apiserver-z1'' ''z1'') ''RUNNING'' (Inr []),
      InstanceGroupsAddInstances (ZonalKey ''c1-apiserver-z1'' ''z1'') [cp1_link] None] \<and>
   new_calls (cp1_world ''RUNNING'' [cp1_link])
      (snd (registerControlPlaneInstance fake_instances_Service (cp1_vm ''RUNNING'')
              (cp1_world ''RUNNING'' [cp1_link]))) =
     [InstanceGroupsListInstances (ZonalKey ''c1-apiserver-z1'' ''z1'') ''RUNNING''
        (Inr [\<lparr>iwnp_Instance = cp1_link, iwnp_Status = ''RUNNING''\<rparr>])] \<and>
   ins_Status (cp1_vm ''PROVISIONING'') \<noteq> InstanceStatusRunning \<and>
   filter is_AddInstances (new_calls (cp1_world ''PROVISIONING'' [])
      (snd (registerControlPlaneInstance fake_instances_Service (cp1_vm ''PROVISIONING'')
              (cp1_world ''PROVISIONING'' [])))) = []"
  using registration_gate [of fake_instances_Service "cp1_world ''RUNNING'' []"
      "Inr []" "cloud (cp1_world ''RUNNING'' [])" "cp1_vm ''RUNNING''"]
    registration_gate [of fake_instances_Service "cp1_world ''RUNNING'' [cp1_link]"
      "Inr [\<lparr>iwnp_Instance = cp1_link, iwnp_Status = ''RUNNING''\<rparr>]"
      "cloud (cp1_world ''RUNNING'' [cp1_link])" "cp1_vm ''RUNNING''"]
    registration_gate [of fake_instances_Service "cp1_world ''PROVISIONING'' []"
      "Inr []" "cloud (cp1_world ''PROVISIONING'' [])" "cp1_vm ''PROVISIONING''"]
  by (simp add: instances_defs machine_defs)

text \<open>
  Claim C10. \<^verbatim>\<open>deregisterControlPlaneInstance\<close> lists the members in state RUNNING and,
  when the listing succeeds, issues one RemoveInstances call exactly when the self-link of
  the instance is among the listed members. So when Delete finds a control-plane
  instance that the RUNNING listing does not show, it issues no RemoveInstances call and
  still goes on to delete the instance.
\<close>

theorem deregistration_lists_running_only:
  "(instancegroups_ListInstances svc (ZonalKey (ControlPlaneGroupName (scope w)) (Zone (scope w)))
        ''RUNNING'' (cloud w) = (res, p) \<longrightarrow>
      new_calls w (snd (deregisterControlPlaneInstance svc instance w)) =
        (let gk = ZonalKey (ControlPlaneGroupName (scope w)) (Zone (scope w));
             link = ins_SelfLink instance
         in InstanceGroupsListInstances gk ''RUNNING'' res #
            (case res of
               Inl err \<Rightarrow> []
             | Inr instanceList \<Rightarrow>
                 if link \<in> iwnp_Instance ` set instanceList
                 then [InstanceGroupsRemoveInstances gk [link]
                         (fst (instancegroups_RemoveInstances svc gk [link] p))]
                 else []))) \<and>
   (instances_Get svc (ZonalKey (ins_Name (InstanceSpec (scope w))) (Zone (scope w))) (cloud w)
        = (Inr instance, p1) \<and>
    IsControlPlane (scope w) \<and>
    instancegroups_ListInstances svc (ZonalKey (ControlPlaneGroupName (scope w)) (Zone (scope w)))
        ''RUNNING'' p1 = (Inr instanceList, p2) \<and>
    ins_SelfLink instance \<notin> iwnp_Instance ` set instanceList \<longrightarrow>
      new_calls w (snd (instances_Service_Delete svc w)) =
        (let k = ZonalKey (ins_Name (InstanceSpec (scope w))) (Zone (scope w));
             gk = ZonalKey (ControlPlaneGroupName (scope w)) (Zone (scope w))
         in [InstancesGet k (Inr instance),
             InstanceGroupsListInstances gk ''RUNNING'' (Inr instanceList),
             InstancesDelete k (fst (instances_Delete svc k p2))]))"
  using deregister_calls [of svc w res p "instance"]
    Delete_unlisted_member [of svc w "instance" p1 instanceList p2]
  by blast

theorem deregistration_lists_running_only_witness:
  "new_calls (cp1_world ''RUNNING'' [cp1_link])
      (snd (deregisterControlPlaneInstance fake_instances_Service (cp1_vm ''RUNNING'')
              (cp1_world ''RUNNING'' [cp1_link]))) =
     [InstanceGroupsListInstances (ZonalKey ''c1-apiserver-z1'' ''z1'') ''RUNNING''
        (Inr [\<lparr>iwnp_Instance = cp1_link, iwnp_Status = ''RUNNING''\<rparr>]),
      InstanceGroupsRemoveInstances (ZonalKey ''c1-apiserver-z1'' ''z1'') [cp1_link] None] \<and>
   IsControlPlane (scope (cp1_world ''STOPPING'' [cp1_link])) \<and>
   new_calls (cp1_world ''STOPPING'' [cp1_link])
      (snd (instances_Service_Delete fake_instances_Service (cp1_world ''STOPPING'' [cp1_link]))) =
     [InstancesGet (ZonalKey ''cp1'' ''z1'') (Inr (cp1_vm ''STOPPING'')),
      InstanceGroupsListInstances (ZonalKey ''c1-apiserver-z1'' ''z1'') ''RUNNING'' (Inr []),
      InstancesDelete (ZonalKey ''cp1'' ''z1'') None] \<and>
   fc_groups (cloud (snd (instances_Service_Delete fake_instances_Service
      (cp1_world ''STOPPING'' [cp1_link])))) (ZonalKey ''c1-apiserver-z1'' ''z1'') = Some [cp1_link]"
  using deregistration_lists_running_only [of fake_instances_Service
      "cp1_world ''RUNNING'' [cp1_link]"
      "Inr [\<lparr>iwnp_Instance = cp1_link, iwnp_Status = ''RUNNING''\<rparr>]"
      "cloud (cp1_world ''RUNNING'' [cp1_link])" "cp1_vm ''RUNNING''"]
    deregistration_lists_running_only [of fake_instances_Service
      "cp1_world ''STOPPING'' [cp1_link]" "Inr []" "cloud (cp1_world ''STOPPING'' [cp1_link])"
      "cp1_vm ''STOPPING''" "cloud (cp1_world ''STOPPING'' [cp1_link])" "[]"
      "cloud (cp1_world ''STOPPING'' [cp1_link])"]
  by (simp add: instances_defs machine_defs)

section \<open>Order of the component reconcilers\<close>

lemma reconcile_order:
  "runs_in_order ReconcileCall [Networks, Firewalls, LoadBalancers]
     (new_invoked s (snd (reconcile ops s))) \<and>
   returns_failure (new_invoked s (snd (reconcile ops s))) (snd (fst (reconcile ops s)))"
  unfolding reconcile_def invoke_Reconcile_def Let_def no_requeue_def new_invoked_def
    runs_in_order_def returns_failure_def
  by (auto split: prod.splits sum.splits option.splits)

lemma reconcileDelete_order:
  "runs_in_order DeleteCall [LoadBalancers, Firewalls, Networks]
     (new_invoked s (snd (reconcileDelete ops s))) \<and>
   returns_failure (new_invoked s (snd (reconcileDelete ops s))) (snd (fst (reconcileDelete ops s)))"
  unfolding reconcileDelete_def invoke_Delete_def Let_def no_requeue_def new_invoked_def
    runs_in_order_def returns_failure_def
  by (auto split: prod.splits sum.splits option.splits)

lemma reconcile_complete:
  "snd (fst (reconcile ops s)) = None \<Longrightarrow>
   map (\<lambda>x. fst (snd x)) (new_invoked s (snd (reconcile ops s))) = [Networks, Firewalls, LoadBalancers]"
  unfolding reconcile_def invoke_Reconcile_def Let_def no_requeue_def new_invoked_def
  by (auto split: prod.splits sum.splits option.splits if_splits)

lemma reconcileDelete_complete:
  "snd (fst (reconcileDelete ops s)) = None \<Longrightarrow>
   map (\<lambda>x. fst (snd x)) (new_invoked s (snd (reconcileDelete ops s))) = [LoadBalancers, Firewalls, Networks]"
  unfolding reconcileDelete_def invoke_Delete_def Let_def no_requeue_def new_invoked_def
  by (auto split: prod.splits sum.splits option.splits if_splits)

lemmas controller_defs =
  reconcile_def reconcileDelete_def invoke_Reconcile_def invoke_Delete_def no_requeue_def
  new_invoked_def computeFailureDomains_def c1_ops_def c1_cluster_def

text \<open>
  Claim C9. \<^verbatim>\<open>reconcile\<close> calls the component reconcilers in the order Network, Firewall,
  LoadBalancer and \<^verbatim>\<open>reconcileDelete\<close> calls their Delete in the order LoadBalancer,
  Firewall, Network: the calls made are an initial part of that order, each call but
  the last returned nil, an error a component returned is what the controller returns
  (so it was the last call), and a run that returns nil has called all three.
\<close>

theorem component_order:
  "runs_in_order ReconcileCall [Networks, Firewalls, LoadBalancers]
     (new_invoked s (snd (reconcile ops s))) \<and>
   returns_failure (new_invoked s (snd (reconcile ops s))) (snd (fst (reconcile ops s))) \<and>
   (snd (fst (reconcile ops s)) = None \<longrightarrow>
      map (\<lambda>x. fst (snd x)) (new_invoked s (snd (reconcile ops s)))
        = [Networks, Firewalls, LoadBalancers]) \<and>
   runs_in_order DeleteCall [LoadBalancers, Firewalls, Networks]
     (new_invoked s (snd (reconcileDelete ops s))) \<and>
   returns_failure (new_invoked s (snd (reconcileDelete ops s)))
     (snd (fst (reconcileDelete ops s))) \<and>
   (snd (fst (reconcileDelete ops s)) = None \<longrightarrow>
      map (\<lambda>x. fst (snd x)) (new_invoked s (snd (reconcileDelete ops s)))
        = [LoadBalancers, Firewalls, Networks])"
  using reconcile_order [of s ops] reconcileDelete_order [of s ops]
    reconcile_complete [of ops s] reconcileDelete_complete [of ops s]
  by blast

theorem component_order_witness:
  "snd (fst (reconcile (c1_ops None) c1_cluster)) = None \<and>
   new_invoked c1_cluster (snd (reconcile (c1_ops None) c1_cluster)) =
     [(ReconcileCall, Networks, None), (ReconcileCall, Firewalls, None),
      (ReconcileCall, LoadBalancers, None)] \<and>
   snd (fst (reconcile (c1_ops (Some (ProviderError ''quotaExceeded''))) c1_cluster))
     = Some (ProviderError ''quotaExceeded'') \<and>
   new_invoked c1_cluster (snd (reconcile (c1_ops (Some (ProviderError ''quotaExceeded''))) c1_cluster)) =
     [(ReconcileCall, Networks, None),
      (ReconcileCall, Firewalls, Some (ProviderError ''quotaExceeded''))] \<and>
   snd (fst (reconcileDelete (c1_ops None) c1_cluster)) = None \<and>
   new_invoked c1_cluster (snd (reconcileDelete (c1_ops None) c1_cluster)) =
     [(DeleteCall, LoadBalancers, None), (DeleteCall, Firewalls, None),
      (DeleteCall, Networks, None)] \<and>
   new_invoked c1_cluster (snd (reconcileDelete (c1_ops (Some (ProviderError ''resourceInUse''))) c1_cluster)) =
     [(DeleteCall, LoadBalancers, None),
      (DeleteCall, Firewalls, Some (ProviderError ''resourceInUse''))]"
  using component_order [of c1_cluster "c1_ops None"]
    component_order [of c1_cluster "c1_ops (Some (ProviderError ''quotaExceeded''))"]
    component_order [of c1_cluster "c1_ops (Some (ProviderError ''resourceInUse''))"]
  by (simp add: controller_defs networks_defs example_defs)

section \<open>Reconcile: the subnet calls and the spec objects, subnet by subnet\<close>

lemma Reconcile_cases [consumes 0, case_names network_fails router_fails owned foreign]:
  obtains
    (network_fails) err w1 where
      "createOrGetNetwork svc w = (Inl err, w1)"
      "networks_Service_Reconcile svc w = (Some err, w1)"
  | (router_fails) network w1 err w2 where
      "createOrGetNetwork svc w = (Inr network, w1)"
      "net_Description network = ClusterTagKey (Name (scope w1))"
      "createOrGetRouter svc network w1 = (Inl err, w2)"
      "networks_Service_Reconcile svc w = (Some err, w2)"
  | (owned) network w1 router w2 where
      "createOrGetNetwork svc w = (Inr network, w1)"
      "net_Description network = ClusterTagKey (Name (scope w1))"
      "createOrGetRouter svc network w1 = (Inr router, w2)"
      "networks_Service_Reconcile svc w =
         createOrPatchSubnet svc network
           (w2\<lparr>scope := (scope w2)\<lparr>Network :=
              (Network (scope w2))\<lparr>status_Router := Some (rtr_SelfLink router),
                        status_SelfLink := Some (net_SelfLink network)\<rparr>\<rparr>\<rparr>)"
  | (foreign) network w1 where
      "createOrGetNetwork svc w = (Inr network, w1)"
      "net_Description network \<noteq> ClusterTagKey (Name (scope w1))"
      "networks_Service_Reconcile svc w =
         createOrPatchSubnet svc network
           (w1\<lparr>scope := (scope w1)\<lparr>Network :=
              (Network (scope w1))\<lparr>status_SelfLink := Some (net_SelfLink network)\<rparr>\<rparr>\<rparr>)"
proof -
  obtain r1 w1 where n: "createOrGetNetwork svc w = (r1, w1)"
    by (cases "createOrGetNetwork svc w") auto
  show ?thesis
  proof (cases r1)
    case (Inl err)
    with n show ?thesis by (intro network_fails [of err w1]) (simp_all add: networks_Service_Reconcile_def)
  next
    case (Inr network)
    show ?thesis
    proof (cases "net_Description network = ClusterTagKey (Name (scope w1))")
      case False
      with n Inr show ?thesis
        by (intro foreign [of network w1]) (simp_all add: networks_Service_Reconcile_def)
    next
      case True
      obtain r2 w2 where r: "createOrGetRouter svc network w1 = (r2, w2)"
        by (cases "createOrGetRouter svc network w1") auto
      show ?thesis
      proof (cases r2)
        case (Inl err)
        with n \<open>r1 = Inr network\<close> True r show ?thesis
          by (intro router_fails [of network w1 err w2]) (simp_all add: networks_Service_Reconcile_def)
      next
        case (Inr router)
        with n \<open>r1 = Inr network\<close> True r show ?thesis
          by (intro owned [of network w1 router w2]) (simp_all add: networks_Service_Reconcile_def)
      qed
    qed
  qed
qed

lemma patchMergedRanges_shape:
  assumes "patchMergedRanges svc k subnet spec w = (r, w')"
  shows "scope w' = scope w \<and> (\<exists>pcs. issues w w' pcs \<and> patch_as_merged k subnet spec pcs r)"
proof (cases "mergeSecondaryRanges subnet spec \<noteq> sub_SecondaryIpRanges subnet")
  case True
  with assms have "call_subnetworks_Patch svc k
      (subnet\<lparr>sub_SecondaryIpRanges := mergeSecondaryRanges subnet spec\<rparr>) w = (r, w')"
    by (simp add: patchMergedRanges_def)
  from call_subnetworks_Patch_issues [OF this] True
    mergeSecondaryRanges_changed [of subnet spec] mergeSecondaryRanges_Some [of subnet spec]
  show ?thesis by (auto simp: patch_as_merged_def Let_def)
next
  case False
  with assms have "w' = w" "r = None" by (simp_all add: patchMergedRanges_def)
  with False mergeSecondaryRanges_changed [of subnet spec] issues_refl [of w]
  show ?thesis by (auto simp: patch_as_merged_def Let_def)
qed


lemma createOrPatchSubnet_body_shape:
  assumes "createOrPatchSubnet_body svc network spec w = (r, spec', w')"
  shows "scope w' = scope w \<and>
    (\<exists>cs. issues w w' cs \<and>
       subnet_iteration (RegionalKey (sub_Name spec) (Region (scope w)))
         (stamped_subnet (net_SelfLink network) (ClusterTagKey (Name (scope w))) spec) spec cs r spec')"
proof -
  let ?k = "RegionalKey (sub_Name spec) (Region (scope w))"
  let ?st = "stamped_subnet (net_SelfLink network) (ClusterTagKey (Name (scope w))) spec"
  obtain r1 w1 where g: "call_subnetworks_Get svc ?k w = (r1, w1)"
    by (cases "call_subnetworks_Get svc ?k w") auto
  note i1 = call_subnetworks_Get_issues [OF g]
  show ?thesis
  proof (cases r1)
    case (Inr subnet)
    obtain r2 w2 where p: "patchMergedRanges svc ?k subnet spec w1 = (r2, w2)"
      by (cases "patchMergedRanges svc ?k subnet spec w1") auto
    with assms g Inr have e: "w' = w2" "r = r2" "spec' = spec"
      by (simp_all add: createOrPatchSubnet_body_def Let_def)
    from patchMergedRanges_shape [OF p] obtain pcs where
      "scope w2 = scope w1" "issues w1 w2 pcs" "patch_as_merged ?k subnet spec pcs r2" by auto
    with i1 Inr e have "scope w' = scope w"
      "issues w w' (SubnetworksGet ?k (Inr subnet) # pcs)"
      "subnet_iteration ?k ?st spec (SubnetworksGet ?k (Inr subnet) # pcs) r spec'"
      by (auto simp: issues_def subnet_iteration_def)
    then show ?thesis by blast
  next
    case (Inl err)
    show ?thesis
    proof (cases "IsNotFound err")
      case False
      with assms g Inl have e: "w' = w1" "r = Some err" "spec' = spec"
        by (simp_all add: createOrPatchSubnet_body_def Let_def)
      with i1 Inl False have "scope w' = scope w"
        "issues w w' [SubnetworksGet ?k (Inl err)]"
        "subnet_iteration ?k ?st spec [SubnetworksGet ?k (Inl err)] r spec'"
        by (auto simp: subnet_iteration_def)
      then show ?thesis by blast
    next
      case True
      from i1 have st: "?st = spec\<lparr>sub_Network := net_SelfLink network,
                        sub_Description := ClusterTagKey (Name (scope w1))\<rparr>"
        by (simp add: stamped_subnet_def)
      obtain r2 w2 where i: "call_subnetworks_Insert svc ?k ?st w1 = (r2, w2)"
        by (cases "call_subnetworks_Insert svc ?k ?st w1") auto
      note i2 = call_subnetworks_Insert_issues [OF i]
      show ?thesis
      proof (cases r2)
        case (Some e)
        with assms g Inl True i st have e: "w' = w2" "r = Some e" "spec' = ?st"
          by (simp_all add: createOrPatchSubnet_body_def Let_def)
        with i1 i2 Inl True Some have "scope w' = scope w"
          "issues w w' [SubnetworksGet ?k (Inl err), SubnetworksInsert ?k ?st (Some e)]"
          "subnet_iteration ?k ?st spec
             [SubnetworksGet ?k (Inl err), SubnetworksInsert ?k ?st (Some e)] r spec'"
          by (auto simp: subnet_iteration_def issues_def)
        then show ?thesis by blast
      next
        case None
        obtain r3 w3 where g2: "call_subnetworks_Get svc ?k w2 = (r3, w3)"
          by (cases "call_subnetworks_Get svc ?k w2") auto
        note i3 = call_subnetworks_Get_issues [OF g2]
        show ?thesis
        proof (cases r3)
          case (Inl e)
          with assms g \<open>r1 = Inl err\<close> True i None g2 st
          have e: "w' = w3" "r = Some e" "spec' = ?st"
            by (simp_all add: createOrPatchSubnet_body_def Let_def)
          with i1 i2 i3 \<open>r1 = Inl err\<close> True None Inl have "scope w' = scope w"
            "issues w w' [SubnetworksGet ?k (Inl err), SubnetworksInsert ?k ?st None,
                          SubnetworksGet ?k (Inl e)]"
            "subnet_iteration ?k ?st spec
               [SubnetworksGet ?k (Inl err), SubnetworksInsert ?k ?st None,
                SubnetworksGet ?k (Inl e)] r spec'"
            by (auto simp: subnet_iteration_def issues_def)
          then show ?thesis by blast
        next
          case (Inr subnet)
          obtain r4 w4 where p: "patchMergedRanges svc ?k subnet ?st w3 = (r4, w4)"
            by (cases "patchMergedRanges svc ?k subnet ?st w3") auto
          with assms g Inl True i None g2 Inr st
          have e: "w' = w4" "r = r4" "spec' = ?st"
            by (simp_all add: createOrPatchSubnet_body_def Let_def)
          from patchMergedRanges_shape [OF p] obtain pcs where
            "scope w4 = scope w3" "issues w3 w4 pcs" "patch_as_merged ?k subnet ?st pcs r4" by auto
          with i1 i2 i3 Inl True None Inr e have "scope w' = scope w"
            "issues w w' (SubnetworksGet ?k (Inl err) # SubnetworksInsert ?k ?st None #
                          SubnetworksGet ?k (Inr subnet) # pcs)"
            "subnet_iteration ?k ?st spec
               (SubnetworksGet ?k (Inl err) # SubnetworksInsert ?k ?st None #
                SubnetworksGet ?k (Inr subnet) # pcs) r spec'"
            by (auto simp: subnet_iteration_def issues_def)
          then show ?thesis by blast
        qed
      qed
    qed
  qed
qed


lemma written_subnets_Nil [simp]: "written_subnets link tag specs [] = specs"
  by (cases specs) (simp_all add: written_head_def)

lemma skip_patch_iteration:
  "subnet_iteration k st spec cs r spec' \<Longrightarrow> skip_patch (cs @ ds) = cs @ ds"
  by (auto simp: subnet_iteration_def)

lemma merged_trace_iteration:
  assumes "subnet_iteration (RegionalKey (sub_Name spec) region) (stamped_subnet link tag spec) spec cs r spec'"
    and "r \<noteq> None \<longrightarrow> ds = []"
  shows "merged_trace region link tag (spec # specs) (cs @ ds) res =
           (case r of None \<Rightarrow> merged_trace region link tag specs ds res | Some err \<Rightarrow> res = Some err)"
  using assms
  by (auto simp: subnet_iteration_def patch_as_merged_def merged_head_def patched_as_union_def
      created_then_merged_def Let_def stamped_subnet_def
      split: if_splits option.splits)

lemma written_subnets_iteration:
  assumes "subnet_iteration k (stamped_subnet link tag spec) spec cs r spec'"
    and "skip_patch ds = ds"
    and "r \<noteq> None \<longrightarrow> ds = []"
  shows "written_subnets link tag (spec # specs) (cs @ ds) =
           spec' # (case r of None \<Rightarrow> written_subnets link tag specs ds | Some err \<Rightarrow> specs)"
  using assms
  by (auto simp: subnet_iteration_def patch_as_merged_def written_head_def Let_def
      split: if_splits option.splits)

lemma createOrPatchSubnet_loop_walk:
  "createOrPatchSubnet_loop svc network specs w = (r, specs', w') \<Longrightarrow>
   scope w' = scope w \<and>
   (\<exists>cs. issues w w' cs \<and> skip_patch cs = cs \<and>
      specs' = written_subnets (net_SelfLink network) (ClusterTagKey (Name (scope w))) specs cs \<and>
      merged_trace (Region (scope w)) (net_SelfLink network) (ClusterTagKey (Name (scope w))) specs cs r)"
proof (induction specs arbitrary: w r specs' w')
  case Nil
  then show ?case using issues_refl [of w] by (auto intro!: exI [of _ "[]"])
next
  case (Cons spec specs)
  let ?link = "net_SelfLink network" and ?tag = "ClusterTagKey (Name (scope w))"
  obtain r1 spec1 w1 where b: "createOrPatchSubnet_body svc network spec w = (r1, spec1, w1)"
    by (cases "createOrPatchSubnet_body svc network spec w") auto
  from createOrPatchSubnet_body_shape [OF b] obtain cs1 where
    1: "scope w1 = scope w" "issues w w1 cs1"
       "subnet_iteration (RegionalKey (sub_Name spec) (Region (scope w)))
          (stamped_subnet ?link ?tag spec) spec cs1 r1 spec1"
    by auto
  show ?case
  proof (cases r1)
    case (Some err)
    with Cons.prems b have e: "w' = w1" "specs' = spec1 # specs" "r = Some err" by simp_all
    from written_subnets_iteration [OF 1(3), of "[]" specs] Some
    have w: "written_subnets ?link ?tag (spec # specs) cs1 = spec1 # specs" by simp
    from merged_trace_iteration [OF 1(3), of "[]" specs r] Some e
    have m: "merged_trace (Region (scope w)) ?link ?tag (spec # specs) cs1 r"
      by simp
    from skip_patch_iteration [OF 1(3), of "[]"] have "skip_patch cs1 = cs1" by simp
    with 1 e w m show ?thesis by (intro conjI exI [of _ cs1]) simp_all
  next
    case None
    obtain r2 specs2 w2 where l: "createOrPatchSubnet_loop svc network specs w1 = (r2, specs2, w2)"
      by (cases "createOrPatchSubnet_loop svc network specs w1") auto
    from None Cons.prems b l have e: "w' = w2" "specs' = spec1 # specs2" "r = r2" by simp_all
    from Cons.IH [OF l] 1 obtain cs2 where
      2: "scope w2 = scope w" "issues w1 w2 cs2" "skip_patch cs2 = cs2"
         "specs2 = written_subnets ?link ?tag specs cs2"
         "merged_trace (Region (scope w)) ?link ?tag specs cs2 r2"
      by auto
    from written_subnets_iteration [OF 1(3) 2(3), of specs] None 2
    have w: "written_subnets ?link ?tag (spec # specs) (cs1 @ cs2) = spec1 # specs2" by simp
    from merged_trace_iteration [OF 1(3), of cs2 specs r] None 2 e
    have m: "merged_trace (Region (scope w)) ?link ?tag (spec # specs) (cs1 @ cs2) r"
      by simp
    from 1 2 e w m issues_trans [OF 1(2) 2(2)] skip_patch_iteration [OF 1(3), of cs2]
    show ?thesis by (intro conjI exI [of _ "cs1 @ cs2"]) simp_all
  qed
qed


lemma observed_link_single [simp]: "observed_networks cs = [n] \<Longrightarrow> observed_link cs = net_SelfLink n"
  by (simp add: observed_link_def)

lemma subnetworks_calls_filter:
  "list_all is_subnetworks_call cs \<Longrightarrow>
   filter is_subnetworks_call cs = cs \<and> \<not> list_ex router_lookup_not_found cs"
proof (induction cs)
  case Nil
  then show ?case by simp
next
  case (Cons c cs)
  then show ?case by (cases c) auto
qed

lemma createOrPatchSubnet_walk:
  assumes "createOrPatchSubnet svc network w = (r, w')"
  shows "Name (scope w') = Name (scope w) \<and> Region (scope w') = Region (scope w) \<and>
    NetworkName (scope w') = NetworkName (scope w) \<and>
    NetworkSpec (scope w') = NetworkSpec (scope w) \<and>
    NatRouterSpec (scope w') = NatRouterSpec (scope w) \<and>
    (\<exists>cs. issues w w' cs \<and> list_all is_subnetworks_call cs \<and>
       SubnetworksSpec (scope w') =
         written_subnets (net_SelfLink network) (ClusterTagKey (Name (scope w)))
           (SubnetworksSpec (scope w)) cs \<and>
       merged_trace (Region (scope w)) (net_SelfLink network) (ClusterTagKey (Name (scope w)))
         (SubnetworksSpec (scope w)) cs r)"
proof -
  obtain r1 specs1 w1 where l: "createOrPatchSubnet_loop svc network (SubnetworksSpec (scope w)) w = (r1, specs1, w1)"
    by (cases "createOrPatchSubnet_loop svc network (SubnetworksSpec (scope w)) w") auto
  with assms have e: "w' = w1\<lparr>scope := (scope w1)\<lparr>SubnetworksSpec := specs1\<rparr>\<rparr>" "r = r1"
    by (simp_all add: createOrPatchSubnet_def)
  from createOrPatchSubnet_loop_walk [OF l] obtain cs where
    1: "scope w1 = scope w" "issues w w1 cs"
       "specs1 = written_subnets (net_SelfLink network) (ClusterTagKey (Name (scope w)))
           (SubnetworksSpec (scope w)) cs"
       "merged_trace (Region (scope w)) (net_SelfLink network) (ClusterTagKey (Name (scope w)))
          (SubnetworksSpec (scope w)) cs r1"
    by auto
  from createOrPatchSubnet_loop_issues [OF l] 1(2) have "list_all is_subnetworks_call cs"
    by (auto simp: issues_def)
  with 1 e show ?thesis by (intro conjI exI [of _ cs]) simp_all
qed

lemma createOrGetNetwork_walk:
  assumes "createOrGetNetwork svc w = (r, w')"
  shows "scope w' = scope w \<and>
    (\<exists>cs. issues w w' cs \<and> filter is_subnetworks_call cs = [] \<and>
       \<not> list_ex router_lookup_not_found cs \<and>
       observed_networks cs = (case r of Inl e \<Rightarrow> [] | Inr n \<Rightarrow> [n]))"
  using assms unfolding createOrGetNetwork_def Let_def
  by (auto split: prod.splits sum.splits if_splits option.splits
      dest!: call_networks_Get_issues call_networks_Insert_issues simp: issues_def)

lemma createOrGetRouter_walk:
  assumes "createOrGetRouter svc network w = (r, w')"
  shows "Name (scope w') = Name (scope w) \<and> Region (scope w') = Region (scope w) \<and>
    NetworkName (scope w') = NetworkName (scope w) \<and>
    NetworkSpec (scope w') = NetworkSpec (scope w) \<and>
    SubnetworksSpec (scope w') = SubnetworksSpec (scope w) \<and>
    (\<exists>cs. issues w w' cs \<and> filter is_subnetworks_call cs = [] \<and> observed_networks cs = [] \<and>
       NatRouterSpec (scope w') =
         (if list_ex router_lookup_not_found cs
          then stamped_router (net_SelfLink network) (ClusterTagKey (Name (scope w))) (NatRouterSpec (scope w))
          else NatRouterSpec (scope w)))"
  using assms unfolding createOrGetRouter_def Let_def stamped_router_def
  by (auto split: prod.splits sum.splits if_splits option.splits
      dest!: call_routers_Get_issues call_routers_Insert_issues simp: issues_def)


lemma no_subnetworks_calls: "filter is_subnetworks_call cs = [] \<Longrightarrow> \<not> list_ex is_subnetworks_call cs"
  by (simp add: filter_empty_conv list_ex_iff)

lemma Reconcile_walk:
  "(let r = fst (networks_Service_Reconcile svc w);
        w' = snd (networks_Service_Reconcile svc w);
        cs = new_calls w w';
        tag = ClusterTagKey (Name (scope w));
        link = observed_link cs
    in Name (scope w') = Name (scope w) \<and> Region (scope w') = Region (scope w) \<and>
       NetworkName (scope w') = NetworkName (scope w) \<and>
       NetworkSpec (scope w') = NetworkSpec (scope w) \<and>
       NatRouterSpec (scope w') =
         (if list_ex router_lookup_not_found cs
          then stamped_router link tag (NatRouterSpec (scope w))
          else NatRouterSpec (scope w)) \<and>
       SubnetworksSpec (scope w') =
         written_subnets link tag (SubnetworksSpec (scope w)) (filter is_subnetworks_call cs) \<and>
       (r = None \<or> list_ex is_subnetworks_call cs \<longrightarrow>
          merged_trace (Region (scope w)) link tag (SubnetworksSpec (scope w))
            (filter is_subnetworks_call cs) r))"
proof (cases rule: Reconcile_cases [of svc w])
  case (network_fails err w1)
  from createOrGetNetwork_walk [OF network_fails(1)] obtain cs1 where
    "scope w1 = scope w" "issues w w1 cs1" "filter is_subnetworks_call cs1 = []"
    "\<not> list_ex router_lookup_not_found cs1" by auto
  with network_fails(2) no_subnetworks_calls [of cs1] show ?thesis
    by (simp add: issues_new_calls Let_def)
next
  case (router_fails network w1 err w2)
  from createOrGetNetwork_walk [OF router_fails(1)] obtain cs1 where
    1: "scope w1 = scope w" "issues w w1 cs1" "filter is_subnetworks_call cs1 = []"
    "\<not> list_ex router_lookup_not_found cs1" "observed_networks cs1 = [network]" by auto
  from createOrGetRouter_walk [OF router_fails(3)] obtain cs2 where
    2: "issues w1 w2 cs2" "filter is_subnetworks_call cs2 = []" "observed_networks cs2 = []"
    "NatRouterSpec (scope w2) =
         (if list_ex router_lookup_not_found cs2
          then stamped_router (net_SelfLink network) (ClusterTagKey (Name (scope w1))) (NatRouterSpec (scope w1))
          else NatRouterSpec (scope w1))"
    and sc: "Name (scope w2) = Name (scope w1)" "Region (scope w2) = Region (scope w1)"
    "NetworkName (scope w2) = NetworkName (scope w1)" "NetworkSpec (scope w2) = NetworkSpec (scope w1)"
    "SubnetworksSpec (scope w2) = SubnetworksSpec (scope w1)" by blast
  from 1 2 have n: "new_calls w w2 = cs1 @ cs2" by (simp add: issues_def new_calls_def)
  have o: "observed_networks (cs1 @ cs2) = [network]" using 1 2 by simp
  from router_fails(4) n o 1 2 sc no_subnetworks_calls [of cs1] no_subnetworks_calls [of cs2]
  show ?thesis by (simp add: Let_def)
next
  case (owned network w1 router w2)
  obtain r3 w3 where s: "networks_Service_Reconcile svc w = (r3, w3)"
    by (cases "networks_Service_Reconcile svc w") auto
  from createOrGetNetwork_walk [OF owned(1)] obtain cs1 where
    1: "scope w1 = scope w" "issues w w1 cs1" "filter is_subnetworks_call cs1 = []"
    "\<not> list_ex router_lookup_not_found cs1" "observed_networks cs1 = [network]" by auto
  from createOrGetRouter_walk [OF owned(3)] obtain cs2 where
    2: "issues w1 w2 cs2" "filter is_subnetworks_call cs2 = []" "observed_networks cs2 = []"
    "NatRouterSpec (scope w2) =
         (if list_ex router_lookup_not_found cs2
          then stamped_router (net_SelfLink network) (ClusterTagKey (Name (scope w1))) (NatRouterSpec (scope w1))
          else NatRouterSpec (scope w1))"
    and sc: "Name (scope w2) = Name (scope w1)" "Region (scope w2) = Region (scope w1)"
    "NetworkName (scope w2) = NetworkName (scope w1)" "NetworkSpec (scope w2) = NetworkSpec (scope w1)"
    "SubnetworksSpec (scope w2) = SubnetworksSpec (scope w1)" by blast
  from createOrPatchSubnet_walk [OF s [unfolded owned(4)]] have
    "Name (scope w3) = Name (scope w2) \<and> Region (scope w3) = Region (scope w2) \<and>
     NetworkName (scope w3) = NetworkName (scope w2) \<and>
     NetworkSpec (scope w3) = NetworkSpec (scope w2) \<and>
     NatRouterSpec (scope w3) = NatRouterSpec (scope w2) \<and>
     (\<exists>cs. issues w2 w3 cs \<and> list_all is_subnetworks_call cs \<and>
       SubnetworksSpec (scope w3) =
         written_subnets (net_SelfLink network) (ClusterTagKey (Name (scope w2)))
           (SubnetworksSpec (scope w2)) cs \<and>
       merged_trace (Region (scope w2)) (net_SelfLink network) (ClusterTagKey (Name (scope w2)))
         (SubnetworksSpec (scope w2)) cs r3)"
    by simp
  then obtain cs3 where
    3: "issues w2 w3 cs3" "list_all is_subnetworks_call cs3"
    "SubnetworksSpec (scope w3) =
         written_subnets (net_SelfLink network) (ClusterTagKey (Name (scope w2)))
           (SubnetworksSpec (scope w2)) cs3"
    "merged_trace (Region (scope w2)) (net_SelfLink network) (ClusterTagKey (Name (scope w2)))
         (SubnetworksSpec (scope w2)) cs3 r3"
    and sc3: "Name (scope w3) = Name (scope w2)" "Region (scope w3) = Region (scope w2)"
    "NetworkName (scope w3) = NetworkName (scope w2)" "NetworkSpec (scope w3) = NetworkSpec (scope w2)"
    "NatRouterSpec (scope w3) = NatRouterSpec (scope w2)"
    by blast
  note f3 = subnetworks_calls_filter [OF 3(2)] subnetworks_calls_only [OF 3(2)]
  from 1 2 3 have n: "new_calls w w3 = cs1 @ cs2 @ cs3" by (simp add: issues_def new_calls_def)
  have o: "observed_networks (cs1 @ cs2 @ cs3) = [network]" using 1 2 f3 by simp
  from s n o 1 2 sc sc3 3 f3 show ?thesis by (auto simp: Let_def)
next
  case (foreign network w1)
  obtain r3 w3 where s: "networks_Service_Reconcile svc w = (r3, w3)"
    by (cases "networks_Service_Reconcile svc w") auto
  from createOrGetNetwork_walk [OF foreign(1)] obtain cs1 where
    1: "scope w1 = scope w" "issues w w1 cs1" "filter is_subnetworks_call cs1 = []"
    "\<not> list_ex router_lookup_not_found cs1" "observed_networks cs1 = [network]" by auto
  from createOrPatchSubnet_walk [OF s [unfolded foreign(3)]] have
    "Name (scope w3) = Name (scope w1) \<and> Region (scope w3) = Region (scope w1) \<and>
     NetworkName (scope w3) = NetworkName (scope w1) \<and>
     NetworkSpec (scope w3) = NetworkSpec (scope w1) \<and>
     NatRouterSpec (scope w3) = NatRouterSpec (scope w1) \<and>
     (\<exists>cs. issues w1 w3 cs \<and> list_all is_subnetworks_call cs \<and>
       SubnetworksSpec (scope w3) =
         written_subnets (net_SelfLink network) (ClusterTagKey (Name (scope w1)))
           (SubnetworksSpec (scope w1)) cs \<and>
       merged_trace (Region (scope w1)) (net_SelfLink network) (ClusterTagKey (Name (scope w1)))
         (SubnetworksSpec (scope w1)) cs r3)"
    by simp
  then obtain cs3 where
    3: "issues w1 w3 cs3" "list_all is_subnetworks_call cs3"
    "SubnetworksSpec (scope w3) =
         written_subnets (net_SelfLink network) (ClusterTagKey (Name (scope w1)))
           (SubnetworksSpec (scope w1)) cs3"
    "merged_trace (Region (scope w1)) (net_SelfLink network) (ClusterTagKey (Name (scope w1)))
         (SubnetworksSpec (scope w1)) cs3 r3"
    and sc3: "Name (scope w3) = Name (scope w1)" "Region (scope w3) = Region (scope w1)"
    "NetworkName (scope w3) = NetworkName (scope w1)" "NetworkSpec (scope w3) = NetworkSpec (scope w1)"
    "NatRouterSpec (scope w3) = NatRouterSpec (scope w1)"
    by blast
  note f3 = subnetworks_calls_filter [OF 3(2)] subnetworks_calls_only [OF 3(2)]
  from 1 3 have n: "new_calls w w3 = cs1 @ cs3" by (simp add: issues_def new_calls_def)
  have o: "observed_networks (cs1 @ cs3) = [network]" using 1 f3 by simp
  from s n o 1 sc3 3 f3 show ?thesis by (auto simp: Let_def)
qed

text \<open>
  Claim C3. For an existing subnet, \<^verbatim>\<open>createOrPatchSubnet\<close> computes the union by range
  name of the observed ranges and the ranges of the spec: the observed entries unchanged
  and first, then every entry of the spec whose name no observed entry has (the names
  stay distinct when they are distinct in both lists). One iteration issues the lookup
  and, exactly when the union differs from the observed list, one Patch that submits the
  observed subnet with the union. The calls of the loop, for any list of specs, and of
  \<^verbatim>\<open>createOrPatchSubnet\<close> as a whole, for the subnet specs of the scope, are these, for
  every spec in order and up to the first error, which is the result: the lookup of the subnet, for a subnet that is not found its creation and a
  second lookup, and then the Patch with the union exactly when the union differs from
  the list observed. The subnet calls of a Reconcile that returns nil, or that issues any
  subnet call, are the same, with the self-link of the network that was looked up. Over
  a whole Reconcile no call removes a range: there is no subnet Delete, and every Patch
  follows the lookup of the same subnet with a range list that starts with the observed
  one.
\<close>

theorem secondary_range_merge_additive:
  "elems (mergeSecondaryRanges subnet spec) =
     range_union (elems (sub_SecondaryIpRanges subnet)) (elems (sub_SecondaryIpRanges spec)) \<and>
   prefix (elems (sub_SecondaryIpRanges subnet)) (elems (mergeSecondaryRanges subnet spec)) \<and>
   (distinct (map RangeName (elems (sub_SecondaryIpRanges subnet))) \<and>
    distinct (map RangeName (elems (sub_SecondaryIpRanges spec))) \<longrightarrow>
      distinct (map RangeName (elems (mergeSecondaryRanges subnet spec)))) \<and>
   (subnetworks_Get svc (RegionalKey (sub_Name spec) (Region (scope w))) (cloud w) = (Inr subnet, p) \<longrightarrow>
      new_calls w (snd (snd (createOrPatchSubnet_body svc network spec w))) =
        (let k = RegionalKey (sub_Name spec) (Region (scope w));
             observed = elems (sub_SecondaryIpRanges subnet);
             union = range_union observed (elems (sub_SecondaryIpRanges spec));
             patched = subnet\<lparr>sub_SecondaryIpRanges := Some union\<rparr>
         in if union \<noteq> observed
            then [SubnetworksGet k (Inr subnet),
                  SubnetworksPatch k patched (fst (subnetworks_Patch svc k patched p))]
            else [SubnetworksGet k (Inr subnet)])) \<and>
   merged_trace (Region (scope w)) (net_SelfLink network) (ClusterTagKey (Name (scope w))) specs
     (new_calls w (snd (snd (createOrPatchSubnet_loop svc network specs w))))
     (fst (createOrPatchSubnet_loop svc network specs w)) \<and>
   merged_trace (Region (scope w)) (net_SelfLink network) (ClusterTagKey (Name (scope w)))
     (SubnetworksSpec (scope w))
     (new_calls w (snd (createOrPatchSubnet svc network w)))
     (fst (createOrPatchSubnet svc network w)) \<and>
   (let r = fst (networks_Service_Reconcile svc w);
        cs = new_calls w (snd (networks_Service_Reconcile svc w))
    in r = None \<or> list_ex is_subnetworks_call cs \<longrightarrow>
         merged_trace (Region (scope w)) (observed_link cs) (ClusterTagKey (Name (scope w)))
           (SubnetworksSpec (scope w)) (filter is_subnetworks_call cs) r) \<and>
   never_removes None (new_calls w (snd (networks_Service_Reconcile svc w)))"
proof -
  obtain r1 w1 where s: "createOrPatchSubnet svc network w = (r1, w1)"
    by (cases "createOrPatchSubnet svc network w") auto
  from createOrPatchSubnet_walk [OF s] obtain cs where
    "issues w w1 cs"
    "merged_trace (Region (scope w)) (net_SelfLink network) (ClusterTagKey (Name (scope w)))
       (SubnetworksSpec (scope w)) cs r1"
    by blast
  with s have m: "merged_trace (Region (scope w)) (net_SelfLink network) (ClusterTagKey (Name (scope w)))
     (SubnetworksSpec (scope w))
     (new_calls w (snd (createOrPatchSubnet svc network w)))
     (fst (createOrPatchSubnet svc network w))"
    by (simp add: issues_new_calls)
  obtain r2 specs2 w2 where l: "createOrPatchSubnet_loop svc network specs w = (r2, specs2, w2)"
    by (cases "createOrPatchSubnet_loop svc network specs w") auto
  from createOrPatchSubnet_loop_walk [OF l] obtain cs2 where
    "issues w w2 cs2"
    "merged_trace (Region (scope w)) (net_SelfLink network) (ClusterTagKey (Name (scope w)))
       specs cs2 r2"
    by blast
  with l have ml: "merged_trace (Region (scope w)) (net_SelfLink network) (ClusterTagKey (Name (scope w))) specs
     (new_calls w (snd (snd (createOrPatchSubnet_loop svc network specs w))))
     (fst (createOrPatchSubnet_loop svc network specs w))"
    by (simp add: issues_new_calls)
  from Reconcile_walk [of svc w]
  have t: "(let r = fst (networks_Service_Reconcile svc w);
        cs = new_calls w (snd (networks_Service_Reconcile svc w))
    in r = None \<or> list_ex is_subnetworks_call cs \<longrightarrow>
         merged_trace (Region (scope w)) (observed_link cs) (ClusterTagKey (Name (scope w)))
           (SubnetworksSpec (scope w)) (filter is_subnetworks_call cs) r)"
    by (simp add: Let_def)
  from m ml t mergeSecondaryRanges_elems [of subnet spec]
    range_union_prefix [of "elems (sub_SecondaryIpRanges subnet)" "elems (sub_SecondaryIpRanges spec)"]
    range_union_distinct [of "elems (sub_SecondaryIpRanges subnet)" "elems (sub_SecondaryIpRanges spec)"]
    existing_subnet_calls [of svc spec w subnet p network]
    safe_new_calls [OF Reconcile_safe, of w svc]
  show ?thesis by simp
qed

theorem secondary_range_merge_additive_witness:
  "subnetworks_Get fake_networks_Service (RegionalKey (sub_Name sub1_spec) (Region (scope (foreign_world (Some [rangeA])))))
       (cloud (foreign_world (Some [rangeA])))
     = (Inr (sub1_foreign (Some [rangeA])), cloud (foreign_world (Some [rangeA]))) \<and>
   elems (mergeSecondaryRanges (sub1_foreign (Some [rangeA])) sub1_spec) = [rangeA, rangeB] \<and>
   distinct (map RangeName [rangeA, rangeB]) \<and>
   new_calls (foreign_world (Some [rangeA]))
      (snd (snd (createOrPatchSubnet_body fake_networks_Service net1_foreign sub1_spec
                   (foreign_world (Some [rangeA]))))) =
     [SubnetworksGet (RegionalKey ''sub1'' ''r1'') (Inr (sub1_foreign (Some [rangeA]))),
      SubnetworksPatch (RegionalKey ''sub1'' ''r1'') (sub1_foreign (Some [rangeA, rangeB])) None] \<and>
   new_calls (foreign_world (Some [rangeA]))
      (snd (snd (createOrPatchSubnet_loop fake_networks_Service net1_foreign [sub1_spec]
                   (foreign_world (Some [rangeA]))))) =
     [SubnetworksGet (RegionalKey ''sub1'' ''r1'') (Inr (sub1_foreign (Some [rangeA]))),
      SubnetworksPatch (RegionalKey ''sub1'' ''r1'') (sub1_foreign (Some [rangeA, rangeB])) None] \<and>
   fst (networks_Service_Reconcile fake_networks_Service (foreign_world (Some [rangeA]))) = None \<and>
   filter is_subnetworks_call (new_calls (foreign_world (Some [rangeA]))
      (snd (networks_Service_Reconcile fake_networks_Service (foreign_world (Some [rangeA]))))) =
     [SubnetworksGet (RegionalKey ''sub1'' ''r1'') (Inr (sub1_foreign (Some [rangeA]))),
      SubnetworksPatch (RegionalKey ''sub1'' ''r1'') (sub1_foreign (Some [rangeA, rangeB])) None] \<and>
   merged_trace ''r1'' (net_SelfLink net1_foreign) (ClusterTagKey ''c1'') [sub1_spec]
     [SubnetworksGet (RegionalKey ''sub1'' ''r1'') (Inr (sub1_foreign (Some [rangeA]))),
      SubnetworksPatch (RegionalKey ''sub1'' ''r1'') (sub1_foreign (Some [rangeA, rangeB])) None] None \<and>
   \<not> merged_trace ''r1'' (net_SelfLink net1_foreign) (ClusterTagKey ''c1'') [sub1_spec]
     [SubnetworksGet (RegionalKey ''sub1'' ''r1'') (Inr (sub1_foreign (Some [rangeA])))] None \<and>
   \<not> merged_trace ''r1'' (net_SelfLink net1_foreign) (ClusterTagKey ''c1'') [sub1_spec] [] None \<and>
   never_removes None (new_calls (foreign_world (Some [rangeA]))
      (snd (networks_Service_Reconcile fake_networks_Service (foreign_world (Some [rangeA])))))"
  using secondary_range_merge_additive [of "sub1_foreign (Some [rangeA])" sub1_spec
      fake_networks_Service "foreign_world (Some [rangeA])" "cloud (foreign_world (Some [rangeA]))"
      net1_foreign "[sub1_spec]"]
  by (simp add: networks_defs example_defs range_union_def merged_head_def patched_as_union_def
      created_then_merged_def observed_link_def)

section \<open>What Reconcile writes into the spec objects\<close>

lemma createOrGetRouter_scope:
  assumes "createOrGetRouter svc network w = (r, w')"
  shows "scope w' = scope w \<or>
         scope w' = (scope w)\<lparr>NatRouterSpec :=
            stamped_router (net_SelfLink network) (ClusterTagKey (Name (scope w))) (NatRouterSpec (scope w))\<rparr>"
  using assms unfolding createOrGetRouter_def Let_def stamped_router_def
  by (auto split: prod.splits sum.splits if_splits option.splits
      dest!: call_routers_Get_issues call_routers_Insert_issues)

lemma createOrPatchSubnet_body_spec:
  assumes "createOrPatchSubnet_body svc network spec w = (r, spec', w')"
  shows "spec' = spec \<or>
         spec' = stamped_subnet (net_SelfLink network) (ClusterTagKey (Name (scope w))) spec"
  using assms unfolding createOrPatchSubnet_body_def Let_def stamped_subnet_def
  by (auto split: prod.splits sum.splits if_splits option.splits
      dest!: call_subnetworks_Get_issues)

lemma createOrPatchSubnet_loop_specs:
  "createOrPatchSubnet_loop svc network specs w = (r, specs', w') \<Longrightarrow>
   list_all2 (\<lambda>spec spec'. spec' = spec \<or>
       spec' = stamped_subnet (net_SelfLink network) (ClusterTagKey (Name (scope w))) spec)
     specs specs'"
proof (induction specs arbitrary: w r specs' w')
  case Nil
  then show ?case by simp
next
  case (Cons spec specs)
  obtain r1 spec1 w1 where b: "createOrPatchSubnet_body svc network spec w = (r1, spec1, w1)"
    by (cases "createOrPatchSubnet_body svc network spec w") auto
  note 1 = createOrPatchSubnet_body_spec [OF b]
  from createOrPatchSubnet_body_issues [OF b] have sc: "scope w1 = scope w" by simp
  show ?case
  proof (cases r1)
    case (Some err)
    with Cons.prems b have "specs' = spec1 # specs" by simp
    with 1 show ?thesis by (simp add: list_all2_same)
  next
    case None
    obtain r2 specs2 w2 where l: "createOrPatchSubnet_loop svc network specs w1 = (r2, specs2, w2)"
      by (cases "createOrPatchSubnet_loop svc network specs w1") auto
    from None Cons.prems b l have "specs' = spec1 # specs2" by simp
    with 1 Cons.IH [OF l] sc show ?thesis by simp
  qed
qed

lemma createOrPatchSubnet_scope:
  assumes "createOrPatchSubnet svc network w = (r, w')"
  shows "\<exists>specs'. scope w' = (scope w)\<lparr>SubnetworksSpec := specs'\<rparr> \<and>
     list_all2 (\<lambda>spec spec'. spec' = spec \<or>
         spec' = stamped_subnet (net_SelfLink network) (ClusterTagKey (Name (scope w))) spec)
       (SubnetworksSpec (scope w)) specs'"
proof -
  obtain r1 specs1 w1 where l: "createOrPatchSubnet_loop svc network (SubnetworksSpec (scope w)) w = (r1, specs1, w1)"
    by (cases "createOrPatchSubnet_loop svc network (SubnetworksSpec (scope w)) w") auto
  with assms have "w' = w1\<lparr>scope := (scope w1)\<lparr>SubnetworksSpec := specs1\<rparr>\<rparr>"
    by (simp add: createOrPatchSubnet_def)
  with createOrPatchSubnet_loop_issues [OF l] createOrPatchSubnet_loop_specs [OF l]
  show ?thesis by auto
qed

lemma Reconcile_spec_written:
  "spec_written (scope w) (scope (snd (networks_Service_Reconcile svc w)))"
proof (cases rule: Reconcile_cases [of svc w])
  case (network_fails err w1)
  with createOrGetNetwork_issues [OF network_fails(1)] show ?thesis
    by (auto simp: spec_written_def list_all2_same)
next
  case (router_fails network w1 err w2)
  with createOrGetNetwork_issues [OF router_fails(1)] createOrGetRouter_scope [OF router_fails(3)]
  show ?thesis
    by (auto simp: spec_written_def list_all2_same)
next
  case (owned network w1 router w2)
  obtain r3 w3 where s: "networks_Service_Reconcile svc w = (r3, w3)"
    by (cases "networks_Service_Reconcile svc w") auto
  from createOrPatchSubnet_scope [OF s [unfolded owned(4)]]
    createOrGetNetwork_issues [OF owned(1)] createOrGetRouter_scope [OF owned(3)] s
  show ?thesis
    by (auto simp: spec_written_def intro!: exI [of _ "net_SelfLink network"])
next
  case (foreign network w1)
  obtain r3 w3 where s: "networks_Service_Reconcile svc w = (r3, w3)"
    by (cases "networks_Service_Reconcile svc w") auto
  from createOrPatchSubnet_scope [OF s [unfolded foreign(3)]]
    createOrGetNetwork_issues [OF foreign(1)] s
  show ?thesis
    by (auto simp: spec_written_def intro!: exI [of _ "net_SelfLink network"])
qed

lemma instances_Reconcile_spec:
  "InstanceSpec (scope (snd (instances_Service_Reconcile svc w))) =
     (case GetBootstrapData (scope w) of
        Inl err \<Rightarrow> InstanceSpec (scope w)
      | Inr bootstrapData \<Rightarrow>
          (case ins_Metadata (InstanceSpec (scope w)) of
             None \<Rightarrow> InstanceSpec (scope w)
           | Some items \<Rightarrow>
               (InstanceSpec (scope w))\<lparr>ins_Metadata := Some (items @ [user_data bootstrapData])\<rparr>))"
  unfolding instances_Service_Reconcile_def createOrGetInstance_def registerControlPlaneInstance_def
    Let_def icall_defs
  by (auto split: prod.splits sum.splits if_splits option.splits)

text \<open>
  Claim C8 says that Reconcile changes only a local copy and leaves the spec objects the
  scope returned unchanged. No copy is made: the assignments go through the pointers the
  getters returned. For the empty provider, the router spec object and the subnet spec
  object of cluster c1 carry the self-link of the network and the ownership tag after
  Reconcile, and the instance spec object of machine cp1 carries the user-data item.
\<close>

theorem Reconcile_writes_spec_objects:
  "NatRouterSpec (scope (snd (networks_Service_Reconcile fake_networks_Service (start empty_cloud c1_scope))))
     \<noteq> NatRouterSpec (scope (start empty_cloud c1_scope)) \<and>
   SubnetworksSpec (scope (snd (networks_Service_Reconcile fake_networks_Service (start empty_cloud c1_scope))))
     \<noteq> SubnetworksSpec (scope (start empty_cloud c1_scope)) \<and>
   InstanceSpec (scope (snd (instances_Service_Reconcile fake_instances_Service (cp1_world ''RUNNING'' []))))
     \<noteq> InstanceSpec (scope (cp1_world ''RUNNING'' []))"
  by (simp add: networks_defs example_defs instances_defs machine_defs)

text \<open>
  Claim C8, amended. Reconcile writes into the spec objects themselves, and nothing
  else. After the network Reconcile the router spec object has its Network and
  Description set to the self-link of the network that was looked up and the ownership
  tag exactly when a router lookup answered not-found, and is as before otherwise; each
  subnet spec object has the same two values written into it exactly when the lookup of
  its subnet answered not-found, and is as before otherwise; the network spec, the names
  and the region are as before. After the instance Reconcile the instance spec object
  has the user-data item appended to its metadata items when the bootstrap data was read
  and the metadata is not nil, and is as before otherwise.
\<close>

theorem spec_objects_written_in_place:
  "(let w' = snd (networks_Service_Reconcile svc w);
        cs = new_calls w w';
        tag = ClusterTagKey (Name (scope w));
        link = observed_link cs
    in Name (scope w') = Name (scope w) \<and> Region (scope w') = Region (scope w) \<and>
       NetworkName (scope w') = NetworkName (scope w) \<and>
       NetworkSpec (scope w') = NetworkSpec (scope w) \<and>
       NatRouterSpec (scope w') =
         (if list_ex router_lookup_not_found cs
          then stamped_router link tag (NatRouterSpec (scope w))
          else NatRouterSpec (scope w)) \<and>
       SubnetworksSpec (scope w') =
         written_subnets link tag (SubnetworksSpec (scope w)) (filter is_subnetworks_call cs)) \<and>
   InstanceSpec (scope (snd (instances_Service_Reconcile isvc m))) =
     (case GetBootstrapData (scope m) of
        Inl err \<Rightarrow> InstanceSpec (scope m)
      | Inr bootstrapData \<Rightarrow>
          (case ins_Metadata (InstanceSpec (scope m)) of
             None \<Rightarrow> InstanceSpec (scope m)
           | Some items \<Rightarrow>
               (InstanceSpec (scope m))\<lparr>ins_Metadata := Some (items @ [user_data bootstrapData])\<rparr>))"
  using Reconcile_walk [of svc w] instances_Reconcile_spec [of isvc m] by (simp add: Let_def)

theorem spec_objects_written_in_place_witness:
  "observed_link (new_calls (start empty_cloud c1_scope)
      (snd (networks_Service_Reconcile fake_networks_Service (start empty_cloud c1_scope))))
     = selfLinkOf ''networks'' (GlobalKey ''net1'') \<and>
   list_ex router_lookup_not_found (new_calls (start empty_cloud c1_scope)
      (snd (networks_Service_Reconcile fake_networks_Service (start empty_cloud c1_scope)))) \<and>
   NatRouterSpec (scope (snd (networks_Service_Reconcile fake_networks_Service (start empty_cloud c1_scope))))
     = stamped_router (selfLinkOf ''networks'' (GlobalKey ''net1'')) (ClusterTagKey ''c1'') nat1_spec \<and>
   SubnetworksSpec (scope (snd (networks_Service_Reconcile fake_networks_Service (start empty_cloud c1_scope))))
     = [stamped_subnet (selfLinkOf ''networks'' (GlobalKey ''net1'')) (ClusterTagKey ''c1'') sub1_spec] \<and>
   NatRouterSpec (scope (snd (networks_Service_Reconcile fake_networks_Service (foreign_world (Some [rangeA])))))
     = nat1_spec \<and>
   SubnetworksSpec (scope (snd (networks_Service_Reconcile fake_networks_Service (foreign_world (Some [rangeA])))))
     = [sub1_spec] \<and>
   InstanceSpec (scope (snd (instances_Service_Reconcile fake_instances_Service (cp1_world ''RUNNING'' []))))
     = cp1_spec\<lparr>ins_Metadata := Some [user_data ''#cloud-config'']\<rparr>"
  using spec_objects_written_in_place [of fake_networks_Service "start empty_cloud c1_scope"
      fake_instances_Service "cp1_world ''RUNNING'' []"]
  by (simp add: networks_defs example_defs instances_defs machine_defs stamped_router_def
      stamped_subnet_def observed_link_def written_head_def ClusterTagKey_def)

section \<open>A second Reconcile on the in-memory provider\<close>

lemma quiet_refl: "quiet w w"
  unfolding quiet_def using issues_refl [of w] by (intro conjI exI [of _ "[]"]) simp_all

lemma quiet_trans: "quiet w w1 \<Longrightarrow> quiet w1 w2 \<Longrightarrow> quiet w w2"
  unfolding quiet_def
proof (elim exE conjE)
  fix cs ds
  assume "issues w w1 cs" "issues w1 w2 ds" "filter is_mutation cs = []" "filter is_mutation ds = []"
    and c: "cloud w1 = cloud w" "cloud w2 = cloud w1"
  then have "issues w w2 (cs @ ds) \<and> filter is_mutation (cs @ ds) = []"
    by (simp add: issues_trans)
  with c show "cloud w2 = cloud w \<and> (\<exists>cs. issues w w2 cs \<and> filter is_mutation cs = [])"
    by auto
qed

lemma quiet_scope_update [simp]:
  "quiet w (w'\<lparr>scope := sc\<rparr>) = quiet w w'"
  "quiet (w\<lparr>scope := sc\<rparr>) w' = quiet w w'"
  by (simp_all add: quiet_def)

lemma quiet_read:
  "\<not> is_mutation c \<Longrightarrow> quiet w (w\<lparr>calls := calls w @ [c]\<rparr>)"
  unfolding quiet_def issues_def by (intro conjI exI [of _ "[c]"]) simp_all

lemma quiet_new_calls:
  "quiet w w' \<Longrightarrow> filter is_mutation (new_calls w w') = [] \<and> cloud w' = cloud w"
  by (auto simp: quiet_def issues_new_calls)

lemma grows_refl: "grows p p"
  by (simp add: grows_def)

lemma grows_trans: "grows p p1 \<Longrightarrow> grows p1 p2 \<Longrightarrow> grows p p2"
  unfolding grows_def by (auto, metis subset_trans)

lemma subnet_converged_grows:
  "grows p p' \<Longrightarrow> subnet_converged p region spec \<Longrightarrow> subnet_converged p' region spec"
  unfolding grows_def subnet_converged_def by (auto, metis subset_trans)

lemma fake_call_networks_Get:
  "call_networks_Get fake_networks_Service k w =
     (fake_get (fc_networks (cloud w)) k,
      w\<lparr>calls := calls w @ [NetworksGet k (fake_get (fc_networks (cloud w)) k)]\<rparr>)"
  by (simp add: call_networks_Get_def fake_networks_Service_def)

lemma fake_call_routers_Get:
  "call_routers_Get fake_networks_Service k w =
     (fake_get (fc_routers (cloud w)) k,
      w\<lparr>calls := calls w @ [RoutersGet k (fake_get (fc_routers (cloud w)) k)]\<rparr>)"
  by (simp add: call_routers_Get_def fake_networks_Service_def)

lemma fake_call_subnetworks_Get:
  "call_subnetworks_Get fake_networks_Service k w =
     (fake_get (fc_subnetworks (cloud w)) k,
      w\<lparr>calls := calls w @ [SubnetworksGet k (fake_get (fc_subnetworks (cloud w)) k)]\<rparr>)"
  by (simp add: call_subnetworks_Get_def fake_networks_Service_def)

lemma range_names_merge:
  "RangeName ` set (elems (mergeSecondaryRanges subnet spec)) = range_names subnet \<union> range_names spec"
  by (auto simp: mergeSecondaryRanges_elems range_union_def range_names_def)

lemma merge_unchanged_iff:
  "mergeSecondaryRanges subnet spec = sub_SecondaryIpRanges subnet \<longleftrightarrow>
   range_names spec \<subseteq> range_names subnet"
  using mergeSecondaryRanges_changed [of subnet spec]
  by (auto simp: range_union_def range_names_def filter_empty_conv)

lemma converged_createOrGetNetwork:
  assumes "fc_networks (cloud v) (GlobalKey (NetworkName (scope v))) = Some n"
  shows "\<exists>v1. createOrGetNetwork fake_networks_Service v = (Inr n, v1) \<and> quiet v v1 \<and> scope v1 = scope v"
  using assms
  by (simp add: createOrGetNetwork_def fake_call_networks_Get fake_get_def quiet_read)

lemma converged_createOrGetRouter:
  assumes "fc_routers (cloud v) (RegionalKey (rtr_Name (NatRouterSpec (scope v))) (Region (scope v))) = Some r"
  shows "\<exists>v1. createOrGetRouter fake_networks_Service n v = (Inr r, v1) \<and> quiet v v1 \<and> scope v1 = scope v"
  using assms
  by (simp add: createOrGetRouter_def fake_call_routers_Get fake_get_def quiet_read Let_def)

lemma converged_body:
  assumes "subnet_converged (cloud v) (Region (scope v)) spec"
  shows "\<exists>v1. createOrPatchSubnet_body fake_networks_Service n spec v = (None, spec, v1) \<and>
           quiet v v1 \<and> scope v1 = scope v"
  using assms
  by (auto simp: subnet_converged_def createOrPatchSubnet_body_def fake_call_subnetworks_Get
      fake_get_def patchMergedRanges_def merge_unchanged_iff quiet_read Let_def)

lemma converged_loop:
  "\<forall>spec\<in>set specs. subnet_converged (cloud v) (Region (scope v)) spec \<Longrightarrow>
   \<exists>v1. createOrPatchSubnet_loop fake_networks_Service n specs v = (None, specs, v1) \<and>
        quiet v v1 \<and> scope v1 = scope v"
proof (induction specs arbitrary: v)
  case Nil
  then show ?case by (simp add: quiet_refl)
next
  case (Cons spec specs)
  from Cons.prems converged_body [of v spec n] obtain v1 where
    1: "createOrPatchSubnet_body fake_networks_Service n spec v = (None, spec, v1)"
       "quiet v v1" "scope v1 = scope v" by auto
  then have "cloud v1 = cloud v" by (simp add: quiet_def)
  with Cons.prems 1 have "\<forall>spec\<in>set specs. subnet_converged (cloud v1) (Region (scope v1)) spec"
    by simp
  from Cons.IH [OF this] obtain v2 where
    2: "createOrPatchSubnet_loop fake_networks_Service n specs v1 = (None, specs, v2)"
       "quiet v1 v2" "scope v2 = scope v1" by auto
  with 1 show ?case by (auto intro: quiet_trans)
qed

lemma converged_createOrPatchSubnet:
  assumes "\<forall>spec\<in>set (SubnetworksSpec (scope v)). subnet_converged (cloud v) (Region (scope v)) spec"
  shows "\<exists>v1. createOrPatchSubnet fake_networks_Service n v = (None, v1) \<and> quiet v v1"
  using converged_loop [OF assms, of n]
  by (auto simp: createOrPatchSubnet_def)

lemma converged_Reconcile:
  assumes "net_converged (scope v) (cloud v)"
  shows "fst (networks_Service_Reconcile fake_networks_Service v) = None \<and>
         quiet v (snd (networks_Service_Reconcile fake_networks_Service v))"
proof -
  from assms obtain n where
    n: "fc_networks (cloud v) (GlobalKey (NetworkName (scope v))) = Some n"
    and r: "net_Description n = ClusterTagKey (Name (scope v)) \<longrightarrow>
       fc_routers (cloud v) (RegionalKey (rtr_Name (NatRouterSpec (scope v))) (Region (scope v))) \<noteq> None"
    and s: "\<forall>spec\<in>set (SubnetworksSpec (scope v)). subnet_converged (cloud v) (Region (scope v)) spec"
    by (auto simp: net_converged_def)
  from converged_createOrGetNetwork [OF n] obtain v1 where
    1: "createOrGetNetwork fake_networks_Service v = (Inr n, v1)" "quiet v v1" "scope v1 = scope v"
    by auto
  then have c1: "cloud v1 = cloud v" by (simp add: quiet_def)
  show ?thesis
  proof (cases "net_Description n = ClusterTagKey (Name (scope v))")
    case True
    with r obtain rt where "fc_routers (cloud v1) (RegionalKey (rtr_Name (NatRouterSpec (scope v1))) (Region (scope v1))) = Some rt"
      using 1 c1 by auto
    from converged_createOrGetRouter [OF this, of n] obtain v2 where
      2: "createOrGetRouter fake_networks_Service n v1 = (Inr rt, v2)" "quiet v1 v2" "scope v2 = scope v1"
      by auto
    then have c2: "cloud v2 = cloud v1" by (simp add: quiet_def)
    let ?v2' = "v2\<lparr>scope := (scope v2)\<lparr>Network :=
                      (Network (scope v2))\<lparr>status_Router := Some (rtr_SelfLink rt),
                        status_SelfLink := Some (net_SelfLink n)\<rparr>\<rparr>\<rparr>"
    from s 1 2 c1 c2 have "\<forall>spec\<in>set (SubnetworksSpec (scope ?v2')). subnet_converged (cloud ?v2') (Region (scope ?v2')) spec"
      by simp
    from converged_createOrPatchSubnet [OF this, of n] obtain v3 where
      3: "createOrPatchSubnet fake_networks_Service n ?v2' = (None, v3)" "quiet v2 v3" by auto
    from 1 2 3 True have "networks_Service_Reconcile fake_networks_Service v = (None, v3)"
      by (simp add: networks_Service_Reconcile_def)
    with 1 2 3 show ?thesis by (auto intro: quiet_trans)
  next
    case False
    let ?v1' = "v1\<lparr>scope := (scope v1)\<lparr>Network :=
                 (Network (scope v1))\<lparr>status_SelfLink := Some (net_SelfLink n)\<rparr>\<rparr>\<rparr>"
    from s 1 c1 have "\<forall>spec\<in>set (SubnetworksSpec (scope ?v1')). subnet_converged (cloud ?v1') (Region (scope ?v1')) spec"
      by simp
    from converged_createOrPatchSubnet [OF this, of n] obtain v3 where
      3: "createOrPatchSubnet fake_networks_Service n ?v1' = (None, v3)" "quiet v1 v3" by auto
    from 1 3 False have "networks_Service_Reconcile fake_networks_Service v = (None, v3)"
      by (simp add: networks_Service_Reconcile_def)
    with 1 3 show ?thesis by (auto intro: quiet_trans)
  qed
qed


lemma fake_call_networks_Insert:
  "call_networks_Insert fake_networks_Service k obj w =
     (case fake_networks_Insert k obj (cloud w) of
        (r, p) \<Rightarrow> (r, w\<lparr>cloud := p, calls := calls w @ [NetworksInsert k obj r]\<rparr>))"
  by (simp add: call_networks_Insert_def fake_networks_Service_def)

lemma fake_call_routers_Insert:
  "call_routers_Insert fake_networks_Service k obj w =
     (case fake_routers_Insert k obj (cloud w) of
        (r, p) \<Rightarrow> (r, w\<lparr>cloud := p, calls := calls w @ [RoutersInsert k obj r]\<rparr>))"
  by (simp add: call_routers_Insert_def fake_networks_Service_def)

lemma fake_call_subnetworks_Insert:
  "call_subnetworks_Insert fake_networks_Service k obj w =
     (case fake_subnetworks_Insert k obj (cloud w) of
        (r, p) \<Rightarrow> (r, w\<lparr>cloud := p, calls := calls w @ [SubnetworksInsert k obj r]\<rparr>))"
  by (simp add: call_subnetworks_Insert_def fake_networks_Service_def)

lemma fake_call_subnetworks_Patch:
  "call_subnetworks_Patch fake_networks_Service k obj w =
     (case fake_subnetworks_Patch k obj (cloud w) of
        (r, p) \<Rightarrow> (r, w\<lparr>cloud := p, calls := calls w @ [SubnetworksPatch k obj r]\<rparr>))"
  by (simp add: call_subnetworks_Patch_def fake_networks_Service_def)

lemma created_network:
  assumes "createOrGetNetwork fake_networks_Service w = (Inr n, w1)"
  shows "fc_networks (cloud w1) (GlobalKey (NetworkName (scope w))) = Some n \<and>
         fc_routers (cloud w1) = fc_routers (cloud w) \<and>
         fc_subnetworks (cloud w1) = fc_subnetworks (cloud w) \<and> scope w1 = scope w"
  using assms
  unfolding createOrGetNetwork_def Let_def fake_call_networks_Get fake_call_networks_Insert
    fake_networks_Insert_def fake_get_def
  by (auto split: option.splits if_splits)

lemma created_router:
  assumes "createOrGetRouter fake_networks_Service n w = (Inr r, w1)"
  shows "fc_routers (cloud w1) (RegionalKey (rtr_Name (NatRouterSpec (scope w))) (Region (scope w))) = Some r \<and>
         fc_networks (cloud w1) = fc_networks (cloud w) \<and>
         fc_subnetworks (cloud w1) = fc_subnetworks (cloud w) \<and>
         Name (scope w1) = Name (scope w) \<and> Region (scope w1) = Region (scope w) \<and>
         NetworkName (scope w1) = NetworkName (scope w) \<and>
         SubnetworksSpec (scope w1) = SubnetworksSpec (scope w) \<and>
         rtr_Name (NatRouterSpec (scope w1)) = rtr_Name (NatRouterSpec (scope w))"
  using assms
  unfolding createOrGetRouter_def Let_def fake_call_routers_Get fake_call_routers_Insert
    fake_routers_Insert_def fake_get_def
  by (auto split: option.splits if_splits)

lemma patched_subnet:
  assumes f: "fc_subnetworks (cloud w) k = Some subnet"
    and p: "patchMergedRanges fake_networks_Service k subnet spec w = (None, w')"
  shows "grows (cloud w) (cloud w') \<and> scope w' = scope w \<and>
         (\<exists>s'. fc_subnetworks (cloud w') k = Some s' \<and> range_names spec \<subseteq> range_names s')"
proof (cases "mergeSecondaryRanges subnet spec = sub_SecondaryIpRanges subnet")
  case True
  with p have "w' = w" by (simp add: patchMergedRanges_def)
  with f True show ?thesis by (simp add: grows_refl merge_unchanged_iff)
next
  case False
  let ?obj = "subnet\<lparr>sub_SecondaryIpRanges := mergeSecondaryRanges subnet spec\<rparr>"
  have rn: "range_names ?obj = range_names subnet \<union> range_names spec"
    using range_names_merge [of subnet spec] by (simp add: range_names_def)
  from False p f have "w' = w\<lparr>cloud := (cloud w)\<lparr>fc_subnetworks := (fc_subnetworks (cloud w))(k \<mapsto> ?obj)\<rparr>,
      calls := calls w @ [SubnetworksPatch k ?obj None]\<rparr>"
    by (simp add: patchMergedRanges_def fake_call_subnetworks_Patch fake_subnetworks_Patch_def Let_def)
  with f rn show ?thesis by (auto simp: grows_def)
qed

lemma reconciled_body:
  assumes "createOrPatchSubnet_body fake_networks_Service n spec w = (None, spec', w')"
  shows "grows (cloud w) (cloud w') \<and> scope w' = scope w \<and>
         subnet_converged (cloud w') (Region (scope w)) spec"
proof -
  let ?k = "RegionalKey (sub_Name spec) (Region (scope w))"
  show ?thesis
  proof (cases "fc_subnetworks (cloud w) ?k")
    case (Some subnet)
    let ?w1 = "w\<lparr>calls := calls w @ [SubnetworksGet ?k (Inr subnet)]\<rparr>"
    from Some assms have p: "patchMergedRanges fake_networks_Service ?k subnet spec ?w1 = (None, w')"
      by (auto simp: createOrPatchSubnet_body_def fake_call_subnetworks_Get fake_get_def Let_def
          split: prod.splits)
    from Some have "fc_subnetworks (cloud ?w1) ?k = Some subnet" by simp
    from patched_subnet [OF this p] show ?thesis
      by (simp add: subnet_converged_def)
  next
    case None
    let ?spec' = "spec\<lparr>sub_Network := net_SelfLink n,
                      sub_Description := ClusterTagKey (Name (scope w))\<rparr>"
    let ?stored = "?spec'\<lparr>sub_SelfLink := selfLinkOf ''subnetworks'' ?k\<rparr>"
    let ?p2 = "(cloud w)\<lparr>fc_subnetworks := (fc_subnetworks (cloud w))(?k \<mapsto> ?stored)\<rparr>"
    let ?w3 = "w\<lparr>cloud := ?p2,
                 calls := calls w @ [SubnetworksGet ?k (Inl NotFound),
                   SubnetworksInsert ?k ?spec' None, SubnetworksGet ?k (Inr ?stored)]\<rparr>"
    from None assms have p: "patchMergedRanges fake_networks_Service ?k ?stored ?spec' ?w3 = (None, w')"
      by (auto simp: createOrPatchSubnet_body_def fake_call_subnetworks_Get fake_get_def Let_def
          fake_call_subnetworks_Insert fake_subnetworks_Insert_def
          split: prod.splits)
    have "fc_subnetworks (cloud ?w3) ?k = Some ?stored" by simp
    from patched_subnet [OF this p] have
      g: "grows ?p2 (cloud w')" and sc: "scope w' = scope w"
      and c: "\<exists>s'. fc_subnetworks (cloud w') ?k = Some s' \<and> range_names ?spec' \<subseteq> range_names s'"
      by simp_all
    from None have "grows (cloud w) ?p2" by (auto simp: grows_def)
    with g have "grows (cloud w) (cloud w')" by (blast intro: grows_trans)
    moreover have "range_names ?spec' = range_names spec" by (simp add: range_names_def)
    ultimately show ?thesis using sc c by (simp add: subnet_converged_def)
  qed
qed

lemma reconciled_loop:
  "createOrPatchSubnet_loop fake_networks_Service n specs w = (None, specs', w') \<Longrightarrow>
   grows (cloud w) (cloud w') \<and> scope w' = scope w \<and>
   (\<forall>spec\<in>set specs. subnet_converged (cloud w') (Region (scope w)) spec)"
proof (induction specs arbitrary: w specs' w')
  case Nil
  then show ?case by (simp add: grows_refl)
next
  case (Cons spec specs)
  obtain r1 spec1 w1 where b: "createOrPatchSubnet_body fake_networks_Service n spec w = (r1, spec1, w1)"
    by (cases "createOrPatchSubnet_body fake_networks_Service n spec w") auto
  show ?case
  proof (cases r1)
    case (Some err)
    with Cons.prems b show ?thesis by simp
  next
    case None
    obtain r2 specs2 w2 where l: "createOrPatchSubnet_loop fake_networks_Service n specs w1 = (r2, specs2, w2)"
      by (cases "createOrPatchSubnet_loop fake_networks_Service n specs w1") auto
    with None Cons.prems b have e: "r2 = None" "w' = w2" by simp_all
    note 1 = reconciled_body [OF b [unfolded None]]
    note 2 = Cons.IH [OF l [unfolded e(1)]]
    from 1 2 e show ?thesis
      by (auto intro: grows_trans subnet_converged_grows)
  qed
qed

lemma reconciled_createOrPatchSubnet:
  assumes "createOrPatchSubnet fake_networks_Service n w = (None, w')"
  shows "grows (cloud w) (cloud w') \<and>
     (\<forall>spec\<in>set (SubnetworksSpec (scope w)). subnet_converged (cloud w') (Region (scope w)) spec)"
proof -
  obtain r1 specs1 w1 where l: "createOrPatchSubnet_loop fake_networks_Service n (SubnetworksSpec (scope w)) w = (r1, specs1, w1)"
    by (cases "createOrPatchSubnet_loop fake_networks_Service n (SubnetworksSpec (scope w)) w") auto
  with assms have "r1 = None" "cloud w' = cloud w1"
    by (auto simp: createOrPatchSubnet_def)
  with reconciled_loop [OF l [unfolded \<open>r1 = None\<close>]] show ?thesis by simp
qed

lemma reconciled_converged:
  assumes "networks_Service_Reconcile fake_networks_Service w = (None, w')"
  shows "net_converged (scope w) (cloud w')"
proof (cases rule: Reconcile_cases [of fake_networks_Service w])
  case (network_fails err w1)
  with assms show ?thesis by simp
next
  case (router_fails network w1 err w2)
  with assms show ?thesis by simp
next
  case (owned network w1 router w2)
  note 1 = created_network [OF owned(1)]
  note 2 = created_router [OF owned(3)]
  from reconciled_createOrPatchSubnet [OF assms [unfolded owned(4)]]
  have 3: "grows (cloud w2) (cloud w')"
    "\<forall>spec\<in>set (SubnetworksSpec (scope w2)). subnet_converged (cloud w') (Region (scope w2)) spec"
    by simp_all
  from 1 2 3 show ?thesis
    by (auto simp: net_converged_def grows_def)
next
  case (foreign network w1)
  note 1 = created_network [OF foreign(1)]
  from reconciled_createOrPatchSubnet [OF assms [unfolded foreign(3)]]
  have 3: "grows (cloud w1) (cloud w')"
    "\<forall>spec\<in>set (SubnetworksSpec (scope w1)). subnet_converged (cloud w') (Region (scope w1)) spec"
    by simp_all
  from 1 3 foreign(2) show ?thesis
    by (auto simp: net_converged_def grows_def)
qed

lemma subnet_converged_stamped:
  "subnet_converged p region (stamped_subnet link tag spec) = subnet_converged p region spec"
  by (simp add: subnet_converged_def stamped_subnet_def range_names_def)

lemma list_all2_right:
  assumes "list_all2 P xs ys" and "y \<in> set ys"
  shows "\<exists>x\<in>set xs. P x y"
  using assms by (induction rule: list_all2_induct) auto

lemma net_converged_written:
  assumes "spec_written sc sc'" and "net_converged sc p"
  shows "net_converged sc' p"
proof -
  from assms(1) obtain link where
    eq: "Name sc' = Name sc" "Region sc' = Region sc" "NetworkName sc' = NetworkName sc"
    and r: "NatRouterSpec sc' = NatRouterSpec sc \<or>
            NatRouterSpec sc' = stamped_router link (ClusterTagKey (Name sc)) (NatRouterSpec sc)"
    and l: "list_all2 (\<lambda>spec spec'. spec' = spec \<or>
                     spec' = stamped_subnet link (ClusterTagKey (Name sc)) spec)
              (SubnetworksSpec sc) (SubnetworksSpec sc')"
    by (auto simp: spec_written_def)
  from r have rn: "rtr_Name (NatRouterSpec sc') = rtr_Name (NatRouterSpec sc)"
    by (auto simp: stamped_router_def)
  have "\<forall>spec'\<in>set (SubnetworksSpec sc'). subnet_converged p (Region sc) spec'"
  proof
    fix spec' assume a: "spec' \<in> set (SubnetworksSpec sc')"
    from list_all2_right [OF l a] obtain spec where "spec \<in> set (SubnetworksSpec sc)"
      "spec' = spec \<or> spec' = stamped_subnet link (ClusterTagKey (Name sc)) spec"
      by blast
    with assms(2) show "subnet_converged p (Region sc) spec'"
      by (auto simp: net_converged_def subnet_converged_stamped)
  qed
  with assms(2) eq rn show ?thesis by (simp add: net_converged_def)
qed

lemma networks_Reconcile_twice:
  assumes "networks_Service_Reconcile fake_networks_Service w = (None, w1)"
    and "sc2 = scope w1 \<or> sc2 = scope w"
  shows "fst (networks_Service_Reconcile fake_networks_Service (w1\<lparr>scope := sc2\<rparr>)) = None \<and>
         filter is_mutation (new_calls (w1\<lparr>scope := sc2\<rparr>)
            (snd (networks_Service_Reconcile fake_networks_Service (w1\<lparr>scope := sc2\<rparr>)))) = [] \<and>
         cloud (snd (networks_Service_Reconcile fake_networks_Service (w1\<lparr>scope := sc2\<rparr>))) = cloud w1"
proof -
  note c = reconciled_converged [OF assms(1)]
  from Reconcile_spec_written [of w fake_networks_Service] assms(1)
  have "spec_written (scope w) (scope w1)" by simp
  from net_converged_written [OF this c] c assms(2)
  have "net_converged (scope (w1\<lparr>scope := sc2\<rparr>)) (cloud (w1\<lparr>scope := sc2\<rparr>))" by auto
  from converged_Reconcile [OF this] show ?thesis
    using quiet_new_calls [of "w1\<lparr>scope := sc2\<rparr>"
        "snd (networks_Service_Reconcile fake_networks_Service (w1\<lparr>scope := sc2\<rparr>))"]
    by simp
qed


lemma fake_call_instances_Get:
  "call_instances_Get fake_instances_Service k w =
     (fake_get (map_of (fc_instances (cloud w))) k,
      w\<lparr>calls := calls w @ [InstancesGet k (fake_get (map_of (fc_instances (cloud w))) k)]\<rparr>)"
  by (simp add: call_instances_Get_def fake_instances_Service_def)

lemma fake_call_instances_Insert:
  "call_instances_Insert fake_instances_Service k obj w =
     (case fake_instances_Insert k obj (cloud w) of
        (r, p) \<Rightarrow> (r, w\<lparr>cloud := p, calls := calls w @ [InstancesInsert k obj r]\<rparr>))"
  by (simp add: call_instances_Insert_def fake_instances_Service_def)

lemma fake_call_ListInstances:
  "call_instancegroups_ListInstances fake_instances_Service k st w =
     (fst (fake_ListInstances k st (cloud w)),
      w\<lparr>calls := calls w @ [InstanceGroupsListInstances k st (fst (fake_ListInstances k st (cloud w)))]\<rparr>)"
  by (auto simp: call_instancegroups_ListInstances_def fake_instances_Service_def
      fake_ListInstances_def split: option.splits)

lemma fake_call_AddInstances:
  "call_instancegroups_AddInstances fake_instances_Service k refs w =
     (case fake_AddInstances k refs (cloud w) of
        (r, p) \<Rightarrow> (r, w\<lparr>cloud := p, calls := calls w @ [InstanceGroupsAddInstances k refs r]\<rparr>))"
  by (simp add: call_instancegroups_AddInstances_def fake_instances_Service_def)

lemma stored_member_in_state:
  "map_of (fc_instances p) k = Some x \<Longrightarrow> member_in_state p (ins_Status x) (ins_SelfLink x)"
  unfolding member_in_state_def list_ex_iff
  by (auto dest!: map_of_SomeD intro!: bexI [of _ "(k, x)"])

lemma converged_createOrGetInstance:
  assumes "GetBootstrapData (scope v) = Inr bootstrapData"
    and "ins_Metadata (InstanceSpec (scope v)) = Some items"
    and "map_of (fc_instances (cloud v)) (ZonalKey (ins_Name (InstanceSpec (scope v))) (Zone (scope v))) = Some x"
  shows "\<exists>v1. createOrGetInstance fake_instances_Service v = (Inr x, v1) \<and> quiet v v1 \<and>
     scope v1 = (scope v)\<lparr>InstanceSpec :=
        (InstanceSpec (scope v))\<lparr>ins_Metadata := Some (items @ [user_data bootstrapData])\<rparr>\<rparr>"
  using assms quiet_read [of "InstancesGet (ZonalKey (ins_Name (InstanceSpec (scope v))) (Zone (scope v))) (Inr x)"
      "v\<lparr>scope := (scope v)\<lparr>InstanceSpec :=
        (InstanceSpec (scope v))\<lparr>ins_Metadata := Some (items @ [user_data bootstrapData])\<rparr>\<rparr>\<rparr>"]
  by (simp add: createOrGetInstance_def fake_call_instances_Get fake_get_def Let_def)

lemma converged_register:
  assumes "fc_groups (cloud v) (ZonalKey (ControlPlaneGroupName (scope v)) (Zone (scope v))) = Some members"
    and "map_of (fc_instances (cloud v)) k = Some x"
    and "ins_Status x = InstanceStatusRunning \<longrightarrow> ins_SelfLink x \<in> set members"
  shows "fst (registerControlPlaneInstance fake_instances_Service x v) = None \<and>
         quiet v (snd (registerControlPlaneInstance fake_instances_Service x v))"
proof -
  from stored_member_in_state [OF assms(2)] assms(3)
  have "ins_Status x = InstanceStatusRunning \<longrightarrow>
        ins_SelfLink x \<in> set (filter (member_in_state (cloud v) ''RUNNING'') members)"
    by (auto simp: InstanceStatusRunning_def)
  with assms(1) show ?thesis
    by (auto simp: registerControlPlaneInstance_def fake_call_ListInstances fake_ListInstances_def
        instanceSets_eq Let_def image_image quiet_read)
qed

lemma converged_instances_Reconcile:
  assumes "machine_converged (scope v) (cloud v)"
  shows "fst (instances_Service_Reconcile fake_instances_Service v) = None \<and>
         quiet v (snd (instances_Service_Reconcile fake_instances_Service v))"
proof -
  from assms obtain bootstrapData items x where
    b: "GetBootstrapData (scope v) = Inr bootstrapData"
    and m: "ins_Metadata (InstanceSpec (scope v)) = Some items"
    and i: "map_of (fc_instances (cloud v)) (ZonalKey (ins_Name (InstanceSpec (scope v))) (Zone (scope v))) = Some x"
    and g: "IsControlPlane (scope v) \<longrightarrow>
           (\<exists>members. fc_groups (cloud v) (ZonalKey (ControlPlaneGroupName (scope v)) (Zone (scope v))) = Some members \<and>
              (ins_Status x = InstanceStatusRunning \<longrightarrow> ins_SelfLink x \<in> set members))"
    unfolding machine_converged_def by blast
  from converged_createOrGetInstance [OF b m i] obtain v1 where
    1: "createOrGetInstance fake_instances_Service v = (Inr x, v1)" "quiet v v1"
       "scope v1 = (scope v)\<lparr>InstanceSpec :=
        (InstanceSpec (scope v))\<lparr>ins_Metadata := Some (items @ [user_data bootstrapData])\<rparr>\<rparr>"
    by auto
  then have c1: "cloud v1 = cloud v" by (simp add: quiet_def)
  let ?v2 = "v1\<lparr>scope := (scope v1)\<lparr>ProviderIDSet := True, Addresses := nodeAddresses x,
                      InstanceStatus := Some (ins_Status x)\<rparr>\<rparr>"
  show ?thesis
  proof (cases "IsControlPlane (scope v)")
    case False
    with 1 have "instances_Service_Reconcile fake_instances_Service v = (None, ?v2)"
      by (simp add: instances_Service_Reconcile_def Let_def)
    with 1 show ?thesis by simp
  next
    case True
    with g obtain members where
      "fc_groups (cloud v) (ZonalKey (ControlPlaneGroupName (scope v)) (Zone (scope v))) = Some members"
      "ins_Status x = InstanceStatusRunning \<longrightarrow> ins_SelfLink x \<in> set members" by blast
    with 1 c1 i have
      "fc_groups (cloud ?v2) (ZonalKey (ControlPlaneGroupName (scope ?v2)) (Zone (scope ?v2))) = Some members"
      "map_of (fc_instances (cloud ?v2)) (ZonalKey (ins_Name (InstanceSpec (scope v))) (Zone (scope v))) = Some x"
      "ins_Status x = InstanceStatusRunning \<longrightarrow> ins_SelfLink x \<in> set members"
      by simp_all
    from converged_register [OF this] have
      "fst (registerControlPlaneInstance fake_instances_Service x ?v2) = None"
      "quiet v1 (snd (registerControlPlaneInstance fake_instances_Service x ?v2))" by simp_all
    moreover from True 1 have "instances_Service_Reconcile fake_instances_Service v =
        registerControlPlaneInstance fake_instances_Service x ?v2"
      by (simp add: instances_Service_Reconcile_def Let_def)
    ultimately show ?thesis using 1 by (auto intro: quiet_trans)
  qed
qed


lemma created_instance:
  assumes "createOrGetInstance fake_instances_Service m = (Inr x, m')"
  shows "\<exists>bootstrapData items.
     GetBootstrapData (scope m) = Inr bootstrapData \<and>
     ins_Metadata (InstanceSpec (scope m)) = Some items \<and>
     map_of (fc_instances (cloud m')) (ZonalKey (ins_Name (InstanceSpec (scope m))) (Zone (scope m))) = Some x \<and>
     fc_groups (cloud m') = fc_groups (cloud m) \<and>
     scope m' = (scope m)\<lparr>InstanceSpec :=
        (InstanceSpec (scope m))\<lparr>ins_Metadata := Some (items @ [user_data bootstrapData])\<rparr>\<rparr>"
  using assms
  unfolding createOrGetInstance_def Let_def fake_call_instances_Get fake_call_instances_Insert
    fake_instances_Insert_def fake_get_def
  by (auto split: sum.splits option.splits if_splits simp: map_add_Some_iff)

lemma registered:
  assumes "registerControlPlaneInstance fake_instances_Service x v = (None, v')"
  shows "fc_instances (cloud v') = fc_instances (cloud v) \<and> scope v' = scope v \<and>
     (\<exists>members. fc_groups (cloud v') (ZonalKey (ControlPlaneGroupName (scope v)) (Zone (scope v))) = Some members \<and>
        (ins_Status x = InstanceStatusRunning \<longrightarrow> ins_SelfLink x \<in> set members))"
  using assms
  unfolding registerControlPlaneInstance_def Let_def fake_call_ListInstances fake_call_AddInstances
    fake_ListInstances_def fake_AddInstances_def instanceSets_eq
  by (auto split: sum.splits option.splits if_splits simp: image_image)

lemma reconciled_machine_converged:
  assumes "instances_Service_Reconcile fake_instances_Service m = (None, m1)"
  shows "machine_converged (scope m) (cloud m1) \<and> machine_converged (scope m1) (cloud m1)"
proof -
  obtain r1 m' where c: "createOrGetInstance fake_instances_Service m = (r1, m')"
    by (cases "createOrGetInstance fake_instances_Service m") auto
  show ?thesis
  proof (cases r1)
    case (Inl err)
    with assms c show ?thesis by (simp add: instances_Service_Reconcile_def)
  next
    case (Inr x)
    from created_instance [OF c [unfolded Inr]] obtain bootstrapData items where
      1: "GetBootstrapData (scope m) = Inr bootstrapData"
         "ins_Metadata (InstanceSpec (scope m)) = Some items"
         "map_of (fc_instances (cloud m')) (ZonalKey (ins_Name (InstanceSpec (scope m))) (Zone (scope m))) = Some x"
         "scope m' = (scope m)\<lparr>InstanceSpec :=
            (InstanceSpec (scope m))\<lparr>ins_Metadata := Some (items @ [user_data bootstrapData])\<rparr>\<rparr>"
      by blast
    let ?m2 = "m'\<lparr>scope := (scope m')\<lparr>ProviderIDSet := True, Addresses := nodeAddresses x,
                      InstanceStatus := Some (ins_Status x)\<rparr>\<rparr>"
    show ?thesis
    proof (cases "IsControlPlane (scope m)")
      case False
      with assms c Inr 1 have "m1 = ?m2"
        by (simp add: instances_Service_Reconcile_def Let_def)
      with 1 False show ?thesis by (simp add: machine_converged_def)
    next
      case True
      with assms c Inr 1 have "registerControlPlaneInstance fake_instances_Service x ?m2 = (None, m1)"
        by (simp add: instances_Service_Reconcile_def Let_def)
      from registered [OF this] 1 show ?thesis
        by (auto simp: machine_converged_def)
    qed
  qed
qed

lemma instances_Reconcile_twice:
  assumes "instances_Service_Reconcile fake_instances_Service m = (None, m1)"
    and "sc2 = scope m1 \<or> sc2 = scope m"
  shows "fst (instances_Service_Reconcile fake_instances_Service (m1\<lparr>scope := sc2\<rparr>)) = None \<and>
         filter is_mutation (new_calls (m1\<lparr>scope := sc2\<rparr>)
            (snd (instances_Service_Reconcile fake_instances_Service (m1\<lparr>scope := sc2\<rparr>)))) = [] \<and>
         cloud (snd (instances_Service_Reconcile fake_instances_Service (m1\<lparr>scope := sc2\<rparr>))) = cloud m1"
proof -
  from reconciled_machine_converged [OF assms(1)] assms(2)
  have "machine_converged (scope (m1\<lparr>scope := sc2\<rparr>)) (cloud (m1\<lparr>scope := sc2\<rparr>))" by auto
  from converged_instances_Reconcile [OF this] show ?thesis
    using quiet_new_calls [of "m1\<lparr>scope := sc2\<rparr>"
        "snd (instances_Service_Reconcile fake_instances_Service (m1\<lparr>scope := sc2\<rparr>))"]
    by simp
qed

text \<open>
  Claim C4. On the in-memory provider, a Reconcile that follows a successful Reconcile
  with the same desired spec and the provider state the first one left issues only Get
  and List calls, succeeds, and leaves the provider state as it is. This holds for the
  network reconciler and for the instance reconciler, whether the scope hands out the
  spec objects of the first call again (\<open>sc2 = scope w1\<close>) or fresh ones (\<open>sc2 = scope w\<close>).
\<close>

theorem Reconcile_idempotent:
  "(networks_Service_Reconcile fake_networks_Service w = (None, w1) \<and>
    (sc2 = scope w1 \<or> sc2 = scope w) \<longrightarrow>
      fst (networks_Service_Reconcile fake_networks_Service (w1\<lparr>scope := sc2\<rparr>)) = None \<and>
      filter is_mutation (new_calls (w1\<lparr>scope := sc2\<rparr>)
         (snd (networks_Service_Reconcile fake_networks_Service (w1\<lparr>scope := sc2\<rparr>)))) = [] \<and>
      cloud (snd (networks_Service_Reconcile fake_networks_Service (w1\<lparr>scope := sc2\<rparr>))) = cloud w1) \<and>
   (instances_Service_Reconcile fake_instances_Service m = (None, m1) \<and>
    (msc2 = scope m1 \<or> msc2 = scope m) \<longrightarrow>
      fst (instances_Service_Reconcile fake_instances_Service (m1\<lparr>scope := msc2\<rparr>)) = None \<and>
      filter is_mutation (new_calls (m1\<lparr>scope := msc2\<rparr>)
         (snd (instances_Service_Reconcile fake_instances_Service (m1\<lparr>scope := msc2\<rparr>)))) = [] \<and>
      cloud (snd (instances_Service_Reconcile fake_instances_Service (m1\<lparr>scope := msc2\<rparr>))) = cloud m1)"
proof (rule conjI; rule impI)
  assume a: "networks_Service_Reconcile fake_networks_Service w = (None, w1) \<and>
    (sc2 = scope w1 \<or> sc2 = scope w)"
  from networks_Reconcile_twice [OF conjunct1 [OF a] conjunct2 [OF a]]
  show "fst (networks_Service_Reconcile fake_networks_Service (w1\<lparr>scope := sc2\<rparr>)) = None \<and>
      filter is_mutation (new_calls (w1\<lparr>scope := sc2\<rparr>)
         (snd (networks_Service_Reconcile fake_networks_Service (w1\<lparr>scope := sc2\<rparr>)))) = [] \<and>
      cloud (snd (networks_Service_Reconcile fake_networks_Service (w1\<lparr>scope := sc2\<rparr>))) = cloud w1" .
next
  assume a: "instances_Service_Reconcile fake_instances_Service m = (None, m1) \<and>
    (msc2 = scope m1 \<or> msc2 = scope m)"
  from instances_Reconcile_twice [OF conjunct1 [OF a] conjunct2 [OF a]]
  show "fst (instances_Service_Reconcile fake_instances_Service (m1\<lparr>scope := msc2\<rparr>)) = None \<and>
      filter is_mutation (new_calls (m1\<lparr>scope := msc2\<rparr>)
         (snd (instances_Service_Reconcile fake_instances_Service (m1\<lparr>scope := msc2\<rparr>)))) = [] \<and>
      cloud (snd (instances_Service_Reconcile fake_instances_Service (m1\<lparr>scope := msc2\<rparr>))) = cloud m1" .
qed

theorem Reconcile_idempotent_witness:
  "fst (networks_Service_Reconcile fake_networks_Service (foreign_world (Some [rangeA]))) = None \<and>
   filter is_mutation (new_calls (foreign_world (Some [rangeA]))
      (snd (networks_Service_Reconcile fake_networks_Service (foreign_world (Some [rangeA]))))) =
     [SubnetworksPatch (RegionalKey ''sub1'' ''r1'') (sub1_foreign (Some [rangeA, rangeB])) None] \<and>
   new_calls
      ((snd (networks_Service_Reconcile fake_networks_Service (foreign_world (Some [rangeA]))))
         \<lparr>scope := c1_scope\<rparr>)
      (snd (networks_Service_Reconcile fake_networks_Service
         ((snd (networks_Service_Reconcile fake_networks_Service (foreign_world (Some [rangeA]))))
            \<lparr>scope := c1_scope\<rparr>))) =
     [NetworksGet (GlobalKey ''net1'') (Inr net1_foreign),
      SubnetworksGet (RegionalKey ''sub1'' ''r1'') (Inr (sub1_foreign (Some [rangeA, rangeB])))] \<and>
   fst (instances_Service_Reconcile fake_instances_Service (cp1_world ''RUNNING'' [])) = None \<and>
   filter is_mutation (new_calls (cp1_world ''RUNNING'' [])
      (snd (instances_Service_Reconcile fake_instances_Service (cp1_world ''RUNNING'' [])))) =
     [InstanceGroupsAddInstances (ZonalKey ''c1-apiserver-z1'' ''z1'') [cp1_link] None] \<and>
   new_calls
      ((snd (instances_Service_Reconcile fake_instances_Service (cp1_world ''RUNNING'' [])))
         \<lparr>scope := cp1_scope\<rparr>)
      (snd (instances_Service_Reconcile fake_instances_Service
         ((snd (instances_Service_Reconcile fake_instances_Service (cp1_world ''RUNNING'' [])))
            \<lparr>scope := cp1_scope\<rparr>))) =
     [InstancesGet (ZonalKey ''cp1'' ''z1'') (Inr (cp1_vm ''RUNNING'')),
      InstanceGroupsListInstances (ZonalKey ''c1-apiserver-z1'' ''z1'') ''RUNNING''
        (Inr [\<lparr>iwnp_Instance = cp1_link, iwnp_Status = ''RUNNING''\<rparr>])]"
  using Reconcile_idempotent [of "foreign_world (Some [rangeA])"
      "snd (networks_Service_Reconcile fake_networks_Service (foreign_world (Some [rangeA])))"
      c1_scope "cp1_world ''RUNNING'' []"
      "snd (instances_Service_Reconcile fake_instances_Service (cp1_world ''RUNNING'' []))"
      cp1_scope]
  by (simp add: networks_defs example_defs instances_defs machine_defs ClusterTagKey_def)

end
